theory Spec2Isabelle
  imports Main
begin

section \<open>Shared data model\<close>

text \<open>
  Go's \<open>time.Time\<close>: the zero value (\<open>time.Time{}\<close>, for which \<open>IsZero()\<close> holds)
  or a moment read from the clock. \<open>time.Now()\<close> never returns the zero value.
\<close>

datatype time = ZeroTime | At nat

fun IsZero :: "time \<Rightarrow> bool" where
  "IsZero ZeroTime = True"
| "IsZero (At t) = False"

text \<open>
  \<open>models.WorkSummary\<close> (under src/models): the per-stage result. The workers also
  read and write \<open>ErrorIsFatal\<close> on it.
\<close>

record WorkSummary =
  Attempted :: bool
  AttemptNumber :: int
  Errors :: "string list"
  StartedAt :: time
  FinishedAt :: time
  Retry :: bool
  ErrorIsFatal :: bool

definition NewWorkSummary :: WorkSummary where
  "NewWorkSummary = \<lparr> Attempted = False, AttemptNumber = 0, Errors = [],
     StartedAt = ZeroTime, FinishedAt = ZeroTime, Retry = True, ErrorIsFatal = False \<rparr>"

text \<open>\<open>AddError\<close> appends the message that \<open>fmt.Sprintf\<close> built from its arguments.\<close>

definition AddError :: "string \<Rightarrow> WorkSummary \<Rightarrow> WorkSummary" where
  "AddError msg s = s\<lparr> Errors := Errors s @ [msg] \<rparr>"

definition HasErrors :: "WorkSummary \<Rightarrow> bool" where
  "HasErrors s = (length (Errors s) > 0)"

definition Start :: "nat \<Rightarrow> WorkSummary \<Rightarrow> WorkSummary" where
  "Start now s = s\<lparr> StartedAt := At now \<rparr>"

definition Finish :: "nat \<Rightarrow> WorkSummary \<Rightarrow> WorkSummary" where
  "Finish now s = s\<lparr> FinishedAt := At now \<rparr>"

section \<open>network/s3\_upload.go: part size and concurrency of an upload\<close>

text \<open>
  \<open>s3manager.MinUploadPartSize\<close>, \<open>DefaultUploadPartSize\<close> and
  \<open>DefaultUploadConcurrency\<close> are constants of the AWS SDK: 5 MiB, 5 MiB and 5.
  \<open>s3manager.NewUploader\<close> starts from the defaults.
\<close>

definition MinUploadPartSize :: int where
  "MinUploadPartSize = 1024 * 1024 * 5"

record Uploader =
  PartSize :: int
  Concurrency :: int

definition NewUploader :: Uploader where
  "NewUploader = \<lparr> PartSize = MinUploadPartSize, Concurrency = 5 \<rparr>"

text \<open>
  The ladder of \<open>S3Upload.Send\<close>: the uploader as configured just before
  \<open>uploader.Upload\<close> is called, as a function of the \<open>size\<close> argument (an int64;
  the products of the constants stay far below \<open>2^63\<close>, so nothing wraps).
\<close>

definition Send_uploader :: "int \<Rightarrow> Uploader" where
  "Send_uploader sz =
    (if sz < MinUploadPartSize then
       NewUploader\<lparr> PartSize := MinUploadPartSize \<rparr>
     else if sz \<ge> MinUploadPartSize * 100 \<and> sz < MinUploadPartSize * 1000 then
       NewUploader\<lparr> PartSize := 128 * 1024 * 1024, Concurrency := 2 \<rparr>
     else if sz \<ge> MinUploadPartSize * 1000 \<and> sz < MinUploadPartSize * 10000 then
       NewUploader\<lparr> PartSize := 512 * 1024 * 1024, Concurrency := 1 \<rparr>
     else
       NewUploader\<lparr> PartSize := 1024 * 1024 * 1024, Concurrency := 1 \<rparr>)"

definition ChunkSize :: "int \<Rightarrow> int" where
  "ChunkSize sz = PartSize (Send_uploader sz)"

definition MiB :: int where
  "MiB = 1024 * 1024"

definition GiB :: int where
  "GiB = 1024 * 1024 * 1024"

text \<open>The ladder as the specification words it, for comparison with \<open>ChunkSize\<close>.\<close>

definition spec_ladder :: "int \<Rightarrow> int" where
  "spec_ladder sz =
    (if sz < 500 * MiB then 5 * MiB
     else if sz < 5 * GiB then 128 * MiB
     else if sz < 50 * GiB then 512 * MiB
     else GiB)"

section \<open>The bag validator (package workers, \<open>BagValidator\<close>)\<close>

text \<open>
  \<open>models.GenericFile\<close>, \<open>models.Tag\<close> and \<open>models.IntellectualObject\<close>: the type
  declarations are not under src/; the fields are the ones the workers read and write.
  Of a PREMIS event the model keeps the event type.
\<close>

record GenericFile =
  Id :: int
  Identifier :: string
  IntellectualObjectIdentifier :: string
  IntellectualObjectId :: int
  Size :: int
  FileFormat :: string
  URI :: string
  IngestUUID :: string
  IngestMd5 :: string
  IngestSha256 :: string
  IngestManifestMd5 :: string
  IngestManifestSha256 :: string
  IngestMd5VerifiedAt :: time
  IngestSha256VerifiedAt :: time
  IngestNeedsSave :: bool
  IngestPreviousVersionExists :: bool
  IngestStoredAt :: time
  IngestStorageURL :: string
  IngestReplicatedAt :: time
  IngestReplicationURL :: string
  IngestErrorMessage :: string

record Tag =
  SourceFile :: string
  Label :: string
  Value :: string

record IntellectualObject =
  ObjectId :: int
  ObjectIdentifier :: string
  BagName :: string
  Institution :: string
  IngestTarFilePath :: string
  IngestUntarredPath :: string
  GenericFiles :: "GenericFile list"
  IngestTags :: "Tag list"
  PremisEvents :: "string list"
  IngestFilesIgnored :: "string list"
  ObjectIngestErrorMessage :: string
  IngestDeletedFromReceivingAt :: time

text \<open>The presence constants of package config, which are strings.\<close>

definition REQUIRED :: string where
  "REQUIRED = ''REQUIRED''"

definition FORBIDDEN :: string where
  "FORBIDDEN = ''FORBIDDEN''"

definition OPTIONAL :: string where
  "OPTIONAL = ''OPTIONAL''"

record FileSpec =
  FilePresence :: string
  ParseAsTagFile :: bool

record TagSpec =
  Presence :: string
  EmptyOK :: bool
  AllowedValues :: "string list"

text \<open>
  A Go map is iterated in an unspecified order: \<open>FileSpecs\<close> and \<open>TagSpecs\<close> are
  the lists of key/value pairs in the order one iteration visits them.
\<close>

record BagValidationConfig =
  FileSpecs :: "(string \<times> FileSpec) list"
  TagSpecs :: "(string \<times> TagSpec) list"

text \<open>A runtime panic of Go, which ends the call with no result.\<close>

datatype go_panic = IndexOutOfRange | NilPointerDereference

definition quoted :: "string \<Rightarrow> string" where
  "quoted s = CHR 0x27 # s @ [CHR 0x27]"

text \<open>\<open>strings.Join\<close>.\<close>

fun Join :: "string list \<Rightarrow> string \<Rightarrow> string" where
  "Join [] sep = []"
| "Join [x] sep = x"
| "Join (x # y # ys) sep = x @ sep @ Join (y # ys) sep"

definition AllErrorsAsString :: "WorkSummary \<Rightarrow> string" where
  "AllErrorsAsString s = (if length (Errors s) > 0 then Join (Errors s) [CHR 0x0A] else [])"

text \<open>
  \<open>strings.ToLower\<close> and \<open>strings.TrimSpace\<close> on ASCII text (a string is its list
  of bytes; tag values outside ASCII are not modelled).
\<close>

definition lower_char :: "char \<Rightarrow> char" where
  "lower_char c = (let n = (of_char c :: nat) in if 65 \<le> n \<and> n \<le> 90 then char_of (n + 32) else c)"

definition ToLower :: "string \<Rightarrow> string" where
  "ToLower s = map lower_char s"

definition is_space :: "char \<Rightarrow> bool" where
  "is_space c = ((of_char c :: nat) \<in> {9, 10, 11, 12, 13, 32})"

definition TrimSpace :: "string \<Rightarrow> string" where
  "TrimSpace s = rev (dropWhile is_space (rev (dropWhile is_space s)))"

text \<open>
  \<open>verifyFileSpecs\<close>. \<open>findGenericFile\<close> stands for
  \<open>result.IntellectualObject.FindGenericFile\<close> (not under src/).
\<close>

fun verifyFileSpecs ::
  "(string \<Rightarrow> GenericFile option) \<Rightarrow> (string \<times> FileSpec) list \<Rightarrow> WorkSummary \<Rightarrow> WorkSummary"
where
  "verifyFileSpecs findGenericFile [] vs = vs"
| "verifyFileSpecs findGenericFile ((gfPath, fileSpec) # rest) vs =
    (let gf = findGenericFile gfPath in
     if gf = None \<and> FilePresence fileSpec = REQUIRED then
       verifyFileSpecs findGenericFile rest
         (AddError (''Required file '' @ quoted gfPath @ '' is missing.'') vs)
     else if gf \<noteq> None \<and> FilePresence fileSpec = FORBIDDEN then
       verifyFileSpecs findGenericFile rest
         (AddError (''Bag contains forbidden file '' @ quoted gfPath @ ''.'') vs)
     else verifyFileSpecs findGenericFile rest vs)"

text \<open>\<open>checkRequiredTag\<close>: a nil slice of tags is the empty list.\<close>

definition checkRequiredTag ::
  "WorkSummary \<Rightarrow> string \<Rightarrow> Tag list \<Rightarrow> TagSpec \<Rightarrow> WorkSummary"
where
  "checkRequiredTag vs tagName tags tagSpec =
    (if tags = [] then AddError (''Required tag '' @ quoted tagName @ '' is missing.'') vs
     else if \<not> EmptyOK tagSpec then
       (if list_ex (\<lambda>tag. Value tag \<noteq> []) tags then vs
        else AddError (''Value for tag '' @ quoted tagName @ '' is missing.'') vs)
     else vs)"

text \<open>
  \<open>checkAllowedTagValue\<close>: the two nested loops, carrying \<open>(valueOk, lastValue)\<close>.
\<close>

fun allowed_inner :: "string \<Rightarrow> Tag list \<Rightarrow> bool \<times> string \<Rightarrow> bool \<times> string" where
  "allowed_inner v [] st = st"
| "allowed_inner v (tag # tags) (valueOk, lastValue) =
    (let lcValue = TrimSpace (ToLower v);
         tagValue = TrimSpace (ToLower (Value tag))
     in allowed_inner v tags (if lcValue = tagValue then True else valueOk, tagValue))"

fun allowed_outer :: "string list \<Rightarrow> Tag list \<Rightarrow> bool \<times> string \<Rightarrow> bool \<times> string" where
  "allowed_outer [] tags st = st"
| "allowed_outer (v # vals) tags st = allowed_outer vals tags (allowed_inner v tags st)"

definition checkAllowedTagValue ::
  "WorkSummary \<Rightarrow> string \<Rightarrow> Tag list \<Rightarrow> TagSpec \<Rightarrow> WorkSummary"
where
  "checkAllowedTagValue vs tagName tags tagSpec =
    (case allowed_outer (AllowedValues tagSpec) tags (False, []) of
       (valueOk, lastValue) \<Rightarrow>
         if \<not> valueOk then
           AddError (''Tag '' @ quoted tagName @ '' has illegal value '' @ quoted lastValue @ ''.'') vs
         else vs)"

text \<open>
  \<open>verifyTagSpecs\<close>. \<open>findTag\<close> stands for \<open>result.IntellectualObject.FindTag\<close>
  (not under src/): the tags of the bag with that name, none (nil) when the bag has no
  such tag. In the FORBIDDEN branch the source reads \<open>tags[0]\<close> without looking at
  the length of \<open>tags\<close>: on an empty slice Go panics.
\<close>

definition forbidden_tag_error :: "string \<Rightarrow> string \<Rightarrow> string" where
  "forbidden_tag_error tagName sourceFile =
     ''Forbidden tag '' @ quoted tagName @ '' found in file '' @ quoted sourceFile @ ''.''"

fun verifyTagSpecs ::
  "(string \<Rightarrow> Tag list) \<Rightarrow> (string \<times> TagSpec) list \<Rightarrow> WorkSummary \<Rightarrow> go_panic + WorkSummary"
where
  "verifyTagSpecs findTag [] vs = Inr vs"
| "verifyTagSpecs findTag ((tagName, tagSpec) # rest) vs =
    (let tags = findTag tagName in
     if Presence tagSpec = FORBIDDEN then
       (case tags of
          [] \<Rightarrow> Inl IndexOutOfRange
        | t # _ \<Rightarrow>
            verifyTagSpecs findTag rest (AddError (forbidden_tag_error tagName (SourceFile t)) vs))
     else
       (let vs1 = (if Presence tagSpec = REQUIRED
                   then checkRequiredTag vs tagName tags tagSpec else vs);
            vs2 = (if tags \<noteq> [] \<and> AllowedValues tagSpec \<noteq> []
                   then checkAllowedTagValue vs1 tagName tags tagSpec else vs1)
        in verifyTagSpecs findTag rest vs2))"

text \<open>
  Modelled from the spec: \<open>GenericFile.OriginalPath\<close> is not under src/. The spec
  gives a file's identifier as \<open><object-identifier>/<path-within-bag>\<close>; the original
  path is the identifier without the object identifier and the slash after it.
\<close>

definition OriginalPath :: "GenericFile \<Rightarrow> string" where
  "OriginalPath gf = drop (length (IntellectualObjectIdentifier gf) + 1) (Identifier gf)"

text \<open>
  \<open>verifyChecksums\<close>. The loop writes the verified-at times into the files it
  visits, so the model returns the files with the summary. \<open>now\<close> is the clock.
\<close>

definition md5_mismatch_error :: "GenericFile \<Rightarrow> string" where
  "md5_mismatch_error gf =
     ''Md5 digest for '' @ quoted (OriginalPath gf) @ '': manifest says ''
       @ quoted (IngestManifestMd5 gf) @ '', file digest is '' @ quoted (IngestMd5 gf)"

definition sha256_mismatch_error :: "GenericFile \<Rightarrow> string" where
  "sha256_mismatch_error gf =
     ''Sha256 digest for '' @ quoted (OriginalPath gf) @ '': manifest says ''
       @ quoted (IngestManifestSha256 gf) @ '', file digest is '' @ quoted (IngestSha256 gf)"

definition verifyChecksums_body ::
  "nat \<Rightarrow> GenericFile \<Rightarrow> WorkSummary \<Rightarrow> GenericFile \<times> WorkSummary"
where
  "verifyChecksums_body now gf vs =
    (let (gf1, vs1) =
           (if IngestManifestMd5 gf \<noteq> [] \<and> IngestManifestMd5 gf \<noteq> IngestMd5 gf
            then (gf, AddError (md5_mismatch_error gf) vs)
            else (gf\<lparr> IngestMd5VerifiedAt := At now \<rparr>, vs))
     in if IngestManifestSha256 gf1 \<noteq> [] \<and> IngestManifestSha256 gf1 \<noteq> IngestSha256 gf1
        then (gf1, AddError (sha256_mismatch_error gf1) vs1)
        else (gf1\<lparr> IngestSha256VerifiedAt := At now \<rparr>, vs1))"

fun verifyChecksums ::
  "nat \<Rightarrow> GenericFile list \<Rightarrow> WorkSummary \<Rightarrow> GenericFile list \<times> WorkSummary"
where
  "verifyChecksums now [] vs = ([], vs)"
| "verifyChecksums now (gf # gfs) vs =
    (case verifyChecksums_body now gf vs of
       (gf', vs1) \<Rightarrow>
         (case verifyChecksums now gfs vs1 of
            (gfs', vs') \<Rightarrow> (gf' # gfs', vs')))"

text \<open>
  What the claims about \<open>verifyChecksums\<close> are stated with: a manifest digest that
  is present and differs from the computed one, and the messages one file contributes.
\<close>

definition md5_mismatch :: "GenericFile \<Rightarrow> bool" where
  "md5_mismatch gf = (IngestManifestMd5 gf \<noteq> [] \<and> IngestManifestMd5 gf \<noteq> IngestMd5 gf)"

definition sha256_mismatch :: "GenericFile \<Rightarrow> bool" where
  "sha256_mismatch gf =
     (IngestManifestSha256 gf \<noteq> [] \<and> IngestManifestSha256 gf \<noteq> IngestSha256 gf)"

definition checksum_errors :: "GenericFile \<Rightarrow> string list" where
  "checksum_errors gf =
     (if md5_mismatch gf then [md5_mismatch_error gf] else [])
     @ (if sha256_mismatch gf then [sha256_mismatch_error gf] else [])"

text \<open>
  \<open>Validate\<close>. \<open>virtualBag.Read()\<close> is the input \<open>(obj, parseSummary)\<close>; the two
  lookups of \<open>models.IntellectualObject\<close> are parameters.
\<close>

record ValidationResult =
  ParseSummary :: WorkSummary
  ValidationSummary :: WorkSummary
  ResultObject :: IntellectualObject

fun copy_errors :: "string list \<Rightarrow> WorkSummary \<Rightarrow> WorkSummary" where
  "copy_errors [] vs = vs"
| "copy_errors (e # es) vs = copy_errors es (AddError e vs)"

definition Validate ::
  "nat \<Rightarrow> (IntellectualObject \<Rightarrow> string \<Rightarrow> GenericFile option)
     \<Rightarrow> (IntellectualObject \<Rightarrow> string \<Rightarrow> Tag list)
     \<Rightarrow> BagValidationConfig \<Rightarrow> IntellectualObject \<times> WorkSummary
     \<Rightarrow> go_panic + ValidationResult"
where
  "Validate now findGenericFile findTag config readResult =
    (case readResult of (obj, parseSummary) \<Rightarrow>
      if HasErrors parseSummary then
        Inr \<lparr> ParseSummary = parseSummary, ValidationSummary = NewWorkSummary,
              ResultObject = obj\<lparr> ObjectIngestErrorMessage := AllErrorsAsString parseSummary \<rparr> \<rparr>
      else
        (let vs0 = copy_errors (Errors parseSummary) (Start now NewWorkSummary);
             vs1 = verifyFileSpecs (findGenericFile obj) (FileSpecs config) vs0
         in case verifyTagSpecs (findTag obj) (TagSpecs config) vs1 of
              Inl p \<Rightarrow> Inl p
            | Inr vs2 \<Rightarrow>
                (case verifyChecksums now (GenericFiles obj) vs2 of
                   (gfs, vs3) \<Rightarrow>
                     Inr \<lparr> ParseSummary = parseSummary,
                           ValidationSummary = Finish now vs3,
                           ResultObject = obj\<lparr> GenericFiles := gfs,
                             ObjectIngestErrorMessage :=
                               (if HasErrors vs3
                                then ObjectIngestErrorMessage obj @ AllErrorsAsString vs3
                                else ObjectIngestErrorMessage obj) \<rparr> \<rparr>)))"

text \<open>A file used in the examples: the payload file of the bag \<open>test.edu/bag\<close>.\<close>

definition hello_file :: GenericFile where
  "hello_file = \<lparr> Id = 0, Identifier = ''test.edu/bag/data/hello.txt'',
     IntellectualObjectIdentifier = ''test.edu/bag'', IntellectualObjectId = 0,
     Size = 6, FileFormat = ''text/plain'', URI = [],
     IngestUUID = ''1552abf5-28f3-46a5-ba63-95302d08e209'',
     IngestMd5 = ''b1946ac9'', IngestSha256 = ''5891b5b5'',
     IngestManifestMd5 = [], IngestManifestSha256 = ''5891b5b5'',
     IngestMd5VerifiedAt = ZeroTime, IngestSha256VerifiedAt = ZeroTime,
     IngestNeedsSave = True, IngestPreviousVersionExists = False,
     IngestStoredAt = ZeroTime, IngestStorageURL = [],
     IngestReplicatedAt = ZeroTime, IngestReplicationURL = [],
     IngestErrorMessage = [] \<rparr>"

section \<open>The store worker (workers/apt\_storer.go)\<close>

definition MAX_UPLOAD_ATTEMPTS :: nat where
  "MAX_UPLOAD_ATTEMPTS = 15"

text \<open>\<open>fmt\<close>'s \<open>%d\<close> of a number.\<close>

fun decimal_nat :: "nat \<Rightarrow> string" where
  "decimal_nat n =
     (if n < 10 then [char_of (48 + n)] else decimal_nat (n div 10) @ [char_of (48 + n mod 10)])"

definition decimal :: "int \<Rightarrow> string" where
  "decimal i = (if i < 0 then CHR ''-'' # decimal_nat (nat (- i)) else decimal_nat (nat i))"

text \<open>\<open>strings.Split\<close> on a one-character separator: never the empty list.\<close>

fun Split :: "char \<Rightarrow> string \<Rightarrow> string list" where
  "Split sep [] = [[]]"
| "Split sep (c # cs) =
     (if c = sep then [] # Split sep cs
      else (case Split sep cs of [] \<Rightarrow> [[c]] | p # ps \<Rightarrow> (c # p) # ps))"

record Checksum =
  ChecksumId :: int
  GenericFileId :: int
  Algorithm :: string
  Digest :: string

record StorageSummary =
  StoreResult :: WorkSummary
  TarFilePath :: string
  GenericFile :: GenericFile

text \<open>The part of \<open>context.Config\<close> the store and record workers read.\<close>

record Config =
  APTrustS3Region :: string
  PreservationBucket :: string
  APTrustGlacierRegion :: string
  ReplicationBucket :: string
  TarDirectory :: string
  S3LargeFileSize :: int
  DeleteOnSuccess :: bool
  MaxAttempts :: int

text \<open>
  The calls the workers make to the object store, in the order they are made. A reply
  of the object store may depend on everything that was called before.
\<close>

datatype s3_call =
  S3Put string string string
| S3List string string string
| S3Delete string string string

text \<open>
  What the store worker calls outside src/workers: the registry client
  (\<open>PharosClient.ChecksumList\<close> answers with an error or the newest SHA-256 checksum of
  the identifier, if there is one; \<open>GenericFileGet\<close> with an error or the URI of the
  registered file), package util (\<open>HasSavableName\<close>, \<open>LooksLikeUUID\<close>),
  \<open>GenericFile.InstitutionIdentifier\<close> (the value with an optional error), the tar
  file iterator of \<open>getReadCloser\<close> (the message it records when no reader is
  available), \<open>getFileReader\<close> (its error, by file and attempt),
  \<open>S3Upload.Send\<close> (\<open>ErrorMessage\<close> and \<open>Response.Location\<close>, by region, bucket and
  key), \<open>S3ObjectList.GetList\<close> (the size of the first object listed for the region,
  bucket and prefix, if any) and the staging database (the error of \<open>Save\<close>, if any, and \<open>FilePath\<close>).
\<close>

record Services =
  ChecksumList :: "string \<Rightarrow> string + Checksum option"
  GenericFileGet :: "string \<Rightarrow> string + string"
  HasSavableName :: "string \<Rightarrow> bool"
  LooksLikeUUID :: "string \<Rightarrow> bool"
  InstitutionIdentifier :: "GenericFile \<Rightarrow> string \<times> string option"
  TarFind :: "string \<Rightarrow> GenericFile \<Rightarrow> string option"
  FileReader :: "GenericFile \<Rightarrow> nat \<Rightarrow> string option"
  S3Send :: "s3_call list \<Rightarrow> string \<Rightarrow> string \<Rightarrow> string \<Rightarrow> string \<times> string"
  S3GetList :: "s3_call list \<Rightarrow> string \<Rightarrow> string \<Rightarrow> string \<Rightarrow> int option"
  DbSave :: "GenericFile \<Rightarrow> string option"
  DbFilePath :: string

text \<open>What one \<open>saveFile\<close> works on: the summary of the file and the calls made so far.\<close>

record StoreState =
  Summary :: StorageSummary
  Calls :: "s3_call list"

definition add_store_error :: "string \<Rightarrow> StorageSummary \<Rightarrow> StorageSummary" where
  "add_store_error msg sm = sm\<lparr> StoreResult := AddError msg (StoreResult sm) \<rparr>"

definition set_store_fatal :: "StorageSummary \<Rightarrow> StorageSummary" where
  "set_store_fatal sm = sm\<lparr> StoreResult := (StoreResult sm)\<lparr> ErrorIsFatal := True \<rparr> \<rparr>"

text \<open>\<open>getUuidOfExistingFile\<close>: the last component of the registered URI.\<close>

definition getUuidOfExistingFile :: "Services \<Rightarrow> string \<Rightarrow> string + string" where
  "getUuidOfExistingFile sv gfIdentifier =
    (case GenericFileGet sv gfIdentifier of
       Inl e \<Rightarrow> Inl e
     | Inr uri \<Rightarrow>
         (let uuid = last (Split CHR ''/'' uri) in
          if \<not> LooksLikeUUID sv uuid
          then Inl (''Could not extract UUID from URI '' @ uri)
          else Inr uuid))"

definition changedSincePreviousVersion ::
  "Services \<Rightarrow> StorageSummary \<Rightarrow> Checksum \<Rightarrow> StorageSummary"
where
  "changedSincePreviousVersion sv sm existingSha256 =
    (let gf = GenericFile sm in
     case getUuidOfExistingFile sv (Identifier gf) of
       Inl e \<Rightarrow>
         set_store_fatal
           (add_store_error (''Cannot find existing UUID for '' @ Identifier gf @ '': '' @ e) sm)
     | Inr uuid \<Rightarrow>
         if uuid = [] then
           set_store_fatal
             (add_store_error (''Cannot find existing UUID for '' @ Identifier gf @ ''.'') sm)
         else
           (let gf1 = gf\<lparr> IngestUUID := uuid \<rparr>;
                gf2 = (if Digest existingSha256 = IngestSha256 gf1
                       then gf1\<lparr> IngestNeedsSave := False \<rparr> else gf1)
            in sm\<lparr> GenericFile := gf2 \<rparr>))"

text \<open>\<open>uuidPresent\<close>.\<close>

definition uuidPresent :: "Services \<Rightarrow> StorageSummary \<Rightarrow> bool \<times> StorageSummary" where
  "uuidPresent sv sm =
    (let gf = GenericFile sm in
     if \<not> LooksLikeUUID sv (IngestUUID gf) then
       (False, set_store_fatal (add_store_error
          (''Cannot save '' @ Identifier gf @ '' to S3/Glacier because ''
             @ ''GenericFile.IngestUUID ('' @ IngestUUID gf @ '') is missing or invalid'') sm))
     else (True, sm))"

text \<open>\<open>network.S3Upload\<close> as \<open>NewS3Upload\<close> and \<open>AddMetadata\<close> build it.\<close>

record S3Upload =
  AWSRegion :: string
  Bucket :: string
  Key :: string
  ContentType :: string
  Metadata :: "string \<Rightarrow> string option"

definition NewS3Upload :: "string \<Rightarrow> string \<Rightarrow> string \<Rightarrow> string \<Rightarrow> S3Upload" where
  "NewS3Upload region bucket key contentType =
     \<lparr> AWSRegion = region, Bucket = bucket, Key = key, ContentType = contentType,
       Metadata = Map.empty \<rparr>"

definition AddMetadata :: "string \<Rightarrow> string \<Rightarrow> S3Upload \<Rightarrow> S3Upload" where
  "AddMetadata key v up = up\<lparr> Metadata := (Metadata up)(key \<mapsto> v) \<rparr>"

text \<open>
  \<open>initUploader\<close>. Its third error message has three verbs and two arguments, so
  \<open>fmt\<close> writes \<open>%!s(MISSING)\<close> for the last one.
\<close>

definition initUploader ::
  "Services \<Rightarrow> Config \<Rightarrow> StorageSummary \<Rightarrow> string \<Rightarrow> S3Upload option \<times> StorageSummary"
where
  "initUploader sv cfg sm sendWhere =
    (let gf = GenericFile sm in
     if sendWhere \<noteq> ''s3'' \<and> sendWhere \<noteq> ''glacier'' then
       (None, set_store_fatal (add_store_error
          (''Cannot save '' @ Identifier gf @ '' to '' @ sendWhere @ '' because ''
             @ ''storer doesn't know where %!s(MISSING) is'') sm))
     else
       (let region = (if sendWhere = ''s3'' then APTrustS3Region cfg else APTrustGlacierRegion cfg);
            bucket = (if sendWhere = ''s3'' then PreservationBucket cfg else ReplicationBucket cfg);
            uploader = NewS3Upload region bucket (IngestUUID gf) (FileFormat gf);
            (instIdentifier, err) = InstitutionIdentifier sv gf;
            sm1 = (case err of
                     None \<Rightarrow> sm
                   | Some e \<Rightarrow> add_store_error
                       (''Error setting institution in S3 metadata: '' @ e
                          @ ''. Storing without institution tag.'') sm)
        in (Some (AddMetadata ''sha256'' (IngestSha256 gf)
                 (AddMetadata ''md5'' (IngestMd5 gf)
                 (AddMetadata ''bagpath'' (OriginalPath gf)
                 (AddMetadata ''bag'' (IntellectualObjectIdentifier gf)
                 (AddMetadata ''institution'' instIdentifier uploader))))), sm1)))"

text \<open>\<open>assertRequiredMetadata\<close>: the loop over the five keys.\<close>

definition required_metadata_keys :: "string list" where
  "required_metadata_keys = [''institution'', ''bag'', ''bagpath'', ''md5'', ''sha256'']"

definition missing_metadata_error :: "string \<Rightarrow> string" where
  "missing_metadata_error key = ''S3Upload is missing required metadata key '' @ key"

fun assertRequiredMetadata_loop ::
  "S3Upload \<Rightarrow> string list \<Rightarrow> bool \<times> StorageSummary \<Rightarrow> bool \<times> StorageSummary"
where
  "assertRequiredMetadata_loop up [] st = st"
| "assertRequiredMetadata_loop up (key # keys) (allKeysPresent, sm) =
    (let v = Metadata up key in
     if v = None \<or> v = Some [] then
       assertRequiredMetadata_loop up keys
         (False, set_store_fatal (add_store_error (missing_metadata_error key) sm))
     else assertRequiredMetadata_loop up keys (allKeysPresent, sm))"

definition assertRequiredMetadata :: "StorageSummary \<Rightarrow> S3Upload \<Rightarrow> bool \<times> StorageSummary" where
  "assertRequiredMetadata sm up = assertRequiredMetadata_loop up required_metadata_keys (True, sm)"

text \<open>
  \<open>markFileAsStored\<close> (the date-times it also writes into the file's PREMIS events
  are not part of the model: no claim reads them).
\<close>

definition markFileAsStored :: "nat \<Rightarrow> GenericFile \<Rightarrow> string \<Rightarrow> string \<Rightarrow> GenericFile" where
  "markFileAsStored now gf sendWhere storageUrl =
    (if sendWhere = ''s3'' then
       gf\<lparr> IngestStoredAt := At now, IngestStorageURL := storageUrl, URI := storageUrl \<rparr>
     else if sendWhere = ''glacier'' then
       gf\<lparr> IngestReplicatedAt := At now, IngestReplicationURL := storageUrl \<rparr>
     else gf)"

text \<open>
  \<open>getS3FileDetail\<close>: the listing is always of \<open>Config.PreservationBucket\<close> in
  \<open>Config.APTrustS3Region\<close>; the function has no parameter for the destination.
\<close>

definition getS3FileDetail ::
  "Services \<Rightarrow> Config \<Rightarrow> s3_call list \<Rightarrow> string \<Rightarrow> int option \<times> s3_call list"
where
  "getS3FileDetail sv cfg calls fileUUID =
     (S3GetList sv calls (APTrustS3Region cfg) (PreservationBucket cfg) fileUUID,
      calls @ [S3List (APTrustS3Region cfg) (PreservationBucket cfg) fileUUID])"

text \<open>
  \<open>doUpload\<close>, one attempt. The early returns of the source are the branches that
  leave \<open>Calls\<close> as it is. (The \<open>%d\<close> of the size-mismatch message is given the
  pointer \<open>s3Obj.Size\<close> in the source; the model writes the size it points to.)
\<close>

definition getTempFilePath :: "Config \<Rightarrow> GenericFile \<Rightarrow> string" where
  "getTempFilePath cfg gf = TarDirectory cfg @ ''/tmp/'' @ IngestUUID gf"

definition doUpload ::
  "Services \<Rightarrow> Config \<Rightarrow> nat \<Rightarrow> string \<Rightarrow> nat \<Rightarrow> StoreState \<Rightarrow> StoreState"
where
  "doUpload sv cfg now sendWhere attemptNumber st =
    (let gf = GenericFile (Summary st) in
     case initUploader sv cfg (Summary st) sendWhere of
       (None, sm1) \<Rightarrow>
         st\<lparr> Summary := add_store_error ''S3 uploader is nil. Cannot proceed.'' sm1 \<rparr>
     | (Some uploader, sm1) \<Rightarrow>
        (case assertRequiredMetadata sm1 uploader of
           (False, sm2) \<Rightarrow> st\<lparr> Summary := sm2 \<rparr>
         | (True, sm2) \<Rightarrow>
            (case TarFind sv (TarFilePath sm2) gf of
               Some msg \<Rightarrow> st\<lparr> Summary := add_store_error msg sm2 \<rparr>
             | None \<Rightarrow>
                (case (if Size gf > S3LargeFileSize cfg then FileReader sv gf attemptNumber
                       else None) of
                   Some err \<Rightarrow>
                     st\<lparr> Summary := add_store_error
                       (''Error copying '' @ quoted (Identifier gf) @ '' from tarfile to ''
                          @ ''filesystem at '' @ quoted (getTempFilePath cfg gf)
                          @ '' for large file upload: '' @ err) sm2 \<rparr>
                 | None \<Rightarrow>
                    (let (errorMessage, location) =
                           S3Send sv (Calls st) (AWSRegion uploader) (Bucket uploader) (Key uploader);
                         calls1 = Calls st
                           @ [S3Put (AWSRegion uploader) (Bucket uploader) (Key uploader)];
                         (s3Obj, calls2) = getS3FileDetail sv cfg calls1 (IngestUUID gf);
                         sm3 =
                           (case s3Obj of
                              None \<Rightarrow>
                                if attemptNumber = MAX_UPLOAD_ATTEMPTS then
                                  add_store_error
                                    (sendWhere @ '' returned nothing for '' @ IngestUUID gf
                                       @ '' ('' @ Identifier gf @ '').'') sm2
                                else sm2
                            | Some listedSize \<Rightarrow>
                                if listedSize \<noteq> Size gf then
                                  (if attemptNumber = MAX_UPLOAD_ATTEMPTS then
                                     add_store_error
                                       (sendWhere @ '' returned size '' @ decimal listedSize
                                          @ '' for '' @ IngestUUID gf @ '' ('' @ Identifier gf
                                          @ ''), should be '' @ decimal (Size gf) @ ''.'') sm2
                                   else sm2)
                                else sm2);
                         uploadSucceeded = (s3Obj = Some (Size gf) \<and> errorMessage = [])
                     in if uploadSucceeded then
                          \<lparr> Summary = sm3\<lparr> GenericFile :=
                               markFileAsStored now (GenericFile sm3) sendWhere location \<rparr>,
                            Calls = calls2 \<rparr>
                        else if errorMessage \<noteq> [] then
                          \<lparr> Summary = (if attemptNumber = MAX_UPLOAD_ATTEMPTS
                                       then add_store_error errorMessage sm3 else sm3),
                            Calls = calls2 \<rparr>
                        else \<lparr> Summary = sm3, Calls = calls2 \<rparr>)))))"

text \<open>
  \<open>copyToLongTermStorage\<close>: the loop \<open>for attemptNumber := 1; attemptNumber <=
  MAX_UPLOAD_ATTEMPTS; attemptNumber++\<close> with its \<open>break\<close>, over the attempt numbers
  that are left.
\<close>

definition stored_at :: "string \<Rightarrow> GenericFile \<Rightarrow> bool" where
  "stored_at sendWhere gf =
     ((sendWhere = ''s3'' \<and> \<not> IsZero (IngestStoredAt gf))
      \<or> (sendWhere = ''glacier'' \<and> \<not> IsZero (IngestReplicatedAt gf)))"

fun upload_attempts ::
  "Services \<Rightarrow> Config \<Rightarrow> nat \<Rightarrow> string \<Rightarrow> nat list \<Rightarrow> StoreState \<Rightarrow> StoreState"
where
  "upload_attempts sv cfg now sendWhere [] st = st"
| "upload_attempts sv cfg now sendWhere (attemptNumber # rest) st =
    (let st1 = doUpload sv cfg now sendWhere attemptNumber st in
     if stored_at sendWhere (GenericFile (Summary st1)) then st1
     else upload_attempts sv cfg now sendWhere rest st1)"

definition copyToLongTermStorage ::
  "Services \<Rightarrow> Config \<Rightarrow> nat \<Rightarrow> string \<Rightarrow> StoreState \<Rightarrow> StoreState"
where
  "copyToLongTermStorage sv cfg now sendWhere st =
    (case uuidPresent sv (Summary st) of
       (False, sm1) \<Rightarrow>
         st\<lparr> Summary := add_store_error
           (''Cannot copy GenericFile '' @ Identifier (GenericFile sm1)
              @ '' to long-term storage because UUID is missing'') sm1 \<rparr>
     | (True, sm1) \<Rightarrow>
         upload_attempts sv cfg now sendWhere [1 ..< MAX_UPLOAD_ATTEMPTS + 1]
           (st\<lparr> Summary := sm1 \<rparr>))"

text \<open>
  \<open>saveFile\<close>. The deferred \<open>cleanupTempFile\<close> only removes a temporary file from
  the disk and is left out; \<open>db.Save\<close> is the last step.
\<close>

definition saveFile_check :: "Services \<Rightarrow> StorageSummary \<Rightarrow> bool \<times> StorageSummary" where
  "saveFile_check sv sm =
    (let gf = GenericFile sm in
     if \<not> HasSavableName sv (OriginalPath gf) then
       (True, sm\<lparr> GenericFile := gf\<lparr> IngestNeedsSave := False \<rparr> \<rparr>)
     else
       (case ChecksumList sv (Identifier gf) of
          Inl e \<Rightarrow> (False, add_store_error e sm)
        | Inr None \<Rightarrow> (True, sm)
        | Inr (Some existingSha256) \<Rightarrow>
            (True, changedSincePreviousVersion sv
               (sm\<lparr> GenericFile := gf\<lparr> IngestPreviousVersionExists := True,
                                        Id := GenericFileId existingSha256 \<rparr> \<rparr>)
               existingSha256)))"

definition saveFile :: "Services \<Rightarrow> Config \<Rightarrow> nat \<Rightarrow> StoreState \<Rightarrow> StoreState" where
  "saveFile sv cfg now st =
    (case saveFile_check sv (Summary st) of
       (False, sm1) \<Rightarrow> st\<lparr> Summary := sm1 \<rparr>
     | (True, sm1) \<Rightarrow>
        (let st1 = st\<lparr> Summary := sm1 \<rparr>;
             st3 =
               (if IngestNeedsSave (GenericFile sm1) then
                  (let st2 =
                         (if IsZero (IngestStoredAt (GenericFile (Summary st1)))
                             \<or> IngestStorageURL (GenericFile (Summary st1)) = []
                          then copyToLongTermStorage sv cfg now ''s3'' st1 else st1)
                   in if IsZero (IngestReplicatedAt (GenericFile (Summary st2)))
                         \<or> IngestReplicationURL (GenericFile (Summary st2)) = []
                      then copyToLongTermStorage sv cfg now ''glacier'' st2 else st2)
                else st1);
             gf = GenericFile (Summary st3)
         in case DbSave sv gf of
              None \<Rightarrow> st3
            | Some err \<Rightarrow>
                st3\<lparr> Summary := add_store_error
                  (''Error saving '' @ Identifier gf @ '' to db '' @ DbFilePath sv @ '': '' @ err) (Summary st3) \<rparr>))"

text \<open>
  Whether the upload carries a non-empty value for a metadata key, and an environment
  for the examples: a UUID is 8-4-4-4-12 hexadecimal digits (what package util's test
  of \<open>LooksLikeUUID\<close> accepts), the bag's own files are not savable, the registry
  knows no earlier version, every upload is accepted, and a listing shows an object of
  6 bytes under a key exactly when that key was put into that bucket before.
\<close>

definition has_metadata :: "S3Upload \<Rightarrow> string \<Rightarrow> bool" where
  "has_metadata up key = (case Metadata up key of None \<Rightarrow> False | Some v \<Rightarrow> v \<noteq> [])"

definition is_hex_digit :: "char \<Rightarrow> bool" where
  "is_hex_digit c =
     (let n = (of_char c :: nat)
      in (48 \<le> n \<and> n \<le> 57) \<or> (65 \<le> n \<and> n \<le> 70) \<or> (97 \<le> n \<and> n \<le> 102))"

definition looks_like_uuid :: "string \<Rightarrow> bool" where
  "looks_like_uuid s =
     (case Split CHR ''-'' s of
        [a, b, c, d, e] \<Rightarrow>
          map length [a, b, c, d, e] = [8, 4, 4, 4, 12]
          \<and> list_all is_hex_digit (a @ b @ c @ d @ e)
      | _ \<Rightarrow> False)"

definition example_config :: Config where
  "example_config = \<lparr> APTrustS3Region = ''us-east-1'',
     PreservationBucket = ''aptrust.preservation.storage'',
     APTrustGlacierRegion = ''us-west-2'',
     ReplicationBucket = ''aptrust.preservation.oregon'',
     TarDirectory = ''/mnt/apt/data'', S3LargeFileSize = 50000000,
     DeleteOnSuccess = True, MaxAttempts = 3 \<rparr>"

definition example_services :: Services where
  "example_services = \<lparr>
     ChecksumList = (\<lambda>gfIdentifier. Inr None),
     GenericFileGet = (\<lambda>gfIdentifier. Inl ''404 Not Found''),
     HasSavableName = (\<lambda>path. path \<notin> set [''bagit.txt'', ''manifest-md5.txt'',
        ''manifest-sha256.txt'', ''tagmanifest-md5.txt'', ''tagmanifest-sha256.txt'']),
     LooksLikeUUID = looks_like_uuid,
     InstitutionIdentifier = (\<lambda>gf. (hd (Split CHR ''/'' (Identifier gf)), None)),
     TarFind = (\<lambda>tarFilePath gf. None),
     FileReader = (\<lambda>gf attemptNumber. None),
     S3Send = (\<lambda>calls region bucket key.
        ([], ''https://s3.amazonaws.com/'' @ bucket @ ''/'' @ key)),
     S3GetList = (\<lambda>calls region bucket prefix.
        if S3Put region bucket prefix \<in> set calls then Some 6 else None),
     DbSave = (\<lambda>gf. None),
     DbFilePath = ''/mnt/apt/data/bag.valdb'' \<rparr>"

definition example_summary :: StorageSummary where
  "example_summary = \<lparr> StoreResult = NewWorkSummary, TarFilePath = ''/mnt/apt/data/bag.tar'',
     GenericFile = hello_file \<rparr>"

text \<open>
  The registry of the first example for \<open>saveFile\<close>: it has an earlier SHA-256
  checksum for the file (another digest), and the registered file's URI does not end in
  a UUID.
\<close>

definition prior_without_uuid_services :: Services where
  "prior_without_uuid_services = example_services\<lparr>
     ChecksumList := (\<lambda>gfIdentifier. Inr (Some
        \<lparr> ChecksumId = 7, GenericFileId = 42, Algorithm = ''sha256'', Digest = ''0000'' \<rparr>)),
     GenericFileGet := (\<lambda>gfIdentifier.
        Inr ''https://s3.amazonaws.com/aptrust.preservation.storage/not-a-uuid'') \<rparr>"

text \<open>
  The object store of the second example: an upload to the replication bucket leaves
  an object of zero bytes (and reports no error), while the preservation bucket holds
  the 6 bytes of the file.
\<close>

definition zero_size_replica_services :: Services where
  "zero_size_replica_services = example_services\<lparr>
     S3GetList := (\<lambda>calls region bucket prefix.
        if bucket = ''aptrust.preservation.storage'' then Some 6 else Some 0) \<rparr>"

section \<open>The record worker (workers/apt\_recorder.go)\<close>

definition GENERIC_FILE_BATCH_SIZE :: nat where
  "GENERIC_FILE_BATCH_SIZE = 100"

definition StageCleanup :: string where
  "StageCleanup = ''Cleanup''"

text \<open>
  The part of \<open>models.IngestManifest\<close> the record worker reads and writes (the type
  is not under src/).
\<close>

record IngestManifest =
  S3Bucket :: string
  S3Key :: string
  BagPath :: string
  DBPath :: string
  Object :: IntellectualObject
  RecordResult :: WorkSummary
  CleanupResult :: WorkSummary

text \<open>What the record worker does to the outside, in the order it does it.\<close>

datatype action =
  MarkWorkItemStarted string
| MarkWorkItemSucceeded string
| MarkWorkItemFailed
| MarkWorkItemRequeued
| FinishNSQ
| RequeueNSQ int
| DeleteFileFromStaging string
| DeleteFromReceiving string string
| SaveObjectInDb IntellectualObject
| LogJson
| RecordWorkItemState
| ObjectGet string
| ObjectSave IntellectualObject
| EventSave string
| FileBatchPost "GenericFile list"
| FilePut GenericFile

text \<open>
  What \<open>cleanup\<close> and \<open>deleteBagFromReceivingBucket\<close> call outside the file:
  \<open>IngestManifest.HasErrors\<close> and \<open>HasFatalErrors\<close> (not under src/), the
  environment variable \<open>EXCHANGE_TEST_ENV\<close>, the staging database
  (\<open>storage.NewBoltDB\<close> and \<open>GetIntellectualObject\<close> together: the object, or nil
  when the database cannot be opened or does not hold it; the answer may depend on what
  was done before, such as deleting the database file) and
  \<open>S3ObjectDelete.DeleteList\<close> (its \<open>ErrorMessage\<close>).
\<close>

record CleanupEnv =
  ManifestHasErrors :: "IngestManifest \<Rightarrow> bool"
  ManifestHasFatalErrors :: "IngestManifest \<Rightarrow> bool"
  TestEnv :: string
  LoadObject :: "action list \<Rightarrow> string \<Rightarrow> IntellectualObject option"
  DeleteList :: "string \<Rightarrow> string \<Rightarrow> string"

definition deleteBagFromReceivingBucket ::
  "CleanupEnv \<Rightarrow> Config \<Rightarrow> nat \<Rightarrow> IngestManifest \<times> action list \<Rightarrow> IngestManifest \<times> action list"
where
  "deleteBagFromReceivingBucket env cfg now st =
    (case st of (m, acts) \<Rightarrow>
      (let obj = LoadObject env acts (DBPath m);
           cr = (Start now (CleanupResult m))
                  \<lparr> Attempted := True, AttemptNumber := AttemptNumber (CleanupResult m) + 1 \<rparr>;
           stamp = (case obj of
                      None \<Rightarrow> []
                    | Some ob \<Rightarrow> [SaveObjectInDb (ob\<lparr> IngestDeletedFromReceivingAt := At now \<rparr>)])
       in if DeleteOnSuccess cfg = False then
            (m\<lparr> CleanupResult := Finish now cr \<rparr>, acts @ stamp)
          else
            (let acts1 = acts @ [DeleteFromReceiving (S3Bucket m) (S3Key m)];
                 errorMessage = DeleteList env (S3Bucket m) (S3Key m)
             in if errorMessage \<noteq> [] then
                  (m\<lparr> CleanupResult := Finish now (AddError
                        (''In cleanup, error deleting S3 item '' @ S3Bucket m @ ''/'' @ S3Key m
                           @ '': '' @ errorMessage) cr) \<rparr>, acts1)
                else (m\<lparr> CleanupResult := Finish now cr \<rparr>, acts1 @ stamp))))"

text \<open>\<open>cleanup\<close>, for one item taken from the cleanup channel.\<close>

definition cleanup ::
  "CleanupEnv \<Rightarrow> Config \<Rightarrow> nat \<Rightarrow> IngestManifest \<times> action list \<Rightarrow> IngestManifest \<times> action list"
where
  "cleanup env cfg now st =
    (case st of (m, acts) \<Rightarrow>
      (let attemptNumber = AttemptNumber (RecordResult m);
           maxAttempts = MaxAttempts cfg;
           itsTimeToGiveUp = (ManifestHasFatalErrors env m
              \<or> (ManifestHasErrors env m \<and> attemptNumber \<ge> maxAttempts));
           (m1, acts1) =
             (if itsTimeToGiveUp then (m, acts @ [FinishNSQ, MarkWorkItemFailed])
              else if HasErrors (RecordResult m) then
                (m, acts @ [RequeueNSQ 1000, MarkWorkItemRequeued])
              else
                (let acts0 = acts @ [MarkWorkItemStarted StageCleanup,
                                     DeleteFileFromStaging (BagPath m)]
                       @ (if TestEnv env \<noteq> ''integration''
                          then [DeleteFileFromStaging (DBPath m)] else []);
                     (m2, acts2) = deleteBagFromReceivingBucket env cfg now (m, acts0)
                 in (m2, acts2 @ [MarkWorkItemSucceeded StageCleanup, FinishNSQ])))
       in (m1\<lparr> RecordResult := Finish now (RecordResult m1) \<rparr>,
           acts1 @ [LogJson, RecordWorkItemState])))"

text \<open>
  Modelled from the spec: \<open>storage.BoltDB\<close> is not under src/ (its test is). The
  spec describes the staging DB as holding the serialised IntellectualObject under a
  fixed key and each GenericFile under its identifier, with put, get-by-key,
  scan-file-identifiers (ordered) and batch-fetch (offset, limit). \<open>DbObject\<close> is
  what \<open>GetIntellectualObject(ObjectIdentifier())\<close> answers; \<open>DbFiles\<close> are the
  files in the order of their keys. A put replaces the file stored under the identifier
  (the place of a new key in the order is not modelled: it comes last).
\<close>

record StagingDB =
  DbObject :: "string + IntellectualObject"
  DbFiles :: "GenericFile list"

definition FileCount :: "StagingDB \<Rightarrow> int" where
  "FileCount db = int (length (DbFiles db))"

definition FileIdentifierBatch :: "StagingDB \<Rightarrow> nat \<Rightarrow> nat \<Rightarrow> string list" where
  "FileIdentifierBatch db offset limit = map Identifier (take limit (drop offset (DbFiles db)))"

definition GetGenericFile :: "StagingDB \<Rightarrow> string \<Rightarrow> GenericFile option" where
  "GetGenericFile db gfIdentifier = find (\<lambda>f. Identifier f = gfIdentifier) (DbFiles db)"

fun replace_file :: "GenericFile \<Rightarrow> GenericFile list \<Rightarrow> GenericFile list" where
  "replace_file gf [] = [gf]"
| "replace_file gf (f # fs) =
     (if Identifier f = Identifier gf then gf # fs else f # replace_file gf fs)"

definition SaveFile :: "StagingDB \<Rightarrow> GenericFile \<Rightarrow> StagingDB" where
  "SaveFile db gf = db\<lparr> DbFiles := replace_file gf (DbFiles db) \<rparr>"

text \<open>
  Modelled from the spec: \<open>GenericFile.MergeAttributes\<close> is not under src/. The
  registry returns the file row including its id and the ids of its checksums and
  events, which are merged back into the in-memory file. The model's file has no
  checksums and events of its own, so the id is what is merged, and no error arises.
\<close>

definition MergeAttributes :: "GenericFile \<Rightarrow> GenericFile \<Rightarrow> GenericFile \<times> string list" where
  "MergeAttributes gf savedFile = (gf\<lparr> Id := Id savedFile \<rparr>, [])"

text \<open>
  What \<open>saveAllPharosData\<close> calls outside the file: \<open>storage.NewBoltDB\<close>,
  \<open>IntellectualObject.BuildIngestEvents\<close>, \<open>GenericFile.BuildIngestChecksums\<close> and
  \<open>BuildIngestEvents\<close> (their errors), the registry client (\<open>IntellectualObjectGet\<close>:
  the registered object, if any; \<open>IntellectualObjectSave\<close>: an error, or the saved
  object or nil; \<open>PremisEventSave\<close>: the error for an event; \<open>GenericFileSaveBatch\<close>: the
  error, if any, with the files the response lists; \<open>GenericFileSave\<close>: the error)
  and the error of the staging database's \<open>Save\<close> for a key.
\<close>

record RecordEnv =
  OpenDb :: "string \<Rightarrow> string + StagingDB"
  BuildObjectIngestEvents :: "IntellectualObject \<Rightarrow> int \<Rightarrow> string option"
  BuildIngestChecksums :: "GenericFile \<Rightarrow> string option"
  BuildIngestEvents :: "GenericFile \<Rightarrow> string option"
  IntellectualObjectGet :: "string \<Rightarrow> IntellectualObject option"
  IntellectualObjectSave :: "IntellectualObject \<Rightarrow> string + IntellectualObject option"
  PremisEventSave :: "string \<Rightarrow> string option"
  GenericFileSaveBatch :: "GenericFile list \<Rightarrow> string option \<times> GenericFile list"
  GenericFileSave :: "GenericFile \<Rightarrow> string option"
  DbSaveError :: "string \<Rightarrow> string option"

definition set_fatal :: "WorkSummary \<Rightarrow> WorkSummary" where
  "set_fatal rr = rr\<lparr> ErrorIsFatal := True \<rparr>"

text \<open>\<open>savePremisEventsForObject\<close> and \<open>saveIntellectualObject\<close>.\<close>

fun savePremisEventsForObject ::
  "RecordEnv \<Rightarrow> string \<Rightarrow> string list \<Rightarrow> WorkSummary \<times> action list \<Rightarrow> WorkSummary \<times> action list"
where
  "savePremisEventsForObject env objIdentifier [] st = st"
| "savePremisEventsForObject env objIdentifier (eventType # events) (rr, acts) =
    savePremisEventsForObject env objIdentifier events
      (case PremisEventSave env eventType of
         Some e \<Rightarrow>
           AddError (''While saving events for '' @ quoted objIdentifier
             @ '', error adding PremisEvent '' @ quoted eventType @ '': '' @ e) rr
       | None \<Rightarrow> rr,
       acts @ [EventSave eventType])"

definition saveIntellectualObject ::
  "RecordEnv \<Rightarrow> IntellectualObject \<times> WorkSummary \<times> action list
     \<Rightarrow> IntellectualObject \<times> WorkSummary \<times> action list"
where
  "saveIntellectualObject env st =
    (case st of (obj, rr, acts) \<Rightarrow>
      (let obj1 = (case IntellectualObjectGet env (ObjectIdentifier obj) of
                     Some existingObject \<Rightarrow> obj\<lparr> ObjectId := ObjectId existingObject \<rparr>
                   | None \<Rightarrow> obj);
           acts1 = acts @ [ObjectGet (ObjectIdentifier obj), ObjectSave obj1]
       in case IntellectualObjectSave env obj1 of
            Inl e \<Rightarrow> (obj1, AddError e rr, acts1)
          | Inr None \<Rightarrow>
              (obj1, AddError ''Pharos returned nil IntellectualObject after save.'' rr, acts1)
          | Inr (Some savedObject) \<Rightarrow>
              (let obj2 = obj1\<lparr> ObjectId := ObjectId savedObject \<rparr>
               in case savePremisEventsForObject env (ObjectIdentifier obj2)
                         (PremisEvents obj2) (rr, acts1) of
                    (rr1, acts2) \<Rightarrow> (obj2, rr1, acts2))))"

text \<open>
  The loop of \<open>saveAllPharosData\<close> over the identifiers of one batch, which sorts
  the files into \<open>newFiles\<close> and \<open>existingFiles\<close>. When \<open>GetGenericFile\<close> has no
  file for an identifier, the source goes on to write through the nil pointer.
\<close>

fun sort_batch ::
  "RecordEnv \<Rightarrow> StagingDB \<Rightarrow> int \<Rightarrow> string list
     \<Rightarrow> GenericFile list \<times> GenericFile list \<times> WorkSummary
     \<Rightarrow> go_panic + GenericFile list \<times> GenericFile list \<times> WorkSummary"
where
  "sort_batch env db objId [] st = Inr st"
| "sort_batch env db objId (gfIdentifier # rest) (newFiles, existingFiles, rr) =
    (case GetGenericFile db gfIdentifier of
       None \<Rightarrow> Inl NilPointerDereference
     | Some gf0 \<Rightarrow>
        (let gf = gf0\<lparr> IntellectualObjectId := objId \<rparr> in
         if IngestNeedsSave gf = False then
           sort_batch env db objId rest (newFiles, existingFiles, rr)
         else
           (let rr1 = (case BuildIngestChecksums env gf of
                         Some e \<Rightarrow> set_fatal (AddError e rr) | None \<Rightarrow> rr);
                rr2 = (case BuildIngestEvents env gf of
                         Some e \<Rightarrow> set_fatal (AddError e rr1) | None \<Rightarrow> rr1)
            in if IngestPreviousVersionExists gf then
                 (if Id gf > 0 then
                    sort_batch env db objId rest (newFiles, existingFiles @ [gf], rr2)
                  else
                    sort_batch env db objId rest (newFiles, existingFiles,
                      AddError (''GenericFile '' @ Identifier gf
                        @ '' has a previous version, but its Id is missing.'') rr2))
               else if Id gf = 0 then
                 sort_batch env db objId rest (newFiles @ [gf], existingFiles, rr2)
               else sort_batch env db objId rest (newFiles, existingFiles, rr2))))"

text \<open>
  \<open>createGenericFiles\<close>. \<open>fileMap\<close> maps an identifier to the last file of the
  batch that has it; the files the response lists are merged into the batch's files
  whether or not the response carries an error.
\<close>

fun map_last :: "('a \<Rightarrow> bool) \<Rightarrow> ('a \<Rightarrow> 'a) \<Rightarrow> 'a list \<Rightarrow> 'a list" where
  "map_last p f [] = []"
| "map_last p f (x # xs) = (if p x \<and> \<not> list_ex p xs then f x # xs else x # map_last p f xs)"

fun merge_saved ::
  "GenericFile list \<Rightarrow> GenericFile list \<times> WorkSummary \<Rightarrow> GenericFile list \<times> WorkSummary"
where
  "merge_saved [] st = st"
| "merge_saved (savedFile # rest) (files, rr) =
    (if list_ex (\<lambda>gf. Identifier gf = Identifier savedFile) files then
       merge_saved rest
         (map_last (\<lambda>gf. Identifier gf = Identifier savedFile)
            (\<lambda>gf. fst (MergeAttributes gf savedFile)) files,
          copy_errors
            (snd (MergeAttributes
               (last (filter (\<lambda>gf. Identifier gf = Identifier savedFile) files)) savedFile)) rr)
     else
       merge_saved rest
         (files, AddError (''After save, could not find file '' @ quoted (Identifier savedFile)
            @ '' in batch.'') rr))"

definition createGenericFiles ::
  "RecordEnv \<Rightarrow> GenericFile list \<times> WorkSummary \<times> action list
     \<Rightarrow> GenericFile list \<times> WorkSummary \<times> action list"
where
  "createGenericFiles env st =
    (case st of (files, rr, acts) \<Rightarrow>
      if length files = 0 then (files, rr, acts)
      else
        (case GenericFileSaveBatch env files of
           (err, savedFiles) \<Rightarrow>
             (let rr1 = (case err of Some e \<Rightarrow> AddError e rr | None \<Rightarrow> rr)
              in case merge_saved savedFiles (files, rr1) of
                   (files1, rr2) \<Rightarrow> (files1, rr2, acts @ [FileBatchPost files]))))"

text \<open>\<open>updateGenericFiles\<close>: one PUT for each file.\<close>

fun updateGenericFiles ::
  "RecordEnv \<Rightarrow> GenericFile list \<Rightarrow> WorkSummary \<times> action list \<Rightarrow> WorkSummary \<times> action list"
where
  "updateGenericFiles env [] st = st"
| "updateGenericFiles env (gf # files) (rr, acts) =
    updateGenericFiles env files
      (case GenericFileSave env gf of
         Some e \<Rightarrow> AddError (''Error updating '' @ quoted (Identifier gf) @ '': '' @ e) rr
       | None \<Rightarrow> rr,
       acts @ [FilePut gf])"

fun saveGenericFilesInBoltDB ::
  "RecordEnv \<Rightarrow> GenericFile list \<Rightarrow> StagingDB \<times> WorkSummary \<Rightarrow> StagingDB \<times> WorkSummary"
where
  "saveGenericFilesInBoltDB env [] st = st"
| "saveGenericFilesInBoltDB env (gf # files) (db, rr) =
    saveGenericFilesInBoltDB env files
      (case DbSaveError env (Identifier gf) of
         Some e \<Rightarrow>
           (db, AddError (''After post to Pharos, error saving '' @ Identifier gf
              @ '' to valdb: '' @ e) rr)
       | None \<Rightarrow> (SaveFile db gf, rr))"

text \<open>One pass of the \<open>for\<close> loop of \<open>saveAllPharosData\<close>, for one batch.\<close>

record RecordState =
  Db :: StagingDB
  Result :: WorkSummary
  Acts :: "action list"

definition save_batch ::
  "RecordEnv \<Rightarrow> int \<Rightarrow> string list \<Rightarrow> RecordState \<Rightarrow> go_panic + RecordState"
where
  "save_batch env objId batch st =
    (case sort_batch env (Db st) objId batch ([], [], Result st) of
       Inl p \<Rightarrow> Inl p
     | Inr (newFiles, existingFiles, rr1) \<Rightarrow>
        (case createGenericFiles env (newFiles, rr1, Acts st) of
           (newFiles1, rr2, acts1) \<Rightarrow>
            (case updateGenericFiles env existingFiles (rr2, acts1) of
               (rr3, acts2) \<Rightarrow>
                (case saveGenericFilesInBoltDB env newFiles1 (Db st, rr3) of
                   (db1, rr4) \<Rightarrow>
                    (case saveGenericFilesInBoltDB env existingFiles (db1, rr4) of
                       (db2, rr5) \<Rightarrow>
                         Inr \<lparr> Db = db2, Result = rr5, Acts = acts2 \<rparr>)))))"

text \<open>
  The \<open>for\<close> loop itself: \<open>offset\<close> moves on by the length of the batch, and a
  batch shorter than \<open>GENERIC_FILE_BATCH_SIZE\<close> is the last one.
\<close>

function save_batches :: "RecordEnv \<Rightarrow> int \<Rightarrow> nat \<Rightarrow> RecordState \<Rightarrow> go_panic + RecordState" where
  "save_batches env objId offset st =
    (let batch = FileIdentifierBatch (Db st) offset GENERIC_FILE_BATCH_SIZE in
     case save_batch env objId batch st of
       Inl p \<Rightarrow> Inl p
     | Inr st1 \<Rightarrow>
         if length batch < GENERIC_FILE_BATCH_SIZE then Inr st1
         else save_batches env objId (offset + length batch) st1)"
  by pat_completeness auto

text \<open>
  \<open>saveAllPharosData\<close>: the manifest with the record result, the staging database
  as it is left (if it was opened) and the calls made.
\<close>

definition saveAllPharosData ::
  "RecordEnv \<Rightarrow> IngestManifest \<Rightarrow> action list
     \<Rightarrow> go_panic + IngestManifest \<times> StagingDB option \<times> action list"
where
  "saveAllPharosData env m acts =
    (let rr = RecordResult m in
     case OpenDb env (DBPath m) of
       Inl e \<Rightarrow> Inr (m\<lparr> RecordResult := AddError e rr \<rparr>, None, acts)
     | Inr db \<Rightarrow>
        (case DbObject db of
           Inl e \<Rightarrow> Inr (m\<lparr> RecordResult := AddError e rr \<rparr>, Some db, acts)
         | Inr obj \<Rightarrow>
            (case BuildObjectIngestEvents env obj (FileCount db) of
               Some e \<Rightarrow> Inr (m\<lparr> RecordResult := set_fatal (AddError e rr) \<rparr>, Some db, acts)
             | None \<Rightarrow>
                (case (if ObjectId (Object m) = 0
                       then saveIntellectualObject env (obj, rr, acts) else (obj, rr, acts)) of
                   (obj1, rr1, acts1) \<Rightarrow>
                     if ObjectId (Object m) = 0 \<and> HasErrors rr1 then
                       Inr (m\<lparr> RecordResult := rr1 \<rparr>, Some db, acts1)
                     else
                       (case DbSaveError env (ObjectIdentifier obj1) of
                          Some e \<Rightarrow> Inr (m\<lparr> RecordResult := AddError e rr1 \<rparr>, Some db, acts1)
                        | None \<Rightarrow>
                           (case save_batches env (ObjectId obj1) 0
                                   \<lparr> Db = db\<lparr> DbObject := Inr obj1 \<rparr>, Result = rr1,
                                     Acts = acts1 \<rparr> of
                              Inl p \<Rightarrow> Inl p
                            | Inr st \<Rightarrow>
                                Inr (m\<lparr> RecordResult := Result st \<rparr>, Some (Db st),
                                     Acts st)))))))"

text \<open>
  \<open>record\<close> and then \<open>cleanup\<close> for one item: what the two goroutines do to an
  item that \<open>HandleMessage\<close> put into the record channel.
\<close>

definition start_record :: "nat \<Rightarrow> IngestManifest \<Rightarrow> IngestManifest" where
  "start_record now m =
     m\<lparr> RecordResult := (Start now (RecordResult m))
          \<lparr> Attempted := True, AttemptNumber := AttemptNumber (RecordResult m) + 1 \<rparr> \<rparr>"

definition record_and_cleanup ::
  "RecordEnv \<Rightarrow> CleanupEnv \<Rightarrow> Config \<Rightarrow> nat \<Rightarrow> IngestManifest
     \<Rightarrow> go_panic + IngestManifest \<times> action list"
where
  "record_and_cleanup renv cenv cfg now m =
    (case saveAllPharosData renv (start_record now m) [] of
       Inl p \<Rightarrow> Inl p
     | Inr (m2, db, acts) \<Rightarrow> Inr (cleanup cenv cfg now (m2, acts)))"

text \<open>
  What the claims about the record worker are stated with: the object id is written
  into a file before it is sorted; a new file needs saving, has no earlier version and
  no id; an existing file needs saving, has an earlier version and an id; the calls one
  batch of files leads to; a list cut into batches; the files a response lists, merged
  into the files of a batch; the actions of \<open>cleanup\<close> that come before
  \<open>deleteBagFromReceivingBucket\<close>; and the branch of \<open>cleanup\<close> that reaches it.
\<close>

definition prepare_file :: "int \<Rightarrow> GenericFile \<Rightarrow> GenericFile" where
  "prepare_file objId gf = gf\<lparr> IntellectualObjectId := objId \<rparr>"

definition is_new_file :: "GenericFile \<Rightarrow> bool" where
  "is_new_file gf = (IngestNeedsSave gf \<and> \<not> IngestPreviousVersionExists gf \<and> Id gf = 0)"

definition is_existing_file :: "GenericFile \<Rightarrow> bool" where
  "is_existing_file gf = (IngestNeedsSave gf \<and> IngestPreviousVersionExists gf \<and> Id gf > 0)"





definition cleanup_before_delete :: "CleanupEnv \<Rightarrow> IngestManifest \<Rightarrow> action list" where
  "cleanup_before_delete env m =
     [MarkWorkItemStarted StageCleanup, DeleteFileFromStaging (BagPath m)]
       @ (if TestEnv env \<noteq> ''integration'' then [DeleteFileFromStaging (DBPath m)] else [])"

definition recorded_ok :: "CleanupEnv \<Rightarrow> Config \<Rightarrow> IngestManifest \<Rightarrow> bool" where
  "recorded_ok env cfg m =
     (\<not> HasErrors (RecordResult m) \<and> \<not> ManifestHasFatalErrors env m
      \<and> \<not> (ManifestHasErrors env m \<and> AttemptNumber (RecordResult m) \<ge> MaxAttempts cfg))"

fun is_registry_call :: "action \<Rightarrow> bool" where
  "is_registry_call (ObjectGet i) = True"
| "is_registry_call (ObjectSave obj) = True"
| "is_registry_call (EventSave e) = True"
| "is_registry_call (FileBatchPost files) = True"
| "is_registry_call (FilePut gf) = True"
| "is_registry_call a = False"




definition example_object :: IntellectualObject where
  "example_object = \<lparr> ObjectId = 0, ObjectIdentifier = ''test.edu/bag'', BagName = ''bag'',
     Institution = ''test.edu'', IngestTarFilePath = ''/mnt/apt/data/bag.tar'',
     IngestUntarredPath = ''/mnt/apt/data/bag'', GenericFiles = [], IngestTags = [],
     PremisEvents = [''ingest'', ''identifier_assignment'', ''access_assignment''],
     IngestFilesIgnored = [], ObjectIngestErrorMessage = [],
     IngestDeletedFromReceivingAt = ZeroTime \<rparr>"

definition example_manifest :: IngestManifest where
  "example_manifest = \<lparr> S3Bucket = ''aptrust.receiving.test.edu'', S3Key = ''bag.tar'',
     BagPath = ''/mnt/apt/data/bag.tar'', DBPath = ''/mnt/apt/data/bag.valdb'',
     Object = example_object, RecordResult = NewWorkSummary,
     CleanupResult = NewWorkSummary \<rparr>"




definition example_cleanup_env :: CleanupEnv where
  "example_cleanup_env = \<lparr>
     ManifestHasErrors = (\<lambda>m. HasErrors (RecordResult m) \<or> HasErrors (CleanupResult m)),
     ManifestHasFatalErrors =
       (\<lambda>m. ErrorIsFatal (RecordResult m) \<or> ErrorIsFatal (CleanupResult m)),
     TestEnv = [],
     LoadObject = (\<lambda>acts path.
        if DeleteFileFromStaging path \<in> set acts then None else Some example_object),
     DeleteList = (\<lambda>bucket key. []) \<rparr>"



section \<open>The Glacier restore initiator (dpn/workers/dpn\_glacier\_restore\_init.go)\<close>

definition RETRIEVAL_OPTION :: string where
  "RETRIEVAL_OPTION = ''Bulk''"

definition HOURS_BETWEEN_CHECKS :: int where
  "HOURS_BETWEEN_CHECKS = 3"

definition DAYS_TO_KEEP_IN_S3 :: nat where
  "DAYS_TO_KEEP_IN_S3 = 60"

text \<open>A \<open>time.Duration\<close> counts nanoseconds.\<close>

definition Minute :: int where
  "Minute = 60 * 1000000000"

definition Hour :: int where
  "Hour = 60 * Minute"

definition StatusFailed :: string where
  "StatusFailed = ''Failed''"

text \<open>
  In this worker the clock counts seconds. \<open>AddDate(0, 0, days)\<close> on a UTC time adds
  that many days of 24 hours.
\<close>

definition AddDate_days :: "nat \<Rightarrow> nat \<Rightarrow> nat" where
  "AddDate_days days t = t + days * 86400"

text \<open>\<open>strings.Contains\<close>.\<close>

fun Contains :: "string \<Rightarrow> string \<Rightarrow> bool" where
  "Contains [] substr = (substr = [])"
| "Contains (c # s) substr = (take (length substr) (c # s) = substr \<or> Contains s substr)"

text \<open>
  The \<open>DPNWorkItem\<close> and the \<open>DPNGlacierRestoreState\<close> the worker uses: the fields it reads
  and writes. Of the NSQ message the state keeps the number of attempts. The declarations of
  \<open>Stage\<close>, \<open>Status\<close>, \<open>Retry\<close> and \<open>Pid\<close> on the work item and the whole restore state are not
  under src/.
\<close>

record DPNWorkItem =
  ItemId :: int
  ItemIdentifier :: string
  Node :: string
  Pid :: int
  Note :: "string option"
  ItemState :: "string option"
  Stage :: string
  Status :: string
  ItemRetry :: bool

record DPNGlacierRestoreState =
  NSQAttempts :: int
  WorkItem :: DPNWorkItem
  GlacierBucket :: string
  GlacierKey :: string
  ErrorMessage :: string
  StateErrorIsFatal :: bool
  RequestAccepted :: bool
  RequestedAt :: time
  EstimatedDeletionFromS3 :: time
  IsAvailableInS3 :: bool

record RestoreRequestInfo =
  RequestInProgress :: bool
  RequestIsComplete :: bool
  S3ExpiryDate :: time

text \<open>What the \<open>S3Restore\<close> client reports after \<open>Restore()\<close>.\<close>

record S3Restore =
  RestoreErrorMessage :: string
  RestoreAccepted :: bool
  AlreadyInActiveTier :: bool
  RequestRejectedServiceUnavailable :: bool

text \<open>What the worker does to S3, Glacier, Pharos and NSQ, in order.\<close>

datatype restore_action =
    HeadRequest string string
  | RestoreRequest string string string nat
  | DPNWorkItemSave DPNWorkItem
  | NSQFinish
  | NSQRequeue int
  | NSQEnqueue string int

fun is_restore_request :: "restore_action \<Rightarrow> bool" where
  "is_restore_request (RestoreRequest bucket key tier days) = True"
| "is_restore_request a = False"

text \<open>
  The services and the configuration the worker depends on. \<open>Head\<close> gives the
  \<open>ErrorMessage\<close> of the \<open>S3Head\<close> client after the HEAD request for a bucket and key;
  \<open>GetRestoreRequestInfo\<close> gives the pointer (which may be nil) and the error;
  \<open>Restore\<close> takes bucket, key, retrieval tier and days; \<open>SaveError\<close> and
  \<open>EnqueueError\<close> give the error of \<open>DPNWorkItemSave\<close> and of \<open>Enqueue\<close>. The value of
  \<open>constants.StageAvailableInS3\<close> is not under src/.
\<close>

record RestoreEnv =
  Head :: "string \<Rightarrow> string \<Rightarrow> string"
  GetRestoreRequestInfo :: "string \<Rightarrow> string \<Rightarrow> RestoreRequestInfo option \<times> string option"
  Restore :: "string \<Rightarrow> string \<Rightarrow> string \<Rightarrow> nat \<Rightarrow> S3Restore"
  ToJson :: "DPNGlacierRestoreState \<Rightarrow> string \<times> string option"
  SaveError :: "DPNWorkItem \<Rightarrow> string option"
  EnqueueError :: "string \<Rightarrow> int \<Rightarrow> string option"
  WorkerMaxAttempts :: int
  DownloadTopic :: string
  StageAvailableInS3 :: string

text \<open>
  Modelled from the spec: \<open>ClearNodeAndPid\<close> (not under src/) clears the node name and the
  process id of the work item.
\<close>

definition ClearNodeAndPid :: "DPNWorkItem \<Rightarrow> DPNWorkItem" where
  "ClearNodeAndPid item = item\<lparr> Node := [], Pid := 0 \<rparr>"

text \<open>\<open>%v\<close> of an error that may be nil.\<close>

definition error_text :: "string option \<Rightarrow> string" where
  "error_text err = (case err of None \<Rightarrow> ''<nil>'' | Some e \<Rightarrow> e)"

definition SaveDPNWorkItem ::
  "RestoreEnv \<Rightarrow> DPNGlacierRestoreState \<times> restore_action list
     \<Rightarrow> DPNGlacierRestoreState \<times> restore_action list" where
  "SaveDPNWorkItem env sa =
     (let st = fst sa; acts = snd sa;
          jsonData = fst (ToJson env st); err = snd (ToJson env st);
          item1 = (if err \<noteq> None
                   then (WorkItem st)\<lparr> Note := Some ''[JSON serialization error]'' \<rparr>
                   else WorkItem st);
          item2 = item1\<lparr> ItemState := Some jsonData, ItemRetry := \<not> StateErrorIsFatal st \<rparr>;
          st1 = st\<lparr> WorkItem := item2 \<rparr>;
          acts1 = acts @ [DPNWorkItemSave item2]
      in case SaveError env item2 of
           None \<Rightarrow> (st1, acts1)
         | Some respError \<Rightarrow>
             (if ErrorMessage st1 = []
              then st1\<lparr> ErrorMessage := ''Could not save DPNWorkItem '' @ decimal (ItemId item2)
                        @ '' for fixity on bag '' @ ItemIdentifier item2 @ '' to Pharos: ''
                        @ error_text err \<rparr>
              else st1, acts1))"

definition SendToDownloadQueue ::
  "RestoreEnv \<Rightarrow> DPNGlacierRestoreState \<times> restore_action list
     \<Rightarrow> DPNGlacierRestoreState \<times> restore_action list" where
  "SendToDownloadQueue env sa =
     (let st = fst sa; topic = DownloadTopic env;
          acts1 = snd sa @ [NSQFinish, NSQEnqueue topic (ItemId (WorkItem st))]
      in case EnqueueError env topic (ItemId (WorkItem st)) of
           None \<Rightarrow> (st, acts1)
         | Some err \<Rightarrow>
             SaveDPNWorkItem env
               (st\<lparr> ErrorMessage := ''Glacier requested succeeded, but error pushing DPNWorkItem ''
                     @ decimal (ItemId (WorkItem st)) @ '' ('' @ ItemIdentifier (WorkItem st)
                     @ '') into NSQ topic '' @ topic @ '': '' @ err \<rparr>, acts1))"

definition FinishWithSuccess ::
  "RestoreEnv \<Rightarrow> DPNGlacierRestoreState \<times> restore_action list
     \<Rightarrow> DPNGlacierRestoreState \<times> restore_action list" where
  "FinishWithSuccess env sa =
     (let st = fst sa; acts = snd sa;
          item = ClearNodeAndPid (WorkItem st);
          note = ''Glacier restore initiated. Will check availability in S3 every ''
                 @ decimal HOURS_BETWEEN_CHECKS @ '' hours.''
      in if IsAvailableInS3 st
         then SendToDownloadQueue env
                (SaveDPNWorkItem env
                   (st\<lparr> WorkItem := item\<lparr> Note := Some ''Item is available in S3 for download.'',
                                            Stage := StageAvailableInS3 env \<rparr> \<rparr>, acts))
         else (let sa1 = SaveDPNWorkItem env
                           (st\<lparr> WorkItem := item\<lparr> Note := Some note, ItemRetry := True \<rparr> \<rparr>, acts)
               in (fst sa1, snd sa1 @ [NSQRequeue (HOURS_BETWEEN_CHECKS * Hour)])))"

text \<open>
  \<open>FinishWithError\<close> makes the note point to the state's error message; the message is not
  empty here, so \<open>SaveDPNWorkItem\<close> does not change it afterwards.
\<close>

definition FinishWithError ::
  "RestoreEnv \<Rightarrow> DPNGlacierRestoreState \<times> restore_action list
     \<Rightarrow> DPNGlacierRestoreState \<times> restore_action list" where
  "FinishWithError env sa =
     (let st = fst sa; acts = snd sa;
          item = (ClearNodeAndPid (WorkItem st))\<lparr> Note := Some (ErrorMessage st) \<rparr>
      in if StateErrorIsFatal st \<or> NSQAttempts st > WorkerMaxAttempts env
         then SaveDPNWorkItem env
                (st\<lparr> WorkItem := item\<lparr> Status := StatusFailed, ItemRetry := False \<rparr> \<rparr>,
                 acts @ [NSQFinish])
         else SaveDPNWorkItem env
                (st\<lparr> WorkItem := item\<lparr> ItemRetry := True \<rparr> \<rparr>,
                 acts @ [NSQRequeue (1 * Minute)]))"

text \<open>
  \<open>RestoreRequestNeeded\<close> returns the flag and the error. \<open>S3Url\<close>, which only the tests
  set, is empty. Reading a field of the nil \<open>RestoreRequestInfo\<close> panics.
\<close>

definition RestoreRequestNeeded ::
  "RestoreEnv \<Rightarrow> nat \<Rightarrow> DPNGlacierRestoreState \<times> restore_action list
     \<Rightarrow> go_panic + (bool \<times> string option) \<times> DPNGlacierRestoreState \<times> restore_action list" where
  "RestoreRequestNeeded env now sa =
     (let st = fst sa;
          acts1 = snd sa @ [HeadRequest (GlacierBucket st) (GlacierKey st)]
      in if Contains (Head env (GlacierBucket st) (GlacierKey st)) ''Conflict''
         then Inr ((False, None), st\<lparr> RequestAccepted := True, RequestedAt := At now \<rparr>, acts1)
         else (case GetRestoreRequestInfo env (GlacierBucket st) (GlacierKey st) of
                 (None, err) \<Rightarrow> Inl NilPointerDereference
               | (Some info, err) \<Rightarrow>
                   if RequestInProgress info
                   then Inr ((False, err),
                             st\<lparr> RequestAccepted := True, RequestedAt := At now \<rparr>, acts1)
                   else if RequestIsComplete info
                   then Inr ((False, err),
                             st\<lparr> RequestAccepted := True, RequestedAt := At now,
                                 IsAvailableInS3 := True,
                                 EstimatedDeletionFromS3 := S3ExpiryDate info \<rparr>, acts1)
                   else Inr ((True, err), st, acts1)))"

definition InitializeRetrieval ::
  "RestoreEnv \<Rightarrow> nat \<Rightarrow> DPNGlacierRestoreState \<times> restore_action list
     \<Rightarrow> DPNGlacierRestoreState \<times> restore_action list" where
  "InitializeRetrieval env now sa =
     (let st = fst sa;
          restoreClient = Restore env (GlacierBucket st) (GlacierKey st) RETRIEVAL_OPTION
                            DAYS_TO_KEEP_IN_S3;
          estimatedDeletionFromS3 = At (AddDate_days DAYS_TO_KEEP_IN_S3 now);
          acts1 = snd sa @ [RestoreRequest (GlacierBucket st) (GlacierKey st) RETRIEVAL_OPTION
                              DAYS_TO_KEEP_IN_S3];
          st1 = (if RestoreErrorMessage restoreClient \<noteq> []
                 then st\<lparr> ErrorMessage := ''Glacier retrieval request returned an error for ''
                           @ GlacierBucket st @ '' at '' @ GlacierKey st @ '': ''
                           @ RestoreErrorMessage restoreClient \<rparr>
                 else st);
          st2 = st1\<lparr> RequestAccepted := RestoreAccepted restoreClient,
                     RequestedAt := At now,
                     EstimatedDeletionFromS3 := estimatedDeletionFromS3,
                     IsAvailableInS3 := AlreadyInActiveTier restoreClient \<rparr>
      in (if RequestRejectedServiceUnavailable restoreClient
          then st2\<lparr> ErrorMessage := ''Request to restore '' @ GlacierBucket st @ ''/''
                     @ GlacierKey st
                     @ '': Glacier restore service is temporarily unavailable. Try again later.'',
                     StateErrorIsFatal := False \<rparr>
          else st2, acts1))"

text \<open>One state taken from the request channel; the result goes to the clean-up channel.\<close>

definition RequestRestore ::
  "RestoreEnv \<Rightarrow> nat \<Rightarrow> DPNGlacierRestoreState \<times> restore_action list
     \<Rightarrow> go_panic + DPNGlacierRestoreState \<times> restore_action list" where
  "RequestRestore env now sa =
     (case RestoreRequestNeeded env now sa of
        Inl p \<Rightarrow> Inl p
      | Inr (r, sa1) \<Rightarrow>
          (case snd r of
             Some err \<Rightarrow>
               Inr ((fst sa1)\<lparr> ErrorMessage := ''Error processing S3 HEAD request for ''
                               @ GlacierKey (fst sa1) @ '': '' @ err \<rparr>, snd sa1)
           | None \<Rightarrow> if fst r then Inr (InitializeRetrieval env now sa1) else Inr sa1))"

text \<open>One state taken from the clean-up channel.\<close>

definition Cleanup ::
  "RestoreEnv \<Rightarrow> DPNGlacierRestoreState \<times> restore_action list
     \<Rightarrow> DPNGlacierRestoreState \<times> restore_action list" where
  "Cleanup env sa =
     (if ErrorMessage (fst sa) \<noteq> [] then FinishWithError env sa else FinishWithSuccess env sa)"

text \<open>
  A state that \<open>HandleMessage\<close> put on the request channel, followed through
  \<open>RequestRestore\<close> and \<open>Cleanup\<close>.
\<close>

definition request_and_cleanup ::
  "RestoreEnv \<Rightarrow> nat \<Rightarrow> DPNGlacierRestoreState
     \<Rightarrow> go_panic + DPNGlacierRestoreState \<times> restore_action list" where
  "request_and_cleanup env now st =
     (case RequestRestore env now (st, []) of
        Inl p \<Rightarrow> Inl p
      | Inr sa \<Rightarrow> Inr (Cleanup env sa))"

text \<open>
  An example: the state \<open>GetRestoreState\<close> builds for work item 33 and a bag stored in
  Glacier, and services where the HEAD request for the bag answers 409.
\<close>

definition example_restore_state :: DPNGlacierRestoreState where
  "example_restore_state = \<lparr> NSQAttempts = 1,
     WorkItem = \<lparr> ItemId = 33, ItemIdentifier = ''b3b1c0b8-5f0c-4d1a-9d3e-1c2f3a4b5c6d'',
       Node = ''worker-1'', Pid = 4711,
       Note = Some ''Requesting Glacier restoration for fixity'', ItemState = None,
       Stage = ''Requested'', Status = ''Started'', ItemRetry = True \<rparr>,
     GlacierBucket = ''aptrust.dpn.preservation'',
     GlacierKey = ''b3b1c0b8-5f0c-4d1a-9d3e-1c2f3a4b5c6d'',
     ErrorMessage = [], StateErrorIsFatal = False, RequestAccepted = False,
     RequestedAt = ZeroTime, EstimatedDeletionFromS3 = ZeroTime, IsAvailableInS3 = False \<rparr>"

definition example_restore_env :: "string \<Rightarrow> RestoreEnv" where
  "example_restore_env headError = \<lparr>
     Head = (\<lambda>bucket key. headError),
     GetRestoreRequestInfo = (\<lambda>bucket key.
       (Some \<lparr> RequestInProgress = False, RequestIsComplete = False, S3ExpiryDate = ZeroTime \<rparr>,
        None)),
     Restore = (\<lambda>bucket key tier days.
       \<lparr> RestoreErrorMessage = [], RestoreAccepted = True, AlreadyInActiveTier = False,
         RequestRejectedServiceUnavailable = False \<rparr>),
     ToJson = (\<lambda>st. (''{}'', None)),
     SaveError = (\<lambda>item. None),
     EnqueueError = (\<lambda>topic id. None),
     WorkerMaxAttempts = 5,
     DownloadTopic = ''dpn_s3_download_topic'',
     StageAvailableInS3 = ''Available in S3'' \<rparr>"

section \<open>The tar reader (tarfile/reader.go)\<close>

text \<open>
  The part of \<open>models.IngestManifest\<close> the reader uses: the object, which may be nil, and
  the work summary \<open>Untar\<close>.
\<close>

record ReaderManifest =
  ManifestObject :: "IntellectualObject option"
  UntarSummary :: WorkSummary

text \<open>
  What \<open>os.Stat\<close> answers: no such file, another error, a directory, or anything else.
\<close>

datatype stat_result = StatNotExist | StatError | StatDir | StatFile

datatype typeflag = TypeReg | TypeRegA | TypeDir | TypeSymlink

record TarHeader =
  HeaderName :: string
  Typeflag :: typeflag
  HeaderSize :: int

text \<open>What the reader does to the file system, in order.\<close>

datatype fs_action = OsOpen string | OsMkdirAll string | OsWriteFile string

text \<open>
  The file system and the library functions the reader depends on. \<open>OsOpenTar\<close> gives the
  error of \<open>os.Open\<close>, or what \<open>tarReader.Next()\<close> returns call after call, an error or a
  header, up to \<open>EOF\<close>. \<open>WriteError\<close> is the error of writing an entry to a path.
  \<open>models.NewGenericFile\<close>, \<open>util.HasSavableName\<close>, the UUID generator and the digests and
  mime type that \<open>SaveWithChecksums\<close> computes from the entry's bytes are parameters too.
\<close>

record FileSystem =
  FilepathAbs :: "string \<Rightarrow> string + string"
  OsStat :: "string \<Rightarrow> stat_result"
  OsOpenTar :: "string \<Rightarrow> string + (string + TarHeader) list"
  FilepathDir :: "string \<Rightarrow> string"
  FilepathJoin :: "string \<Rightarrow> string \<Rightarrow> string"
  PathBase :: "string \<Rightarrow> string"
  MkdirAllError :: "string \<Rightarrow> string option"
  WriteError :: "string \<Rightarrow> string option"
  NewGenericFile :: GenericFile
  NewUUID :: "string \<Rightarrow> string"
  EntryDigests :: "string \<Rightarrow> string \<times> string \<times> string"
  SavableName :: "string \<Rightarrow> bool"

definition RecordStartOfWork :: "nat \<Rightarrow> ReaderManifest \<Rightarrow> ReaderManifest" where
  "RecordStartOfWork now m =
     m\<lparr> UntarSummary := Start now ((UntarSummary m)\<lparr> Attempted := True,
           AttemptNumber := AttemptNumber (UntarSummary m) + 1, FinishedAt := ZeroTime \<rparr>) \<rparr>"

text \<open>
  \<open>ManifestInfoIsValid\<close> returns its boolean and the manifest with the errors added.
  \<open>filepath.Abs\<close> returns the empty string with an error. When \<open>os.Stat\<close> fails with an
  error other than "does not exist", \<open>fileStat\<close> is nil and \<open>fileStat.Mode()\<close> panics.
\<close>

definition ManifestInfoIsValid ::
  "FileSystem \<Rightarrow> ReaderManifest \<Rightarrow> go_panic + bool \<times> ReaderManifest" where
  "ManifestInfoIsValid fs m =
     (case ManifestObject m of
        None \<Rightarrow>
          Inr (False, m\<lparr> UntarSummary :=
                 AddError ''IntellectualObject is missing from manifest.'' (UntarSummary m) \<rparr>)
      | Some ob \<Rightarrow>
          (let s0 = UntarSummary m;
               s1 = (if ObjectIdentifier ob = []
                     then AddError ''IntellectualObject has no Identifier.'' s0 else s0);
               s2 = (if BagName ob = []
                     then AddError ''IntellectualObject has no BagName.'' s1 else s1);
               s3 = (if Institution ob = []
                     then AddError ''IntellectualObject has no Institution.'' s2 else s2);
               tarFilePath = IngestTarFilePath ob;
               s4 = (if tarFilePath = []
                     then AddError ''IntellectualObject is missing IngestTarFilePath.'' s3
                     else if (case FilepathAbs fs tarFilePath of Inl err \<Rightarrow> [] | Inr p \<Rightarrow> p)
                             \<noteq> tarFilePath
                     then AddError
                       ''IntellectualObject has a relative or incorrect IngestTarFilePath.'' s3
                     else s3)
           in case OsStat fs tarFilePath of
                StatNotExist \<Rightarrow>
                  (let s5 = AddError (''IngestTarFilePath '' @ [CHR 0x27] @ tarFilePath
                                      @ [CHR 0x27] @ '' does not exist.'') s4
                   in Inr (HasErrors s5, m\<lparr> UntarSummary := s5 \<rparr>))
              | StatError \<Rightarrow> Inl NilPointerDereference
              | StatDir \<Rightarrow>
                  (let s5 = AddError (''IngestTarFilePath '' @ [CHR 0x27] @ tarFilePath
                                      @ [CHR 0x27] @ '' is a directory.'') s4
                   in Inr (HasErrors s5, m\<lparr> UntarSummary := s5 \<rparr>))
              | StatFile \<Rightarrow> Inr (HasErrors s4, m\<lparr> UntarSummary := s4 \<rparr>)))"

text \<open>\<open>strings.Replace(s, "/", "", 1)\<close> and \<open>strings.HasSuffix\<close>.\<close>

fun remove_first_slash :: "string \<Rightarrow> string" where
  "remove_first_slash [] = []"
| "remove_first_slash (c # s) = (if c = CHR ''/'' then s else c # remove_first_slash s)"

definition HasSuffix :: "string \<Rightarrow> string \<Rightarrow> bool" where
  "HasSuffix s suffix = (length suffix \<le> length s \<and> drop (length s - length suffix) s = suffix)"

text \<open>\<open>GetTopLevelDir\<close> on a system other than Windows.\<close>

definition GetTopLevelDir ::
  "FileSystem \<Rightarrow> IntellectualObject \<Rightarrow> string \<Rightarrow> string \<times> string option" where
  "GetTopLevelDir fs ob headerName =
     (let topLevelDir = remove_first_slash headerName;
          base = PathBase fs topLevelDir;
          expectedDir = (if HasSuffix base ''.tar'' then take (length base - 4) base else base)
      in (topLevelDir,
          if topLevelDir \<noteq> expectedDir
          then Some (''Bag '' @ [CHR 0x27] @ PathBase fs (IngestTarFilePath ob) @ [CHR 0x27]
                 @ '' should untar to a folder named '' @ [CHR 0x27] @ expectedDir @ [CHR 0x27]
                 @ '', but it untars to '' @ [CHR 0x27] @ topLevelDir @ [CHR 0x27]
                 @ ''. Please repackage this bag and try again.'')
          else None))"

text \<open>\<open>GetFileName\<close>: \<open>strings.SplitN(headerName, "/", 2)\<close> cuts at the first slash.\<close>

definition GetFileName :: "string \<Rightarrow> string + string" where
  "GetFileName headerName =
     (if CHR ''/'' \<notin> set headerName
      then Inl (''File '' @ headerName @ '' in tar archive should be in format dir/filename'')
      else Inr (tl (dropWhile (\<lambda>c. c \<noteq> CHR ''/'') headerName)))"

text \<open>
  The state of the loop of \<open>Untar\<close>: the object, the work summary and the file system
  actions. \<open>CreateAndSaveGenericFile\<close> also returns the new file. Of the fields it sets, the
  model keeps those of the \<open>GenericFile\<close> record above; the local path is the key under
  which the entry was written.
\<close>

type_synonym untar_state = "IntellectualObject \<times> WorkSummary \<times> fs_action list"

definition SaveWithChecksums :: "FileSystem \<Rightarrow> string \<Rightarrow> GenericFile \<Rightarrow> GenericFile" where
  "SaveWithChecksums fs localPath gf =
     (case WriteError fs localPath of
        Some err \<Rightarrow>
          gf\<lparr> IngestErrorMessage := ''Error opening writing to '' @ localPath @ '': '' @ err \<rparr>
      | None \<Rightarrow>
          gf\<lparr> IngestMd5 := fst (EntryDigests fs localPath),
              IngestSha256 := fst (snd (EntryDigests fs localPath)),
              FileFormat := snd (snd (EntryDigests fs localPath)) \<rparr>)"

definition CreateAndSaveGenericFile ::
  "FileSystem \<Rightarrow> TarHeader \<Rightarrow> untar_state \<Rightarrow> GenericFile \<times> untar_state" where
  "CreateAndSaveGenericFile fs header st =
     (let ob = fst st; s = fst (snd st); acts = snd (snd st);
          fileDir = FilepathDir fs (IngestUntarredPath ob)
      in case FilepathAbs fs (FilepathJoin fs fileDir (HeaderName header)) of
           Inl err \<Rightarrow>
             (let gf = (NewGenericFile fs)\<lparr> IngestErrorMessage := ''Path error: '' @ err \<rparr>
              in (gf, ob\<lparr> GenericFiles := GenericFiles ob @ [gf] \<rparr>,
                  AddError (IngestErrorMessage gf) s, acts))
         | Inr localPath \<Rightarrow>
             (let gf = SaveWithChecksums fs localPath
                         ((NewGenericFile fs)\<lparr>
                            IntellectualObjectIdentifier := ObjectIdentifier ob,
                            Identifier := ObjectIdentifier ob @ ''/'' @ localPath,
                            Size := HeaderSize header,
                            IngestUUID := NewUUID fs localPath \<rparr>)
              in (gf, ob\<lparr> GenericFiles := GenericFiles ob @ [gf] \<rparr>, s,
                  acts @ [OsWriteFile localPath])))"

text \<open>
  One pass through the loop body for a header: the flag tells whether the loop goes on
  to the next header; when it does not, \<open>Untar\<close> returns.
\<close>

definition untar_entry ::
  "FileSystem \<Rightarrow> nat \<Rightarrow> string \<Rightarrow> TarHeader \<Rightarrow> untar_state \<Rightarrow> bool \<times> untar_state" where
  "untar_entry fs now tarFileDir header st =
     (let ob = fst st; s = fst (snd st); acts = snd (snd st);
          top = (if Typeflag header = TypeDir \<and> IngestUntarredPath ob = []
                 then (case GetTopLevelDir fs ob (HeaderName header) of
                         (topLevelDir, Some err) \<Rightarrow> Inl err
                       | (topLevelDir, None) \<Rightarrow>
                           Inr (ob\<lparr> IngestUntarredPath :=
                                     FilepathJoin fs tarFileDir topLevelDir \<rparr>))
                 else Inr ob)
      in case top of
           Inl err \<Rightarrow> (False, ob, Finish now (AddError err s), acts)
         | Inr ob1 \<Rightarrow>
             (let outputPath = FilepathJoin fs (IngestUntarredPath ob1) (HeaderName header);
                  acts1 = acts @ [OsMkdirAll (FilepathDir fs outputPath)]
              in case MkdirAllError fs (FilepathDir fs outputPath) of
                   Some err \<Rightarrow>
                     (False, ob1,
                      AddError (''Could not create destination file '' @ [CHR 0x27] @ outputPath
                        @ [CHR 0x27] @ '' while unpacking tar archive: '' @ err) s, acts1)
                 | None \<Rightarrow>
                     if Typeflag header = TypeReg \<or> Typeflag header = TypeRegA
                     then (case GetFileName (HeaderName header) of
                             Inl err \<Rightarrow> (False, ob1, Finish now (AddError err s), acts1)
                           | Inr fileName \<Rightarrow>
                               if SavableName fs fileName
                               then (let r = CreateAndSaveGenericFile fs header (ob1, s, acts1);
                                         gf = fst r; ob2 = fst (snd r); s2 = fst (snd (snd r));
                                         acts2 = snd (snd (snd r))
                                     in if IngestErrorMessage gf \<noteq> []
                                        then (False, ob2,
                                              Finish now (AddError (IngestErrorMessage gf) s2),
                                              acts2)
                                        else (True, ob2, s2, acts2))
                               else (case WriteError fs outputPath of
                                       Some err \<Rightarrow>
                                         (False, ob1,
                                          Finish now (AddError
                                            (''Error copying file from tar archive to ''
                                             @ [CHR 0x27] @ outputPath @ [CHR 0x27] @ '': '' @ err)
                                            s),
                                          acts1 @ [OsWriteFile outputPath])
                                     | None \<Rightarrow>
                                         (True, ob1, s, acts1 @ [OsWriteFile outputPath])))
                     else if Typeflag header \<noteq> TypeDir
                     then (True, ob1\<lparr> IngestFilesIgnored :=
                                       IngestFilesIgnored ob1 @ [HeaderName header] \<rparr>, s, acts1)
                     else (True, ob1, s, acts1)))"

fun untar_entries ::
  "FileSystem \<Rightarrow> nat \<Rightarrow> string \<Rightarrow> (string + TarHeader) list \<Rightarrow> untar_state \<Rightarrow> untar_state" where
  "untar_entries fs now tarFileDir [] st = (fst st, Finish now (fst (snd st)), snd (snd st))"
| "untar_entries fs now tarFileDir (Inl err # rest) st =
     (fst st,
      Finish now (AddError (''Error reading tar file header: '' @ err
        @ ''. Either this is not a tar file, or the file is corrupt.'') (fst (snd st))),
      snd (snd st))"
| "untar_entries fs now tarFileDir (Inr header # rest) st =
     (if fst (untar_entry fs now tarFileDir header st)
      then untar_entries fs now tarFileDir rest (snd (untar_entry fs now tarFileDir header st))
      else snd (untar_entry fs now tarFileDir header st))"

definition Untar ::
  "FileSystem \<Rightarrow> nat \<Rightarrow> ReaderManifest \<Rightarrow> go_panic + ReaderManifest \<times> fs_action list" where
  "Untar fs now m =
     (case ManifestInfoIsValid fs (RecordStartOfWork now m) of
        Inl p \<Rightarrow> Inl p
      | Inr (valid, m1) \<Rightarrow>
          if \<not> valid
          then Inr (m1\<lparr> UntarSummary := Finish now (UntarSummary m1) \<rparr>, [])
          else (case ManifestObject m1 of
                  None \<Rightarrow> Inl NilPointerDereference
                | Some ob \<Rightarrow>
                    (let tarFileDir = FilepathDir fs (IngestUntarredPath ob)
                     in case OsOpenTar fs (IngestTarFilePath ob) of
                          Inl err \<Rightarrow>
                            Inr (m1\<lparr> UntarSummary := Finish now (AddError
                                   (''Could not open file '' @ IngestTarFilePath ob
                                    @ '' for untarring: '' @ err) (UntarSummary m1)) \<rparr>,
                                 [OsOpen (IngestTarFilePath ob)])
                        | Inr entries \<Rightarrow>
                            (let st = untar_entries fs now tarFileDir entries
                                        (ob, UntarSummary m1, [OsOpen (IngestTarFilePath ob)])
                             in Inr (m1\<lparr> ManifestObject := Some (fst st),
                                         UntarSummary := fst (snd st) \<rparr>, snd (snd st))))))"

text \<open>
  An example: a file system that holds the bag \<open>/mnt/apt/data/bag.tar\<close>, with a directory
  entry and two files, and nothing else.
\<close>

fun dirname :: "string \<Rightarrow> string" where
  "dirname p = rev (tl (dropWhile (\<lambda>c. c \<noteq> CHR ''/'') (rev p)))"

fun basename :: "string \<Rightarrow> string" where
  "basename p = rev (takeWhile (\<lambda>c. c \<noteq> CHR ''/'') (rev p))"

definition example_fs :: FileSystem where
  "example_fs = \<lparr>
     FilepathAbs = (\<lambda>p. if p \<noteq> [] \<and> hd p = CHR ''/'' then Inr p else Inr (''/home/apt/'' @ p)),
     OsStat = (\<lambda>p. if p = ''/mnt/apt/data/bag.tar'' then StatFile
                    else if p = ''/mnt/apt/data'' then StatDir else StatNotExist),
     OsOpenTar = (\<lambda>p. if p = ''/mnt/apt/data/bag.tar''
                       then Inr [Inr \<lparr> HeaderName = ''bag/'', Typeflag = TypeDir, HeaderSize = 0 \<rparr>,
                                 Inr \<lparr> HeaderName = ''bag/bagit.txt'', Typeflag = TypeReg,
                                       HeaderSize = 55 \<rparr>,
                                 Inr \<lparr> HeaderName = ''bag/data/hello.txt'', Typeflag = TypeReg,
                                       HeaderSize = 6 \<rparr>]
                       else Inl (''open '' @ p @ '': no such file or directory'')),
     FilepathDir = dirname,
     FilepathJoin = (\<lambda>a b. if a = [] then b else a @ ''/'' @ b),
     PathBase = basename,
     MkdirAllError = (\<lambda>p. None),
     WriteError = (\<lambda>p. None),
     NewGenericFile = hello_file\<lparr> Identifier := [], IntellectualObjectIdentifier := [],
       Size := 0, FileFormat := [], IngestUUID := [], IngestMd5 := [], IngestSha256 := [],
       IngestManifestSha256 := [] \<rparr>,
     NewUUID = (\<lambda>p. ''1552abf5-28f3-46a5-ba63-95302d08e209''),
     EntryDigests = (\<lambda>p. (''b1946ac9'', ''5891b5b5'', ''text/plain'')),
     SavableName = (\<lambda>name. name \<noteq> ''bagit.txt'') \<rparr>"

definition valid_reader_manifest :: ReaderManifest where
  "valid_reader_manifest =
     \<lparr> ManifestObject = Some (example_object\<lparr> IngestUntarredPath := [] \<rparr>),
       UntarSummary = NewWorkSummary \<rparr>"

definition empty_reader_manifest :: ReaderManifest where
  "empty_reader_manifest =
     \<lparr> ManifestObject = Some (example_object\<lparr> ObjectIdentifier := [], BagName := [],
         Institution := [], IngestTarFilePath := [] \<rparr>),
       UntarSummary = NewWorkSummary \<rparr>"

section \<open>Theorems\<close>

subsection \<open>C3: the part-size ladder\<close>

text \<open>
  C3, as stated, fails: a file of exactly 5000 MiB lies at or above 500 MiB and below
  5 GiB, so the stated ladder gives it 128 MiB parts, but \<open>Send\<close> compares against
  \<open>MinUploadPartSize * 1000\<close> (5000 MiB) and gives it 512 MiB parts.
\<close>

theorem C3_ladder_counterexample:
  "500 * MiB \<le> 5000 * MiB \<and> 5000 * MiB < 5 * GiB
   \<and> spec_ladder (5000 * MiB) = 128 * MiB
   \<and> ChunkSize (5000 * MiB) = 512 * MiB
   \<and> ChunkSize (5000 * MiB) \<noteq> spec_ladder (5000 * MiB)"
  by (simp add: ChunkSize_def Send_uploader_def spec_ladder_def NewUploader_def
      MinUploadPartSize_def MiB_def GiB_def)

text \<open>
  C3 as amended: \<open>Send\<close> selects the part size and concurrency from the size by
  thresholds that are multiples of the 5 MiB minimum part size: 5 MiB parts (default
  concurrency 5) below 5 MiB; 128 MiB parts, concurrency 2, from 500 MiB up to but not
  including 5000 MiB; 512 MiB parts, concurrency 1, from 5000 MiB up to but not
  including 50000 MiB; 1 GiB parts, concurrency 1, from 50000 MiB on. (Sizes from
  5 MiB up to 500 MiB are left out of the amended claim.)
\<close>

theorem C3_ladder_amended:
  "(sz < 5 * MiB \<longrightarrow>
      Send_uploader sz = \<lparr> PartSize = 5 * MiB, Concurrency = 5 \<rparr>)
   \<and> (500 * MiB \<le> sz \<and> sz < 5000 * MiB \<longrightarrow>
      Send_uploader sz = \<lparr> PartSize = 128 * MiB, Concurrency = 2 \<rparr>)
   \<and> (5000 * MiB \<le> sz \<and> sz < 50000 * MiB \<longrightarrow>
      Send_uploader sz = \<lparr> PartSize = 512 * MiB, Concurrency = 1 \<rparr>)
   \<and> (50000 * MiB \<le> sz \<longrightarrow>
      Send_uploader sz = \<lparr> PartSize = GiB, Concurrency = 1 \<rparr>)"
  by (simp add: Send_uploader_def NewUploader_def MinUploadPartSize_def MiB_def GiB_def)

theorem C3_ladder_amended_witness:
  "Send_uploader (1 * MiB) = \<lparr> PartSize = 5 * MiB, Concurrency = 5 \<rparr>
   \<and> Send_uploader (600 * MiB) = \<lparr> PartSize = 128 * MiB, Concurrency = 2 \<rparr>
   \<and> Send_uploader (6000 * MiB) = \<lparr> PartSize = 512 * MiB, Concurrency = 1 \<rparr>
   \<and> Send_uploader (60000 * MiB) = \<lparr> PartSize = GiB, Concurrency = 1 \<rparr>"
  using C3_ladder_amended [of "1 * MiB"] C3_ladder_amended [of "600 * MiB"]
    C3_ladder_amended [of "6000 * MiB"] C3_ladder_amended [of "60000 * MiB"]
  by (simp add: MiB_def)

subsection \<open>C4: forbidden tags\<close>

lemma verifyTagSpecs_forbidden_absent:
  "Presence tagSpec = FORBIDDEN \<Longrightarrow> findTag tagName = [] \<Longrightarrow>
     verifyTagSpecs findTag ((tagName, tagSpec) # rest) vs = Inl IndexOutOfRange"
  by simp

lemma verifyTagSpecs_forbidden_present:
  "Presence tagSpec = FORBIDDEN \<Longrightarrow> findTag tagName = t # ts \<Longrightarrow>
     verifyTagSpecs findTag [(tagName, tagSpec)] vs
       = Inr (AddError (forbidden_tag_error tagName (SourceFile t)) vs)"
  by simp

text \<open>
  C4, at the failing input: the configuration forbids the tag \<open>Bad-Tag\<close> and the bag
  has no tag at all. The claim says that the check completes and appends no violation;
  \<open>verifyTagSpecs\<close> reads \<open>tags[0]\<close> of the empty slice and panics, and so does
  \<open>Validate\<close>. (When the tag is present, the violation is appended.)
\<close>

theorem C4_forbidden_absent_panics:
  "verifyTagSpecs (\<lambda>name. [])
      [(''Bad-Tag'', \<lparr> Presence = FORBIDDEN, EmptyOK = False, AllowedValues = [] \<rparr>)]
      NewWorkSummary
     = Inl IndexOutOfRange
   \<and> Validate 1 (\<lambda>obj path. None) (\<lambda>obj name. filter (\<lambda>t. Label t = name) (IngestTags obj))
      \<lparr> FileSpecs = [],
        TagSpecs = [(''Bad-Tag'', \<lparr> Presence = FORBIDDEN, EmptyOK = False, AllowedValues = [] \<rparr>)] \<rparr>
      (\<lparr> ObjectId = 0, ObjectIdentifier = ''test.edu/bag'', BagName = ''bag'',
         Institution = ''test.edu'', IngestTarFilePath = ''/mnt/bag.tar'',
         IngestUntarredPath = ''/mnt/bag'', GenericFiles = [], IngestTags = [],
         PremisEvents = [], IngestFilesIgnored = [], ObjectIngestErrorMessage = [],
         IngestDeletedFromReceivingAt = ZeroTime \<rparr>, NewWorkSummary)
     = Inl IndexOutOfRange
   \<and> verifyTagSpecs (\<lambda>name. [\<lparr> SourceFile = ''bag-info.txt'', Label = ''Bad-Tag'', Value = ''x'' \<rparr>])
      [(''Bad-Tag'', \<lparr> Presence = FORBIDDEN, EmptyOK = False, AllowedValues = [] \<rparr>)]
      NewWorkSummary
     = Inr (AddError (forbidden_tag_error ''Bad-Tag'' ''bag-info.txt'') NewWorkSummary)"
  by (simp add: Validate_def HasErrors_def NewWorkSummary_def Start_def)

subsection \<open>C5: manifest digests against computed digests\<close>

lemma verifyChecksums_body_file:
  "fst (verifyChecksums_body now gf vs) =
     (let gf1 = (if md5_mismatch gf then gf else gf\<lparr> IngestMd5VerifiedAt := At now \<rparr>)
      in if sha256_mismatch gf then gf1 else gf1\<lparr> IngestSha256VerifiedAt := At now \<rparr>)"
  by (simp add: verifyChecksums_body_def md5_mismatch_def sha256_mismatch_def)

lemma verifyChecksums_body_errors:
  "Errors (snd (verifyChecksums_body now gf vs)) = Errors vs @ checksum_errors gf"
  by (simp add: verifyChecksums_body_def checksum_errors_def md5_mismatch_def
      sha256_mismatch_def AddError_def md5_mismatch_error_def sha256_mismatch_error_def
      OriginalPath_def)

lemma verifyChecksums_body_file_indep:
  "fst (verifyChecksums_body now gf vs) = fst (verifyChecksums_body now gf vs0)"
  by (simp add: verifyChecksums_body_def)

lemma verifyChecksums_length:
  "length (fst (verifyChecksums now gfs vs)) = length gfs"
  by (induction gfs arbitrary: vs) (simp_all add: split_beta)

lemma verifyChecksums_nth:
  "i < length gfs \<Longrightarrow>
     fst (verifyChecksums now gfs vs) ! i = fst (verifyChecksums_body now (gfs ! i) vs0)"
proof (induction gfs arbitrary: vs i)
  case Nil
  then show ?case by simp
next
  case (Cons gf gfs)
  show ?case
  proof (cases i)
    case 0
    then show ?thesis
      by (simp add: split_beta verifyChecksums_body_file_indep [of now gf vs vs0])
  next
    case (Suc j)
    with Cons show ?thesis by (simp add: split_beta)
  qed
qed

lemma verifyChecksums_errors:
  "Errors (snd (verifyChecksums now gfs vs)) = Errors vs @ concat (map checksum_errors gfs)"
  by (induction gfs arbitrary: vs) (simp_all add: split_beta verifyChecksums_body_errors)

lemma mismatch_errors_differ: "md5_mismatch_error gf \<noteq> sha256_mismatch_error gf"
  by (simp add: md5_mismatch_error_def sha256_mismatch_error_def)

lemma checksum_errors_text:
  "checksum_errors gf =
     (if IngestManifestMd5 gf \<noteq> [] \<and> IngestManifestMd5 gf \<noteq> IngestMd5 gf
      then [''Md5 digest for '' @ [CHR 0x27] @ OriginalPath gf @ [CHR 0x27]
              @ '': manifest says '' @ [CHR 0x27] @ IngestManifestMd5 gf @ [CHR 0x27]
              @ '', file digest is '' @ [CHR 0x27] @ IngestMd5 gf @ [CHR 0x27]]
      else [])
     @ (if IngestManifestSha256 gf \<noteq> [] \<and> IngestManifestSha256 gf \<noteq> IngestSha256 gf
        then [''Sha256 digest for '' @ [CHR 0x27] @ OriginalPath gf @ [CHR 0x27]
                @ '': manifest says '' @ [CHR 0x27] @ IngestManifestSha256 gf @ [CHR 0x27]
                @ '', file digest is '' @ [CHR 0x27] @ IngestSha256 gf @ [CHR 0x27]]
        else [])"
  by (simp add: checksum_errors_def md5_mismatch_def sha256_mismatch_def
      md5_mismatch_error_def sha256_mismatch_error_def quoted_def)

lemma Validate_checksums:
  assumes "Validate now findGenericFile findTag config (obj, parseSummary) = Inr res"
    and "\<not> HasErrors parseSummary"
  shows "\<exists>vs2. verifyTagSpecs (findTag obj) (TagSpecs config)
            (verifyFileSpecs (findGenericFile obj) (FileSpecs config)
               (copy_errors (Errors parseSummary) (Start now NewWorkSummary))) = Inr vs2
     \<and> ValidationSummary res = Finish now (snd (verifyChecksums now (GenericFiles obj) vs2))
     \<and> GenericFiles (ResultObject res) = fst (verifyChecksums now (GenericFiles obj) vs2)"
  using assms by (auto simp: Validate_def Let_def split: sum.splits prod.splits)

lemma verifyChecksums_times:
  assumes "i < length gfs"
  shows "IngestMd5VerifiedAt (fst (verifyChecksums now gfs vs) ! i)
       = (if IngestManifestMd5 (gfs ! i) \<noteq> []
             \<and> IngestManifestMd5 (gfs ! i) \<noteq> IngestMd5 (gfs ! i)
          then IngestMd5VerifiedAt (gfs ! i) else At now)
    \<and> IngestSha256VerifiedAt (fst (verifyChecksums now gfs vs) ! i)
       = (if IngestManifestSha256 (gfs ! i) \<noteq> []
             \<and> IngestManifestSha256 (gfs ! i) \<noteq> IngestSha256 (gfs ! i)
          then IngestSha256VerifiedAt (gfs ! i) else At now)"
  using verifyChecksums_nth [OF assms, of now vs vs]
  by (simp add: verifyChecksums_body_file Let_def md5_mismatch_def sha256_mismatch_def)

text \<open>
  C5: when the bag was read without errors and \<open>Validate\<close> returns, the errors of the
  validation summary are those of the checks of file and tag specifications followed, file
  after file in the order of the object's files, by the message \<open>Md5 digest for '<path>':
  manifest says '<claimed>', file digest is '<computed>'\<close> for a file whose manifest MD5 is
  not empty and differs from the computed digest, and then the same message starting with
  \<open>Sha256\<close> for its SHA-256; a digest that is empty in the manifest or equal to the
  computed one adds no message. For every file, a digest that is empty or equal gets its
  verified-at time set to the clock's time, and a digest that differs leaves the verified-at
  time as it was.
\<close>

theorem C5_verifyChecksums:
  assumes "Validate now findGenericFile findTag config (obj, parseSummary) = Inr res"
    and "\<not> HasErrors parseSummary"
  shows "(\<exists>vs2. verifyTagSpecs (findTag obj) (TagSpecs config)
            (verifyFileSpecs (findGenericFile obj) (FileSpecs config)
               (copy_errors (Errors parseSummary) (Start now NewWorkSummary))) = Inr vs2
       \<and> Errors (ValidationSummary res) = Errors vs2 @ concat (map (\<lambda>gf.
           (if IngestManifestMd5 gf \<noteq> [] \<and> IngestManifestMd5 gf \<noteq> IngestMd5 gf
            then [''Md5 digest for '' @ [CHR 0x27] @ OriginalPath gf @ [CHR 0x27]
                    @ '': manifest says '' @ [CHR 0x27] @ IngestManifestMd5 gf @ [CHR 0x27]
                    @ '', file digest is '' @ [CHR 0x27] @ IngestMd5 gf @ [CHR 0x27]]
            else [])
           @ (if IngestManifestSha256 gf \<noteq> [] \<and> IngestManifestSha256 gf \<noteq> IngestSha256 gf
              then [''Sha256 digest for '' @ [CHR 0x27] @ OriginalPath gf @ [CHR 0x27]
                      @ '': manifest says '' @ [CHR 0x27] @ IngestManifestSha256 gf @ [CHR 0x27]
                      @ '', file digest is '' @ [CHR 0x27] @ IngestSha256 gf @ [CHR 0x27]]
              else [])) (GenericFiles obj)))
    \<and> length (GenericFiles (ResultObject res)) = length (GenericFiles obj)
    \<and> (\<forall>i < length (GenericFiles obj).
          let gf = GenericFiles obj ! i; gf' = GenericFiles (ResultObject res) ! i in
          (IngestManifestMd5 gf \<noteq> [] \<and> IngestManifestMd5 gf \<noteq> IngestMd5 gf \<longrightarrow>
             (''Md5 digest for '' @ [CHR 0x27] @ OriginalPath gf @ [CHR 0x27]
                @ '': manifest says '' @ [CHR 0x27] @ IngestManifestMd5 gf @ [CHR 0x27]
                @ '', file digest is '' @ [CHR 0x27] @ IngestMd5 gf @ [CHR 0x27])
               \<in> set (Errors (ValidationSummary res))
             \<and> IngestMd5VerifiedAt gf' = IngestMd5VerifiedAt gf)
        \<and> (IngestManifestMd5 gf = [] \<or> IngestManifestMd5 gf = IngestMd5 gf \<longrightarrow>
             IngestMd5VerifiedAt gf' = At now)
        \<and> (IngestManifestSha256 gf \<noteq> [] \<and> IngestManifestSha256 gf \<noteq> IngestSha256 gf \<longrightarrow>
             (''Sha256 digest for '' @ [CHR 0x27] @ OriginalPath gf @ [CHR 0x27]
                @ '': manifest says '' @ [CHR 0x27] @ IngestManifestSha256 gf @ [CHR 0x27]
                @ '', file digest is '' @ [CHR 0x27] @ IngestSha256 gf @ [CHR 0x27])
               \<in> set (Errors (ValidationSummary res))
             \<and> IngestSha256VerifiedAt gf' = IngestSha256VerifiedAt gf)
        \<and> (IngestManifestSha256 gf = [] \<or> IngestManifestSha256 gf = IngestSha256 gf \<longrightarrow>
             IngestSha256VerifiedAt gf' = At now))"
proof -
  from Validate_checksums [OF assms] obtain vs2 where
    t: "verifyTagSpecs (findTag obj) (TagSpecs config)
            (verifyFileSpecs (findGenericFile obj) (FileSpecs config)
               (copy_errors (Errors parseSummary) (Start now NewWorkSummary))) = Inr vs2"
    and s: "ValidationSummary res = Finish now (snd (verifyChecksums now (GenericFiles obj) vs2))"
    and f: "GenericFiles (ResultObject res) = fst (verifyChecksums now (GenericFiles obj) vs2)"
    by blast
  have e: "Errors (ValidationSummary res)
      = Errors vs2 @ concat (map checksum_errors (GenericFiles obj))"
    unfolding s by (simp add: Finish_def verifyChecksums_errors)
  have ct: "checksum_errors = (\<lambda>gf.
           (if IngestManifestMd5 gf \<noteq> [] \<and> IngestManifestMd5 gf \<noteq> IngestMd5 gf
            then [''Md5 digest for '' @ [CHR 0x27] @ OriginalPath gf @ [CHR 0x27]
                    @ '': manifest says '' @ [CHR 0x27] @ IngestManifestMd5 gf @ [CHR 0x27]
                    @ '', file digest is '' @ [CHR 0x27] @ IngestMd5 gf @ [CHR 0x27]]
            else [])
           @ (if IngestManifestSha256 gf \<noteq> [] \<and> IngestManifestSha256 gf \<noteq> IngestSha256 gf
              then [''Sha256 digest for '' @ [CHR 0x27] @ OriginalPath gf @ [CHR 0x27]
                      @ '': manifest says '' @ [CHR 0x27] @ IngestManifestSha256 gf @ [CHR 0x27]
                      @ '', file digest is '' @ [CHR 0x27] @ IngestSha256 gf @ [CHR 0x27]]
              else []))"
    by (rule ext) (rule checksum_errors_text)
  have 1: "\<exists>vs2. verifyTagSpecs (findTag obj) (TagSpecs config)
            (verifyFileSpecs (findGenericFile obj) (FileSpecs config)
               (copy_errors (Errors parseSummary) (Start now NewWorkSummary))) = Inr vs2
       \<and> Errors (ValidationSummary res) = Errors vs2 @ concat (map (\<lambda>gf.
           (if IngestManifestMd5 gf \<noteq> [] \<and> IngestManifestMd5 gf \<noteq> IngestMd5 gf
            then [''Md5 digest for '' @ [CHR 0x27] @ OriginalPath gf @ [CHR 0x27]
                    @ '': manifest says '' @ [CHR 0x27] @ IngestManifestMd5 gf @ [CHR 0x27]
                    @ '', file digest is '' @ [CHR 0x27] @ IngestMd5 gf @ [CHR 0x27]]
            else [])
           @ (if IngestManifestSha256 gf \<noteq> [] \<and> IngestManifestSha256 gf \<noteq> IngestSha256 gf
              then [''Sha256 digest for '' @ [CHR 0x27] @ OriginalPath gf @ [CHR 0x27]
                      @ '': manifest says '' @ [CHR 0x27] @ IngestManifestSha256 gf @ [CHR 0x27]
                      @ '', file digest is '' @ [CHR 0x27] @ IngestSha256 gf @ [CHR 0x27]]
              else [])) (GenericFiles obj))"
    using t e unfolding ct by blast
  have 2: "length (GenericFiles (ResultObject res)) = length (GenericFiles obj)"
    unfolding f by (rule verifyChecksums_length)
  have 3: "let gf = GenericFiles obj ! i; gf' = GenericFiles (ResultObject res) ! i in
          (IngestManifestMd5 gf \<noteq> [] \<and> IngestManifestMd5 gf \<noteq> IngestMd5 gf \<longrightarrow>
             (''Md5 digest for '' @ [CHR 0x27] @ OriginalPath gf @ [CHR 0x27]
                @ '': manifest says '' @ [CHR 0x27] @ IngestManifestMd5 gf @ [CHR 0x27]
                @ '', file digest is '' @ [CHR 0x27] @ IngestMd5 gf @ [CHR 0x27])
               \<in> set (Errors (ValidationSummary res))
             \<and> IngestMd5VerifiedAt gf' = IngestMd5VerifiedAt gf)
        \<and> (IngestManifestMd5 gf = [] \<or> IngestManifestMd5 gf = IngestMd5 gf \<longrightarrow>
             IngestMd5VerifiedAt gf' = At now)
        \<and> (IngestManifestSha256 gf \<noteq> [] \<and> IngestManifestSha256 gf \<noteq> IngestSha256 gf \<longrightarrow>
             (''Sha256 digest for '' @ [CHR 0x27] @ OriginalPath gf @ [CHR 0x27]
                @ '': manifest says '' @ [CHR 0x27] @ IngestManifestSha256 gf @ [CHR 0x27]
                @ '', file digest is '' @ [CHR 0x27] @ IngestSha256 gf @ [CHR 0x27])
               \<in> set (Errors (ValidationSummary res))
             \<and> IngestSha256VerifiedAt gf' = IngestSha256VerifiedAt gf)
        \<and> (IngestManifestSha256 gf = [] \<or> IngestManifestSha256 gf = IngestSha256 gf \<longrightarrow>
             IngestSha256VerifiedAt gf' = At now)"
    if i: "i < length (GenericFiles obj)" for i
  proof -
    let ?gf = "GenericFiles obj ! i"
    have m: "set (checksum_errors ?gf) \<subseteq> set (Errors (ValidationSummary res))"
      unfolding e using i by (auto intro!: bexI [of _ "GenericFiles obj ! i"])
    note tm = verifyChecksums_times [OF i, of now vs2]
    show ?thesis
      unfolding Let_def f using m tm by (auto simp: checksum_errors_text)
  qed
  show ?thesis using 1 2 3 by blast
qed

theorem C5_verifyChecksums_witness:
  "\<exists>res. Validate 7 (\<lambda>obj path. None) (\<lambda>obj name. []) \<lparr> FileSpecs = [], TagSpecs = [] \<rparr>
       (example_object\<lparr> GenericFiles :=
          [hello_file\<lparr> IngestManifestMd5 := ''ffff'', IngestManifestSha256 := ''0000'' \<rparr>,
           hello_file] \<rparr>, NewWorkSummary) = Inr res
     \<and> Errors (ValidationSummary res)
         = [''Md5 digest for '' @ [CHR 0x27] @ ''data/hello.txt'' @ [CHR 0x27]
              @ '': manifest says '' @ [CHR 0x27] @ ''ffff'' @ [CHR 0x27]
              @ '', file digest is '' @ [CHR 0x27] @ ''b1946ac9'' @ [CHR 0x27],
            ''Sha256 digest for '' @ [CHR 0x27] @ ''data/hello.txt'' @ [CHR 0x27]
              @ '': manifest says '' @ [CHR 0x27] @ ''0000'' @ [CHR 0x27]
              @ '', file digest is '' @ [CHR 0x27] @ ''5891b5b5'' @ [CHR 0x27]]
     \<and> IngestMd5VerifiedAt (GenericFiles (ResultObject res) ! 0) = ZeroTime
     \<and> IngestSha256VerifiedAt (GenericFiles (ResultObject res) ! 0) = ZeroTime
     \<and> IngestMd5VerifiedAt (GenericFiles (ResultObject res) ! 1) = At 7
     \<and> IngestSha256VerifiedAt (GenericFiles (ResultObject res) ! 1) = At 7"
proof -
  let ?bad = "hello_file\<lparr> IngestManifestMd5 := ''ffff'', IngestManifestSha256 := ''0000'' \<rparr>"
  let ?obj = "example_object\<lparr> GenericFiles := [?bad, hello_file] \<rparr>"
  let ?cfg = "\<lparr> FileSpecs = [], TagSpecs = [] \<rparr>"
  have h: "\<not> HasErrors NewWorkSummary" by (simp add: HasErrors_def NewWorkSummary_def)
  have "case Validate 7 (\<lambda>obj path. None) (\<lambda>obj name. []) ?cfg (?obj, NewWorkSummary) of
      Inl p \<Rightarrow> False | Inr r \<Rightarrow> True"
    by (simp add: Validate_def h split: prod.splits)
  then obtain res where
    v: "Validate 7 (\<lambda>obj path. None) (\<lambda>obj name. []) ?cfg (?obj, NewWorkSummary) = Inr res"
    by (auto split: sum.splits)
  note t = C5_verifyChecksums [OF v h]
  have g: "GenericFiles ?obj = [?bad, hello_file]" by simp
  have b: "IngestManifestMd5 ?bad = ''ffff''" "IngestMd5 ?bad = ''b1946ac9''"
    "IngestManifestSha256 ?bad = ''0000''" "IngestSha256 ?bad = ''5891b5b5''"
    "OriginalPath ?bad = ''data/hello.txt''"
    "IngestMd5VerifiedAt ?bad = ZeroTime" "IngestSha256VerifiedAt ?bad = ZeroTime"
    "IngestManifestMd5 hello_file = []" "IngestManifestSha256 hello_file = ''5891b5b5''"
    "IngestSha256 hello_file = ''5891b5b5''"
    by (simp_all add: hello_file_def OriginalPath_def)
  have vs: "verifyTagSpecs ((\<lambda>obj name. []) ?obj) (TagSpecs ?cfg)
            (verifyFileSpecs ((\<lambda>obj path. None) ?obj) (FileSpecs ?cfg)
               (copy_errors (Errors NewWorkSummary) (Start 7 NewWorkSummary)))
        = Inr (Start 7 NewWorkSummary)"
    by (simp add: NewWorkSummary_def)
  have e0: "Errors (Start 7 NewWorkSummary) = []" by (simp add: Start_def NewWorkSummary_def)
  from t [THEN conjunct1] have "Errors (ValidationSummary res)
         = [''Md5 digest for '' @ [CHR 0x27] @ ''data/hello.txt'' @ [CHR 0x27]
              @ '': manifest says '' @ [CHR 0x27] @ ''ffff'' @ [CHR 0x27]
              @ '', file digest is '' @ [CHR 0x27] @ ''b1946ac9'' @ [CHR 0x27],
            ''Sha256 digest for '' @ [CHR 0x27] @ ''data/hello.txt'' @ [CHR 0x27]
              @ '': manifest says '' @ [CHR 0x27] @ ''0000'' @ [CHR 0x27]
              @ '', file digest is '' @ [CHR 0x27] @ ''5891b5b5'' @ [CHR 0x27]]"
    unfolding g vs by (simp add: b e0)
  moreover from t [THEN conjunct2, THEN conjunct2]
  have "IngestMd5VerifiedAt (GenericFiles (ResultObject res) ! 0) = ZeroTime
     \<and> IngestSha256VerifiedAt (GenericFiles (ResultObject res) ! 0) = ZeroTime
     \<and> IngestMd5VerifiedAt (GenericFiles (ResultObject res) ! 1) = At 7
     \<and> IngestSha256VerifiedAt (GenericFiles (ResultObject res) ! 1) = At 7"
    unfolding g by (simp add: b Let_def All_less_Suc2 numeral_2_eq_2 less_Suc_eq)
  ultimately show ?thesis using v by blast
qed

subsection \<open>C1: earlier versions of a file\<close>

text \<open>
  C1, at the failing input: the registry reports an earlier version of
  \<open>test.edu/bag/data/hello.txt\<close> whose URI ends in \<open>not-a-uuid\<close>. The claim says that a
  fatal error is recorded and the file is not uploaded under a fresh key.
  \<open>changedSincePreviousVersion\<close> records the fatal error and returns, but \<open>saveFile\<close>
  goes on: \<open>IngestNeedsSave\<close> is still true, so the file is put into both buckets under
  the UUID the file was given at ingest.
\<close>

theorem C1_prior_without_uuid_is_uploaded:
  "(let st = saveFile prior_without_uuid_services example_config 9
               \<lparr> Summary = example_summary, Calls = [] \<rparr>
    in ErrorIsFatal (StoreResult (Summary st))
     \<and> Errors (StoreResult (Summary st)) =
         [''Cannot find existing UUID for test.edu/bag/data/hello.txt: Could not extract UUID from URI https://s3.amazonaws.com/aptrust.preservation.storage/not-a-uuid'']
     \<and> IngestUUID (GenericFile (Summary st)) = IngestUUID hello_file
     \<and> Calls st =
         [S3Put ''us-east-1'' ''aptrust.preservation.storage'' (IngestUUID hello_file),
          S3List ''us-east-1'' ''aptrust.preservation.storage'' (IngestUUID hello_file),
          S3Put ''us-west-2'' ''aptrust.preservation.oregon'' (IngestUUID hello_file),
          S3List ''us-east-1'' ''aptrust.preservation.storage'' (IngestUUID hello_file)]
     \<and> \<not> IsZero (IngestStoredAt (GenericFile (Summary st)))
     \<and> \<not> IsZero (IngestReplicatedAt (GenericFile (Summary st))))"
  by code_simp

subsection \<open>C2: the check after an upload\<close>

text \<open>
  C2, at the failing input: the file is already in the preservation bucket and is now
  copied to the replication bucket, where the upload leaves an object of zero bytes and
  reports no error. The claim says that the destination bucket is listed and a size other
  than the file's 6 bytes is an error. \<open>getS3FileDetail\<close> lists the preservation bucket
  whatever the destination is, finds 6 bytes there, and the file is marked as replicated
  at the first attempt with no error.
\<close>

theorem C2_replica_size_is_not_checked:
  "(let st0 = \<lparr> Summary = example_summary\<lparr> GenericFile := hello_file\<lparr> IngestStoredAt := At 5,
                   IngestStorageURL := ''https://s3.amazonaws.com/aptrust.preservation.storage/1552abf5-28f3-46a5-ba63-95302d08e209'' \<rparr> \<rparr>,
                Calls = [] \<rparr>;
        st = copyToLongTermStorage zero_size_replica_services example_config 9 ''glacier'' st0
    in S3GetList zero_size_replica_services (Calls st) ''us-west-2''
           ''aptrust.preservation.oregon'' (IngestUUID hello_file) = Some 0
     \<and> Size hello_file = 6
     \<and> IngestReplicatedAt (GenericFile (Summary st)) = At 9
     \<and> Errors (StoreResult (Summary st)) = []
     \<and> Calls st =
         [S3Put ''us-west-2'' ''aptrust.preservation.oregon'' (IngestUUID hello_file),
          S3List ''us-east-1'' ''aptrust.preservation.storage'' (IngestUUID hello_file)])"
  by code_simp

subsection \<open>C6: the metadata every upload must carry\<close>

lemma assertRequiredMetadata_loop_result:
  "assertRequiredMetadata_loop up keys (ok, sm) = (ok', sm') \<Longrightarrow>
     ok' = (ok \<and> (\<forall>k \<in> set keys. has_metadata up k))
     \<and> Errors (StoreResult sm') = Errors (StoreResult sm)
          @ map missing_metadata_error (filter (\<lambda>k. \<not> has_metadata up k) keys)
     \<and> ErrorIsFatal (StoreResult sm')
          = (ErrorIsFatal (StoreResult sm) \<or> (\<exists>k \<in> set keys. \<not> has_metadata up k))
     \<and> GenericFile sm' = GenericFile sm \<and> TarFilePath sm' = TarFilePath sm"
proof (induction keys arbitrary: ok sm)
  case Nil
  then show ?case by simp
next
  case (Cons k keys)
  show ?case
  proof (cases "has_metadata up k")
    case True
    then have "Metadata up k \<noteq> None \<and> Metadata up k \<noteq> Some []"
      by (auto simp: has_metadata_def split: option.splits)
    with Cons.prems have "assertRequiredMetadata_loop up keys (ok, sm) = (ok', sm')"
      by simp
    from Cons.IH [OF this] True show ?thesis by simp
  next
    case False
    then have "Metadata up k = None \<or> Metadata up k = Some []"
      by (auto simp: has_metadata_def split: option.splits)
    with Cons.prems have "assertRequiredMetadata_loop up keys
        (False, set_store_fatal (add_store_error (missing_metadata_error k) sm)) = (ok', sm')"
      by auto
    from Cons.IH [OF this] False show ?thesis
      by (simp add: set_store_fatal_def add_store_error_def AddError_def)
  qed
qed

lemma assertRequiredMetadata_ok:
  "fst (assertRequiredMetadata sm up) = (\<forall>k \<in> set required_metadata_keys. has_metadata up k)"
proof -
  obtain ok' sm' where e: "assertRequiredMetadata sm up = (ok', sm')"
    by (cases "assertRequiredMetadata sm up")
  then show ?thesis
    using assertRequiredMetadata_loop_result [of up required_metadata_keys True sm ok' sm']
    by (simp add: assertRequiredMetadata_def)
qed

lemma doUpload_refused:
  assumes "initUploader sv cfg (Summary st) sendWhere = (Some up, sm1)"
    and "assertRequiredMetadata sm1 up = (False, sm2)"
  shows "doUpload sv cfg now sendWhere attemptNumber st = st\<lparr> Summary := sm2 \<rparr>"
  using assms by (simp add: doUpload_def)

lemma initUploader_file:
  "initUploader sv cfg sm sendWhere = (r, sm1) \<Longrightarrow> GenericFile sm1 = GenericFile sm"
  by (auto simp: initUploader_def Let_def set_store_fatal_def add_store_error_def
      split: if_splits prod.splits option.splits)

lemma initUploader_uploader:
  "GenericFile sm' = GenericFile sm \<Longrightarrow>
     fst (initUploader sv cfg sm' sendWhere) = fst (initUploader sv cfg sm sendWhere)"
  by (auto simp: initUploader_def Let_def split: if_splits prod.splits option.splits)

lemma initUploader_metadata:
  assumes "initUploader sv cfg sm sendWhere = (Some up, sm1)"
  shows "Metadata up ''institution'' = Some (fst (InstitutionIdentifier sv (GenericFile sm)))
    \<and> Metadata up ''bag'' = Some (IntellectualObjectIdentifier (GenericFile sm))
    \<and> Metadata up ''bagpath'' = Some (OriginalPath (GenericFile sm))
    \<and> Metadata up ''md5'' = Some (IngestMd5 (GenericFile sm))
    \<and> Metadata up ''sha256'' = Some (IngestSha256 (GenericFile sm))
    \<and> Key up = IngestUUID (GenericFile sm)"
  using assms
  by (auto simp: initUploader_def Let_def AddMetadata_def NewS3Upload_def
      split: if_splits prod.splits option.splits)

lemma upload_attempts_refused:
  assumes "fst (initUploader sv cfg (Summary st) sendWhere) = Some up"
    and "\<not> (\<forall>k \<in> set required_metadata_keys. has_metadata up k)"
  shows "Calls (upload_attempts sv cfg now sendWhere attempts st) = Calls st"
  using assms
proof (induction attempts arbitrary: st)
  case Nil
  then show ?case by simp
next
  case (Cons a attempts)
  obtain sm1 where i: "initUploader sv cfg (Summary st) sendWhere = (Some up, sm1)"
    using Cons.prems(1) by (cases "initUploader sv cfg (Summary st) sendWhere") simp
  obtain ok sm2 where a: "assertRequiredMetadata sm1 up = (ok, sm2)"
    by (cases "assertRequiredMetadata sm1 up")
  with assertRequiredMetadata_ok [of sm1 up] Cons.prems(2) have ok: "ok = False" by simp
  have d: "doUpload sv cfg now sendWhere a st = st\<lparr> Summary := sm2 \<rparr>"
    using doUpload_refused [OF i a [unfolded ok]] .
  have f: "GenericFile sm2 = GenericFile (Summary st)"
    using assertRequiredMetadata_loop_result [of up required_metadata_keys True sm1 ok sm2] a
      initUploader_file [OF i]
    by (simp add: assertRequiredMetadata_def)
  have "Calls (upload_attempts sv cfg now sendWhere attempts (st\<lparr> Summary := sm2 \<rparr>))
      = Calls (st\<lparr> Summary := sm2 \<rparr>)"
    apply (rule Cons.IH)
    using Cons.prems f initUploader_uploader [of sm2 "Summary st" sv cfg sendWhere]
    by simp_all
  then show ?case using d by (simp add: Let_def)
qed

lemma copyToLongTermStorage_refused:
  assumes "fst (initUploader sv cfg (Summary st) sendWhere) = Some up"
    and "\<not> (\<forall>k \<in> set required_metadata_keys. has_metadata up k)"
  shows "Calls (copyToLongTermStorage sv cfg now sendWhere st) = Calls st"
proof (cases "LooksLikeUUID sv (IngestUUID (GenericFile (Summary st)))")
  case True
  then have "copyToLongTermStorage sv cfg now sendWhere st
      = upload_attempts sv cfg now sendWhere [1 ..< MAX_UPLOAD_ATTEMPTS + 1] st"
    by (simp add: copyToLongTermStorage_def uuidPresent_def)
  then show ?thesis using upload_attempts_refused [OF assms] by simp
next
  case False
  then show ?thesis by (simp add: copyToLongTermStorage_def uuidPresent_def Let_def)
qed

lemma has_metadata_iff: "has_metadata up key = (Metadata up key \<notin> {None, Some []})"
  by (simp add: has_metadata_def split: option.splits)

text \<open>
  C6: the uploader that \<open>initUploader\<close> builds carries the five values of the file
  under the keys institution, bag, bagpath, md5 and sha256; \<open>assertRequiredMetadata\<close>
  answers true exactly when each of these five keys is present with a value that is not
  empty, and adds, in this order of the keys, the error \<open>S3Upload is missing required
  metadata key <key>\<close> for each of the five that is missing or empty; when it answers false
  the store result is marked fatal and \<open>doUpload\<close> returns with that summary and without
  any call to the object store, in this attempt and in every attempt of
  \<open>copyToLongTermStorage\<close>.
\<close>

theorem C6_required_metadata:
  assumes "initUploader sv cfg (Summary st) sendWhere = (Some up, sm1)"
    and "assertRequiredMetadata sm1 up = (ok, sm2)"
  shows "Metadata up ''institution''
        = Some (fst (InstitutionIdentifier sv (GenericFile (Summary st))))
    \<and> Metadata up ''bag'' = Some (IntellectualObjectIdentifier (GenericFile (Summary st)))
    \<and> Metadata up ''bagpath'' = Some (OriginalPath (GenericFile (Summary st)))
    \<and> Metadata up ''md5'' = Some (IngestMd5 (GenericFile (Summary st)))
    \<and> Metadata up ''sha256'' = Some (IngestSha256 (GenericFile (Summary st)))
    \<and> ok = (Metadata up ''institution'' \<notin> {None, Some []}
            \<and> Metadata up ''bag'' \<notin> {None, Some []}
            \<and> Metadata up ''bagpath'' \<notin> {None, Some []}
            \<and> Metadata up ''md5'' \<notin> {None, Some []}
            \<and> Metadata up ''sha256'' \<notin> {None, Some []})
    \<and> Errors (StoreResult sm2) = Errors (StoreResult sm1)
          @ (if Metadata up ''institution'' \<in> {None, Some []}
             then [''S3Upload is missing required metadata key institution''] else [])
          @ (if Metadata up ''bag'' \<in> {None, Some []}
             then [''S3Upload is missing required metadata key bag''] else [])
          @ (if Metadata up ''bagpath'' \<in> {None, Some []}
             then [''S3Upload is missing required metadata key bagpath''] else [])
          @ (if Metadata up ''md5'' \<in> {None, Some []}
             then [''S3Upload is missing required metadata key md5''] else [])
          @ (if Metadata up ''sha256'' \<in> {None, Some []}
             then [''S3Upload is missing required metadata key sha256''] else [])
    \<and> (\<not> ok \<longrightarrow>
          ErrorIsFatal (StoreResult sm2)
          \<and> doUpload sv cfg now sendWhere attemptNumber st = st\<lparr> Summary := sm2 \<rparr>
          \<and> Calls (doUpload sv cfg now sendWhere attemptNumber st) = Calls st
          \<and> Calls (copyToLongTermStorage sv cfg now sendWhere st) = Calls st)"
proof -
  note r = assertRequiredMetadata_loop_result [of up required_metadata_keys True sm1 ok sm2]
  have ok0: "ok = (\<forall>k \<in> set required_metadata_keys. has_metadata up k)"
    using assms(2) r by (simp add: assertRequiredMetadata_def)
  have ok: "ok = (Metadata up ''institution'' \<notin> {None, Some []}
            \<and> Metadata up ''bag'' \<notin> {None, Some []}
            \<and> Metadata up ''bagpath'' \<notin> {None, Some []}
            \<and> Metadata up ''md5'' \<notin> {None, Some []}
            \<and> Metadata up ''sha256'' \<notin> {None, Some []})"
    unfolding ok0 required_metadata_keys_def has_metadata_iff by simp
  have errs0: "Errors (StoreResult sm2) = Errors (StoreResult sm1)
          @ map missing_metadata_error
              (filter (\<lambda>k. \<not> has_metadata up k) required_metadata_keys)"
    using assms(2) r by (simp add: assertRequiredMetadata_def)
  have errs: "Errors (StoreResult sm2) = Errors (StoreResult sm1)
          @ (if Metadata up ''institution'' \<in> {None, Some []}
             then [''S3Upload is missing required metadata key institution''] else [])
          @ (if Metadata up ''bag'' \<in> {None, Some []}
             then [''S3Upload is missing required metadata key bag''] else [])
          @ (if Metadata up ''bagpath'' \<in> {None, Some []}
             then [''S3Upload is missing required metadata key bagpath''] else [])
          @ (if Metadata up ''md5'' \<in> {None, Some []}
             then [''S3Upload is missing required metadata key md5''] else [])
          @ (if Metadata up ''sha256'' \<in> {None, Some []}
             then [''S3Upload is missing required metadata key sha256''] else [])"
    unfolding errs0 required_metadata_keys_def has_metadata_iff
    by (simp add: missing_metadata_error_def)
  have refused: "ErrorIsFatal (StoreResult sm2)
          \<and> doUpload sv cfg now sendWhere attemptNumber st = st\<lparr> Summary := sm2 \<rparr>
          \<and> Calls (doUpload sv cfg now sendWhere attemptNumber st) = Calls st
          \<and> Calls (copyToLongTermStorage sv cfg now sendWhere st) = Calls st" if "\<not> ok"
  proof -
    have f: "ErrorIsFatal (StoreResult sm2)"
      using assms(2) r that ok0 by (simp add: assertRequiredMetadata_def)
    have d: "doUpload sv cfg now sendWhere attemptNumber st = st\<lparr> Summary := sm2 \<rparr>"
      using doUpload_refused [OF assms(1)] assms(2) that by simp
    have c: "Calls (copyToLongTermStorage sv cfg now sendWhere st) = Calls st"
      using copyToLongTermStorage_refused [of sv cfg st sendWhere up now] assms(1) that ok0
      by simp
    show ?thesis using f d c by simp
  qed
  show ?thesis using initUploader_metadata [OF assms(1)] ok errs refused by blast
qed

theorem C6_required_metadata_witness:
  "(\<exists>up sm1 ok sm2.
     initUploader example_services example_config
        (example_summary\<lparr> GenericFile := hello_file\<lparr> IngestMd5 := [] \<rparr> \<rparr>) ''s3'' = (Some up, sm1)
     \<and> assertRequiredMetadata sm1 up = (ok, sm2)
     \<and> \<not> ok
     \<and> Errors (StoreResult sm2) = [''S3Upload is missing required metadata key md5'']
     \<and> ErrorIsFatal (StoreResult sm2)
     \<and> Calls (doUpload example_services example_config 9 ''s3'' 1
          \<lparr> Summary = example_summary\<lparr> GenericFile := hello_file\<lparr> IngestMd5 := [] \<rparr> \<rparr>,
            Calls = [] \<rparr>) = []
     \<and> Calls (copyToLongTermStorage example_services example_config 9 ''s3''
          \<lparr> Summary = example_summary\<lparr> GenericFile := hello_file\<lparr> IngestMd5 := [] \<rparr> \<rparr>,
            Calls = [] \<rparr>) = [])
   \<and> (\<exists>up sm1 ok sm2.
     initUploader example_services example_config
        (example_summary\<lparr> GenericFile := hello_file\<lparr> Identifier := [],
           IntellectualObjectIdentifier := [], IngestMd5 := [], IngestSha256 := [] \<rparr> \<rparr>)
        ''glacier'' = (Some up, sm1)
     \<and> assertRequiredMetadata sm1 up = (ok, sm2)
     \<and> \<not> ok
     \<and> Errors (StoreResult sm2) = [''S3Upload is missing required metadata key institution'',
          ''S3Upload is missing required metadata key bag'',
          ''S3Upload is missing required metadata key bagpath'',
          ''S3Upload is missing required metadata key md5'',
          ''S3Upload is missing required metadata key sha256'']
     \<and> ErrorIsFatal (StoreResult sm2)
     \<and> Calls (copyToLongTermStorage example_services example_config 9 ''glacier''
          \<lparr> Summary = example_summary\<lparr> GenericFile := hello_file\<lparr> Identifier := [],
               IntellectualObjectIdentifier := [], IngestMd5 := [], IngestSha256 := [] \<rparr> \<rparr>,
            Calls = [] \<rparr>) = [])
   \<and> (\<exists>up sm1 sm2.
     initUploader example_services example_config example_summary ''s3'' = (Some up, sm1)
     \<and> assertRequiredMetadata sm1 up = (True, sm2)
     \<and> Errors (StoreResult sm2) = [])"
proof -
  have A: "\<exists>up sm1 ok sm2.
     initUploader example_services example_config
        (example_summary\<lparr> GenericFile := hello_file\<lparr> IngestMd5 := [] \<rparr> \<rparr>) ''s3'' = (Some up, sm1)
     \<and> assertRequiredMetadata sm1 up = (ok, sm2)
     \<and> \<not> ok
     \<and> Errors (StoreResult sm2) = [''S3Upload is missing required metadata key md5'']
     \<and> ErrorIsFatal (StoreResult sm2)
     \<and> Calls (doUpload example_services example_config 9 ''s3'' 1
          \<lparr> Summary = example_summary\<lparr> GenericFile := hello_file\<lparr> IngestMd5 := [] \<rparr> \<rparr>,
            Calls = [] \<rparr>) = []
     \<and> Calls (copyToLongTermStorage example_services example_config 9 ''s3''
          \<lparr> Summary = example_summary\<lparr> GenericFile := hello_file\<lparr> IngestMd5 := [] \<rparr> \<rparr>,
            Calls = [] \<rparr>) = []"
  proof -
    let ?sm0 = "example_summary\<lparr> GenericFile := hello_file\<lparr> IngestMd5 := [] \<rparr> \<rparr>"
    let ?st = "\<lparr> Summary = ?sm0, Calls = [] \<rparr>"
    obtain r sm1 where i0: "initUploader example_services example_config ?sm0 ''s3'' = (r, sm1)"
      by (cases "initUploader example_services example_config ?sm0 ''s3''")
    then obtain up where r: "r = Some up"
      by (auto simp: initUploader_def Let_def split: prod.splits)
    have s1: "Errors (StoreResult sm1) = []"
      using i0 by (auto simp: initUploader_def Let_def example_services_def example_summary_def
          NewWorkSummary_def split: prod.splits)
    have i: "initUploader example_services example_config (Summary ?st) ''s3'' = (Some up, sm1)"
      using i0 r by simp
    obtain ok sm2 where a: "assertRequiredMetadata sm1 up = (ok, sm2)"
      by (cases "assertRequiredMetadata sm1 up")
    note t = C6_required_metadata [OF i a, of 9 1]
    have "\<not> ok \<and> Errors (StoreResult sm2) = [''S3Upload is missing required metadata key md5'']
       \<and> ErrorIsFatal (StoreResult sm2)
       \<and> Calls (doUpload example_services example_config 9 ''s3'' 1 ?st) = []
       \<and> Calls (copyToLongTermStorage example_services example_config 9 ''s3'' ?st) = []"
      using t s1 by (simp add: example_services_def example_summary_def
          hello_file_def OriginalPath_def)
    then show ?thesis using i0 r a by auto
  qed
  have B: "\<exists>up sm1 ok sm2.
     initUploader example_services example_config
        (example_summary\<lparr> GenericFile := hello_file\<lparr> Identifier := [],
           IntellectualObjectIdentifier := [], IngestMd5 := [], IngestSha256 := [] \<rparr> \<rparr>)
        ''glacier'' = (Some up, sm1)
     \<and> assertRequiredMetadata sm1 up = (ok, sm2)
     \<and> \<not> ok
     \<and> Errors (StoreResult sm2) = [''S3Upload is missing required metadata key institution'',
          ''S3Upload is missing required metadata key bag'',
          ''S3Upload is missing required metadata key bagpath'',
          ''S3Upload is missing required metadata key md5'',
          ''S3Upload is missing required metadata key sha256'']
     \<and> ErrorIsFatal (StoreResult sm2)
     \<and> Calls (copyToLongTermStorage example_services example_config 9 ''glacier''
          \<lparr> Summary = example_summary\<lparr> GenericFile := hello_file\<lparr> Identifier := [],
               IntellectualObjectIdentifier := [], IngestMd5 := [], IngestSha256 := [] \<rparr> \<rparr>,
            Calls = [] \<rparr>) = []"
  proof -
    let ?sm0 = "example_summary\<lparr> GenericFile := hello_file\<lparr> Identifier := [],
           IntellectualObjectIdentifier := [], IngestMd5 := [], IngestSha256 := [] \<rparr> \<rparr>"
    let ?st = "\<lparr> Summary = ?sm0, Calls = [] \<rparr>"
    obtain r sm1 where
      i0: "initUploader example_services example_config ?sm0 ''glacier'' = (r, sm1)"
      by (cases "initUploader example_services example_config ?sm0 ''glacier''")
    then obtain up where r: "r = Some up"
      by (auto simp: initUploader_def Let_def split: prod.splits)
    have s1: "Errors (StoreResult sm1) = []"
      using i0 by (auto simp: initUploader_def Let_def example_services_def example_summary_def
          NewWorkSummary_def split: prod.splits)
    have i: "initUploader example_services example_config (Summary ?st) ''glacier''
        = (Some up, sm1)"
      using i0 r by simp
    obtain ok sm2 where a: "assertRequiredMetadata sm1 up = (ok, sm2)"
      by (cases "assertRequiredMetadata sm1 up")
    note t = C6_required_metadata [OF i a, of 9 1]
    have "\<not> ok
       \<and> Errors (StoreResult sm2) = [''S3Upload is missing required metadata key institution'',
          ''S3Upload is missing required metadata key bag'',
          ''S3Upload is missing required metadata key bagpath'',
          ''S3Upload is missing required metadata key md5'',
          ''S3Upload is missing required metadata key sha256'']
       \<and> ErrorIsFatal (StoreResult sm2)
       \<and> Calls (copyToLongTermStorage example_services example_config 9 ''glacier'' ?st) = []"
      using t s1 by (simp add: example_services_def example_summary_def
          hello_file_def OriginalPath_def)
    then show ?thesis using i0 r a by auto
  qed
  have C: "\<exists>up sm1 sm2.
     initUploader example_services example_config example_summary ''s3'' = (Some up, sm1)
     \<and> assertRequiredMetadata sm1 up = (True, sm2)
     \<and> Errors (StoreResult sm2) = []"
  proof -
    let ?st = "\<lparr> Summary = example_summary, Calls = [] \<rparr>"
    obtain r sm1 where
      i0: "initUploader example_services example_config example_summary ''s3'' = (r, sm1)"
      by (cases "initUploader example_services example_config example_summary ''s3''")
    then obtain up where r: "r = Some up"
      by (auto simp: initUploader_def Let_def split: prod.splits)
    have s1: "Errors (StoreResult sm1) = []"
      using i0 by (auto simp: initUploader_def Let_def example_services_def example_summary_def
          NewWorkSummary_def split: prod.splits)
    have i: "initUploader example_services example_config (Summary ?st) ''s3'' = (Some up, sm1)"
      using i0 r by simp
    obtain ok sm2 where a: "assertRequiredMetadata sm1 up = (ok, sm2)"
      by (cases "assertRequiredMetadata sm1 up")
    note t = C6_required_metadata [OF i a, of 9 1]
    have "ok \<and> Errors (StoreResult sm2) = []"
      using t s1 by (simp add: example_services_def example_summary_def
          hello_file_def OriginalPath_def)
    then show ?thesis using i0 r a by auto
  qed
  from A B C show ?thesis by blast
qed

subsection \<open>C8: recording the files in batches\<close>

lemma replace_file_ids:
  "Identifier gf \<in> Identifier ` set fs \<Longrightarrow> map Identifier (replace_file gf fs) = map Identifier fs"
  by (induction fs) auto

lemma find_Some_id:
  "find (\<lambda>f. Identifier f = i) fs = Some gf \<Longrightarrow> Identifier gf = i \<and> gf \<in> set fs"
  by (induction fs) (auto split: if_splits)

lemma sort_batch_result:
  "sort_batch env db objId ids (new0, ex0, rr0) = Inr (new, ex, rr) \<Longrightarrow>
     \<exists>fs. list_all2 (\<lambda>i f. GetGenericFile db i = Some f) ids fs
       \<and> new = new0 @ filter is_new_file (map (prepare_file objId) fs)
       \<and> ex = ex0 @ filter is_existing_file (map (prepare_file objId) fs)"
proof (induction ids arbitrary: new0 ex0 rr0)
  case Nil
  then show ?case by simp
next
  case (Cons i ids)
  from Cons.prems obtain gf0 where g: "GetGenericFile db i = Some gf0"
    by (auto split: option.splits)
  let ?gf = "prepare_file objId gf0"
  from Cons.prems g obtain new1 ex1 rr1 where
    r: "sort_batch env db objId ids (new1, ex1, rr1) = Inr (new, ex, rr)"
    and n: "new1 = new0 @ filter is_new_file [?gf]"
    and e: "ex1 = ex0 @ filter is_existing_file [?gf]"
    by (auto simp: Let_def prepare_file_def is_new_file_def is_existing_file_def
        split: if_splits)
  from Cons.IH [OF r] obtain fs where
    fs: "list_all2 (\<lambda>i f. GetGenericFile db i = Some f) ids fs"
      "new = new1 @ filter is_new_file (map (prepare_file objId) fs)"
      "ex = ex1 @ filter is_existing_file (map (prepare_file objId) fs)"
    by blast
  show ?case
    apply (rule exI [of _ "gf0 # fs"])
    using fs g n e by simp
qed

lemma sort_batch_ids:
  assumes "sort_batch env db objId ids ([], [], rr0) = Inr (new, ex, rr)"
  shows "Identifier ` set new \<subseteq> Identifier ` set (DbFiles db)
     \<and> Identifier ` set ex \<subseteq> Identifier ` set (DbFiles db)"
proof -
  from sort_batch_result [OF assms] obtain fs where
    fs: "list_all2 (\<lambda>i f. GetGenericFile db i = Some f) ids fs"
      "new = filter is_new_file (map (prepare_file objId) fs)"
      "ex = filter is_existing_file (map (prepare_file objId) fs)"
    by auto
  have "f \<in> set (DbFiles db)" if "f \<in> set fs" for f
  proof -
    from that fs(1) obtain i where "GetGenericFile db i = Some f"
      by (auto simp: list_all2_conv_all_nth in_set_conv_nth)
    then show ?thesis using find_Some_id [of i "DbFiles db" f] by (simp add: GetGenericFile_def)
  qed
  then have "Identifier ` set (map (prepare_file objId) fs) \<subseteq> Identifier ` set (DbFiles db)"
    by (auto simp: prepare_file_def)
  then show ?thesis using fs(2,3) by auto
qed

lemma map_last_ids:
  "(\<And>x. Identifier (f x) = Identifier x) \<Longrightarrow> map Identifier (map_last p f xs) = map Identifier xs"
  by (induction xs) auto

lemma merge_saved_ids:
  "merge_saved saved (files, rr) = (files', rr') \<Longrightarrow> map Identifier files' = map Identifier files"
proof (induction saved arbitrary: files rr)
  case Nil
  then show ?case by simp
next
  case (Cons s saved)
  show ?case
  proof (cases "list_ex (\<lambda>gf. Identifier gf = Identifier s) files")
    case True
    with Cons.prems Cons.IH show ?thesis
      by (auto simp: map_last_ids MergeAttributes_def dest!: Cons.IH)
  next
    case False
    with Cons.prems Cons.IH show ?thesis by auto
  qed
qed

lemma createGenericFiles_ids:
  "createGenericFiles env (files, rr, acts) = (files', rr', acts') \<Longrightarrow>
     map Identifier files' = map Identifier files"
  by (auto simp: createGenericFiles_def Let_def split: if_splits prod.splits dest: merge_saved_ids)

lemma saveGenericFilesInBoltDB_ids:
  "saveGenericFilesInBoltDB env files (db, rr) = (db', rr') \<Longrightarrow>
     Identifier ` set files \<subseteq> Identifier ` set (DbFiles db) \<Longrightarrow>
     map Identifier (DbFiles db') = map Identifier (DbFiles db)"
proof (induction files arbitrary: db rr)
  case Nil
  then show ?case by simp
next
  case (Cons gf files)
  show ?case
  proof (cases "DbSaveError env (Identifier gf)")
    case None
    have i: "map Identifier (DbFiles (SaveFile db gf)) = map Identifier (DbFiles db)"
      using Cons.prems(2) by (simp add: SaveFile_def replace_file_ids)
    then have s: "Identifier ` set (DbFiles (SaveFile db gf)) = Identifier ` set (DbFiles db)"
      by (metis set_map)
    from Cons.prems None have
      "saveGenericFilesInBoltDB env files (SaveFile db gf, rr) = (db', rr')" by simp
    from Cons.IH [OF this] Cons.prems(2) s i show ?thesis by simp
  next
    case (Some e)
    with Cons.prems Cons.IH show ?thesis by auto
  qed
qed

lemma save_batch_ids:
  assumes "save_batch env objId batch st = Inr st1"
  shows "map Identifier (DbFiles (Db st1)) = map Identifier (DbFiles (Db st))"
proof -
  from assms obtain new ex rr1 where s: "sort_batch env (Db st) objId batch ([], [], Result st) = Inr (new, ex, rr1)"
    by (auto simp: save_batch_def split: sum.splits)
  obtain new1 rr2 acts1 where c: "createGenericFiles env (new, rr1, Acts st) = (new1, rr2, acts1)"
    by (cases "createGenericFiles env (new, rr1, Acts st)")
  obtain rr3 acts2 where u: "updateGenericFiles env ex (rr2, acts1) = (rr3, acts2)"
    by (cases "updateGenericFiles env ex (rr2, acts1)")
  obtain db1 rr4 where d1: "saveGenericFilesInBoltDB env new1 (Db st, rr3) = (db1, rr4)"
    by (cases "saveGenericFilesInBoltDB env new1 (Db st, rr3)")
  obtain db2 rr5 where d2: "saveGenericFilesInBoltDB env ex (db1, rr4) = (db2, rr5)"
    by (cases "saveGenericFilesInBoltDB env ex (db1, rr4)")
  have st1: "Db st1 = db2" using assms s c u d1 d2 by (auto simp: save_batch_def)
  note ids = sort_batch_ids [OF s]
  have n1: "Identifier ` set new1 \<subseteq> Identifier ` set (DbFiles (Db st))"
    using createGenericFiles_ids [OF c] ids by (metis set_map)
  have a: "map Identifier (DbFiles db1) = map Identifier (DbFiles (Db st))"
    using saveGenericFilesInBoltDB_ids [OF d1 n1] .
  then have "Identifier ` set (DbFiles db1) = Identifier ` set (DbFiles (Db st))" by (metis set_map)
  with ids have "Identifier ` set ex \<subseteq> Identifier ` set (DbFiles db1)" by auto
  from saveGenericFilesInBoltDB_ids [OF d2 this] a st1 show ?thesis by simp
qed

termination save_batches
proof (relation "measure (\<lambda>(env, objId, offset, st). length (DbFiles (Db st)) - offset)")
  show "wf (measure (\<lambda>(env, objId, offset, st). length (DbFiles (Db st)) - offset))" by simp
next
  fix env objId offset st batch st1
  assume b: "batch = FileIdentifierBatch (Db st) offset GENERIC_FILE_BATCH_SIZE"
    and s: "save_batch env objId batch st = Inr st1"
    and l: "\<not> length batch < GENERIC_FILE_BATCH_SIZE"
  have "length (DbFiles (Db st1)) = length (DbFiles (Db st))"
    using save_batch_ids [OF s] by (metis length_map)
  moreover have "offset + GENERIC_FILE_BATCH_SIZE \<le> length (DbFiles (Db st))"
    using b l by (auto simp: FileIdentifierBatch_def GENERIC_FILE_BATCH_SIZE_def)
  moreover have "length batch = GENERIC_FILE_BATCH_SIZE"
    using b l by (auto simp: FileIdentifierBatch_def GENERIC_FILE_BATCH_SIZE_def)
  ultimately show "((env, objId, offset + length batch, st1), (env, objId, offset, st))
      \<in> measure (\<lambda>(env, objId, offset, st). length (DbFiles (Db st)) - offset)"
    by (simp add: GENERIC_FILE_BATCH_SIZE_def)
qed




lemma updateGenericFiles_snd:
  "snd (updateGenericFiles env files (rr, acts)) = acts @ map FilePut files"
  by (induction files arbitrary: rr acts) simp_all

lemma updateGenericFiles_acts:
  "updateGenericFiles env files (rr, acts) = (rr', acts') \<Longrightarrow> acts' = acts @ map FilePut files"
  using updateGenericFiles_snd [of env files rr acts] by simp

lemma createGenericFiles_acts:
  "createGenericFiles env (files, rr, acts) = (files', rr', acts') \<Longrightarrow>
     acts' = acts @ (if files = [] then [] else [FileBatchPost files])"
  by (auto simp: createGenericFiles_def Let_def split: if_splits prod.splits)


























subsection \<open>C7: clean-up after recording\<close>

lemma deleteBag_delete:
  "deleteBagFromReceivingBucket env cfg now (m, acts) = (m', acts') \<Longrightarrow>
     DeleteFromReceiving b k \<in> set acts' \<Longrightarrow>
     DeleteFromReceiving b k \<in> set acts \<or> (DeleteOnSuccess cfg \<and> b = S3Bucket m \<and> k = S3Key m)"
  by (auto simp: deleteBagFromReceivingBucket_def Let_def split: if_splits option.splits)

lemma deleteBag_skip:
  "deleteBagFromReceivingBucket env cfg now (m, acts) = (m', acts') \<Longrightarrow>
     \<not> DeleteOnSuccess cfg \<Longrightarrow>
     acts' = acts @ (case LoadObject env acts (DBPath m) of None \<Rightarrow> []
        | Some ob \<Rightarrow> [SaveObjectInDb (ob\<lparr> IngestDeletedFromReceivingAt := At now \<rparr>)])"
  by (auto simp: deleteBagFromReceivingBucket_def Let_def split: if_splits option.splits)

lemma deleteBag_do:
  "deleteBagFromReceivingBucket env cfg now (m, acts) = (m', acts') \<Longrightarrow>
     DeleteOnSuccess cfg \<Longrightarrow>
     \<exists>rest. acts' = acts @ DeleteFromReceiving (S3Bucket m) (S3Key m) # rest"
  by (auto simp: deleteBagFromReceivingBucket_def Let_def split: if_splits option.splits)

lemma cleanup_recorded:
  assumes "cleanup env cfg now (m, acts) = (m', acts')" and "recorded_ok env cfg m"
  shows "\<exists>m2 acts2.
     deleteBagFromReceivingBucket env cfg now (m, acts @ cleanup_before_delete env m) = (m2, acts2)
     \<and> acts' = acts2 @ [MarkWorkItemSucceeded StageCleanup, FinishNSQ, LogJson, RecordWorkItemState]"
proof -
  obtain m2 acts2 where d:
    "deleteBagFromReceivingBucket env cfg now (m, acts @ cleanup_before_delete env m) = (m2, acts2)"
    by (cases "deleteBagFromReceivingBucket env cfg now (m, acts @ cleanup_before_delete env m)")
  have "acts' = acts2 @ [MarkWorkItemSucceeded StageCleanup, FinishNSQ, LogJson, RecordWorkItemState]"
    using assms d unfolding cleanup_def recorded_ok_def cleanup_before_delete_def Let_def
    by (auto split: if_splits prod.splits)
  with d show ?thesis by blast
qed

lemma cleanup_not_recorded:
  assumes "cleanup env cfg now (m, acts) = (m', acts')" and "\<not> recorded_ok env cfg m"
  shows "set acts' \<subseteq> set acts \<union> {FinishNSQ, MarkWorkItemFailed, RequeueNSQ 1000,
     MarkWorkItemRequeued, LogJson, RecordWorkItemState}"
  using assms by (auto simp add: cleanup_def recorded_ok_def Let_def split: if_splits)

lemma cleanup_delete_only_recorded:
  assumes "cleanup env cfg now (m, acts) = (m', acts')"
    and "DeleteFromReceiving b k \<in> set acts'"
  shows "DeleteFromReceiving b k \<in> set acts
     \<or> (recorded_ok env cfg m \<and> DeleteOnSuccess cfg \<and> b = S3Bucket m \<and> k = S3Key m)"
proof (cases "recorded_ok env cfg m")
  case True
  from cleanup_recorded [OF assms(1) True] obtain m2 acts2 where
    d: "deleteBagFromReceivingBucket env cfg now (m, acts @ cleanup_before_delete env m) = (m2, acts2)"
    and a: "acts' = acts2 @ [MarkWorkItemSucceeded StageCleanup, FinishNSQ, LogJson, RecordWorkItemState]"
    by blast
  from a assms(2) have "DeleteFromReceiving b k \<in> set acts2" by simp
  from deleteBag_delete [OF d this] True show ?thesis
    by (auto simp: cleanup_before_delete_def split: if_splits)
next
  case False
  from cleanup_not_recorded [OF assms(1) False] assms(2) show ?thesis by auto
qed

lemma cleanup_skip:
  assumes "cleanup env cfg now (m, acts) = (m', acts')"
    and "\<not> DeleteOnSuccess cfg" and "recorded_ok env cfg m"
  shows "acts' = acts @ cleanup_before_delete env m
      @ (case LoadObject env (acts @ cleanup_before_delete env m) (DBPath m) of
           None \<Rightarrow> []
         | Some ob \<Rightarrow> [SaveObjectInDb (ob\<lparr> IngestDeletedFromReceivingAt := At now \<rparr>)])
      @ [MarkWorkItemSucceeded StageCleanup, FinishNSQ, LogJson, RecordWorkItemState]"
proof -
  from cleanup_recorded [OF assms(1,3)] obtain m2 acts2 where
    d: "deleteBagFromReceivingBucket env cfg now (m, acts @ cleanup_before_delete env m) = (m2, acts2)"
    and a: "acts' = acts2 @ [MarkWorkItemSucceeded StageCleanup, FinishNSQ, LogJson, RecordWorkItemState]"
    by blast
  from deleteBag_skip [OF d assms(2)] a show ?thesis by simp
qed

lemma savePremisEventsForObject_snd:
  "snd (savePremisEventsForObject env i events (rr, acts)) = acts @ map EventSave events"
  by (induction events arbitrary: rr acts) simp_all

lemma savePremisEventsForObject_registry:
  assumes "savePremisEventsForObject env i events (rr, acts) = (rr', acts')"
  shows "\<exists>more. acts' = acts @ more \<and> list_all is_registry_call more"
proof -
  have e: "list_all is_registry_call (map EventSave evs)" for evs
    by (induction evs) simp_all
  have "acts' = acts @ map EventSave events"
    using assms savePremisEventsForObject_snd [of env i events rr acts] by simp
  with e show ?thesis by blast
qed

lemma saveIntellectualObject_registry:
  assumes "saveIntellectualObject env (obj, rr, acts) = (obj', rr', acts')"
  shows "\<exists>more. acts' = acts @ more \<and> list_all is_registry_call more"
proof -
  obtain obj1 where o1: "obj1 = (case IntellectualObjectGet env (ObjectIdentifier obj) of
      Some existingObject \<Rightarrow> obj\<lparr> ObjectId := ObjectId existingObject \<rparr> | None \<Rightarrow> obj)"
    by simp
  let ?acts1 = "acts @ [ObjectGet (ObjectIdentifier obj), ObjectSave obj1]"
  have base: "\<exists>more. ?acts1 = acts @ more \<and> list_all is_registry_call more" by simp
  show ?thesis
  proof (cases "IntellectualObjectSave env obj1")
    case (Inl e)
    then have "acts' = ?acts1"
      using assms o1 by (auto simp: saveIntellectualObject_def Let_def)
    with base show ?thesis by simp
  next
    case (Inr r)
    show ?thesis
    proof (cases r)
      case None
      then have "acts' = ?acts1"
        using assms o1 Inr by (auto simp: saveIntellectualObject_def Let_def)
      with base show ?thesis by simp
    next
      case (Some savedObject)
      let ?obj2 = "obj1\<lparr> ObjectId := ObjectId savedObject \<rparr>"
      obtain rr1 acts2 where p: "savePremisEventsForObject env (ObjectIdentifier ?obj2)
          (PremisEvents ?obj2) (rr, ?acts1) = (rr1, acts2)"
        by (cases "savePremisEventsForObject env (ObjectIdentifier ?obj2)
          (PremisEvents ?obj2) (rr, ?acts1)")
      have "acts' = acts2"
        using assms o1 Inr Some p by (auto simp: saveIntellectualObject_def Let_def)
      moreover from savePremisEventsForObject_registry [OF p] obtain more where
        "acts2 = ?acts1 @ more" "list_all is_registry_call more" by blast
      ultimately have "acts' = acts @ ([ObjectGet (ObjectIdentifier obj), ObjectSave obj1] @ more)"
        "list_all is_registry_call ([ObjectGet (ObjectIdentifier obj), ObjectSave obj1] @ more)"
        by simp_all
      then show ?thesis by blast
    qed
  qed
qed

lemma save_batch_registry:
  assumes "save_batch env objId batch st = Inr st1"
  shows "\<exists>more. Acts st1 = Acts st @ more \<and> list_all is_registry_call more"
proof -
  from assms obtain new ex rr1 where
    s: "sort_batch env (Db st) objId batch ([], [], Result st) = Inr (new, ex, rr1)"
    by (auto simp: save_batch_def split: sum.splits)
  obtain new1 rr2 acts1 where c: "createGenericFiles env (new, rr1, Acts st) = (new1, rr2, acts1)"
    by (cases "createGenericFiles env (new, rr1, Acts st)")
  obtain rr3 acts2 where u: "updateGenericFiles env ex (rr2, acts1) = (rr3, acts2)"
    by (cases "updateGenericFiles env ex (rr2, acts1)")
  have a: "Acts st1 = acts2" using assms s c u by (auto simp: save_batch_def split: prod.splits)
  have p: "list_all is_registry_call (map FilePut files)" for files
    by (induction files) simp_all
  have "Acts st1 = Acts st @ ((if new = [] then [] else [FileBatchPost new]) @ map FilePut ex)"
    using a createGenericFiles_acts [OF c] updateGenericFiles_acts [OF u] by simp
  moreover have "list_all is_registry_call
      ((if new = [] then [] else [FileBatchPost new]) @ map FilePut ex)"
    using p by simp
  ultimately show ?thesis by blast
qed

lemma save_batches_registry:
  "save_batches env objId offset st = Inr st' \<Longrightarrow>
     \<exists>more. Acts st' = Acts st @ more \<and> list_all is_registry_call more"
proof (induction env objId offset st rule: save_batches.induct)
  case (1 env objId offset st)
  let ?batch = "FileIdentifierBatch (Db st) offset GENERIC_FILE_BATCH_SIZE"
  from "1.prems" obtain st1 where s1: "save_batch env objId ?batch st = Inr st1"
    by (auto simp: Let_def split: sum.splits)
  from save_batch_registry [OF s1] obtain more1 where
    m1: "Acts st1 = Acts st @ more1" "list_all is_registry_call more1" by blast
  show ?case
  proof (cases "length ?batch < GENERIC_FILE_BATCH_SIZE")
    case True
    then have "st' = st1" using "1.prems" s1 by (simp add: Let_def)
    with m1 show ?thesis by blast
  next
    case False
    have rec: "save_batches env objId (offset + length ?batch) st1 = Inr st'"
      using "1.prems" s1 False by (simp add: Let_def)
    from "1.IH" [OF refl s1 False rec] obtain more2 where
      m2: "Acts st' = Acts st1 @ more2" "list_all is_registry_call more2" by blast
    have "Acts st' = Acts st @ (more1 @ more2)" using m1 m2 by simp
    moreover have "list_all is_registry_call (more1 @ more2)" using m1 m2 by simp
    ultimately show ?thesis by blast
  qed
qed

lemma saveAllPharosData_registry:
  assumes "saveAllPharosData env m acts = Inr (m', db', acts')"
  shows "\<exists>more. acts' = acts @ more \<and> list_all is_registry_call more"
proof -
  have nil: "\<exists>more. acts = acts @ more \<and> list_all is_registry_call more" by simp
  show ?thesis
  proof (cases "OpenDb env (DBPath m)")
    case (Inl e)
    with assms nil show ?thesis by (simp add: saveAllPharosData_def Let_def)
  next
    case db: (Inr db)
    show ?thesis
    proof (cases "DbObject db")
      case (Inl e)
      with assms nil db show ?thesis by (simp add: saveAllPharosData_def Let_def)
    next
      case obj: (Inr obj)
      show ?thesis
      proof (cases "BuildObjectIngestEvents env obj (FileCount db)")
        case (Some e)
        with assms nil db obj show ?thesis by (simp add: saveAllPharosData_def Let_def)
      next
        case None
        obtain obj1 rr1 acts1 where o: "(if ObjectId (Object m) = 0
            then saveIntellectualObject env (obj, RecordResult m, acts)
            else (obj, RecordResult m, acts)) = (obj1, rr1, acts1)"
          by (metis prod_cases3)
        have a1: "\<exists>more. acts1 = acts @ more \<and> list_all is_registry_call more"
        proof (cases "ObjectId (Object m) = 0")
          case True
          with o saveIntellectualObject_registry show ?thesis by simp
        next
          case False
          with o show ?thesis by simp
        qed
        then obtain more1 where m1: "acts1 = acts @ more1" "list_all is_registry_call more1"
          by blast
        have r: "acts' = acts1 \<or> (\<exists>st. save_batches env (ObjectId obj1) 0
            \<lparr> Db = db\<lparr> DbObject := Inr obj1 \<rparr>, Result = rr1, Acts = acts1 \<rparr> = Inr st
             \<and> acts' = Acts st)"
        proof (cases "ObjectId (Object m) = 0 \<and> HasErrors rr1")
          case True
          then show ?thesis
            using assms db obj None o by (simp add: saveAllPharosData_def Let_def)
        next
          case False
          show ?thesis
          proof (cases "DbSaveError env (ObjectIdentifier obj1)")
            case (Some e)
            then show ?thesis
              using assms db obj None o False by (simp add: saveAllPharosData_def Let_def)
          next
            case n: None
            show ?thesis
            proof (cases "save_batches env (ObjectId obj1) 0
                \<lparr> Db = db\<lparr> DbObject := Inr obj1 \<rparr>, Result = rr1, Acts = acts1 \<rparr>")
              case (Inl p)
              then show ?thesis
                using assms db obj None o False n by (simp add: saveAllPharosData_def Let_def)
            next
              case (Inr st)
              then show ?thesis
                using assms db obj None o False n by (simp add: saveAllPharosData_def Let_def)
            qed
          qed
        qed
        then show ?thesis
        proof
          assume "acts' = acts1"
          with m1 show ?thesis by blast
        next
          assume "\<exists>st. save_batches env (ObjectId obj1) 0
            \<lparr> Db = db\<lparr> DbObject := Inr obj1 \<rparr>, Result = rr1, Acts = acts1 \<rparr> = Inr st
             \<and> acts' = Acts st"
          then obtain st where s: "save_batches env (ObjectId obj1) 0
            \<lparr> Db = db\<lparr> DbObject := Inr obj1 \<rparr>, Result = rr1, Acts = acts1 \<rparr> = Inr st"
            and a: "acts' = Acts st" by blast
          from save_batches_registry [OF s] obtain more2 where
            m2: "Acts st = acts1 @ more2" "list_all is_registry_call more2" by auto
          have "acts' = acts @ (more1 @ more2)" using a m1 m2 by simp
          moreover have "list_all is_registry_call (more1 @ more2)" using m1 m2 by simp
          ultimately show ?thesis by blast
        qed
      qed
    qed
  qed
qed


lemma record_and_cleanup_delete:
  assumes "record_and_cleanup renv env cfg now m0 = Inr (m', acts')"
    and "DeleteFromReceiving b k \<in> set acts'"
  shows "\<exists>m2 db racts rest.
      saveAllPharosData renv (start_record now m0) [] = Inr (m2, db, racts)
      \<and> list_all is_registry_call racts \<and> recorded_ok env cfg m2 \<and> DeleteOnSuccess cfg
      \<and> b = S3Bucket m2 \<and> k = S3Key m2
      \<and> acts' = racts @ cleanup_before_delete env m2 @ DeleteFromReceiving b k # rest"
proof -
  from assms(1) obtain m2 db racts where
    sa: "saveAllPharosData renv (start_record now m0) [] = Inr (m2, db, racts)"
    and cl: "cleanup env cfg now (m2, racts) = (m', acts')"
    by (auto simp: record_and_cleanup_def split: sum.splits)
  from saveAllPharosData_registry [OF sa] have reg: "list_all is_registry_call racts" by simp
  then have "DeleteFromReceiving b k \<notin> set racts" by (auto simp: list_all_iff)
  with cleanup_delete_only_recorded [OF cl assms(2)]
  have ok: "recorded_ok env cfg m2" "DeleteOnSuccess cfg" "b = S3Bucket m2" "k = S3Key m2"
    by auto
  from cleanup_recorded [OF cl ok(1)] obtain m3 acts2 where
    d: "deleteBagFromReceivingBucket env cfg now (m2, racts @ cleanup_before_delete env m2)
        = (m3, acts2)"
    and a: "acts' = acts2 @ [MarkWorkItemSucceeded StageCleanup, FinishNSQ, LogJson,
        RecordWorkItemState]"
    by blast
  from deleteBag_do [OF d ok(2)] obtain rest where
    "acts2 = (racts @ cleanup_before_delete env m2) @ DeleteFromReceiving (S3Bucket m2) (S3Key m2) # rest"
    by blast
  with a ok have "acts' = racts @ cleanup_before_delete env m2 @ DeleteFromReceiving b k
      # (rest @ [MarkWorkItemSucceeded StageCleanup, FinishNSQ, LogJson, RecordWorkItemState])"
    by simp
  with sa reg ok show ?thesis by blast
qed

lemma cleanup_no_timestamp:
  assumes "cleanup env cfg now (m, acts) = (m', acts')"
    and "TestEnv env \<noteq> ''integration''"
    and "\<And>acts0. DeleteFileFromStaging (DBPath m) \<in> set acts0
           \<Longrightarrow> LoadObject env acts0 (DBPath m) = None"
    and "SaveObjectInDb ob \<in> set acts'"
  shows "SaveObjectInDb ob \<in> set acts"
proof (cases "recorded_ok env cfg m")
  case True
  from cleanup_recorded [OF assms(1) True] obtain m2 acts2 where
    d: "deleteBagFromReceivingBucket env cfg now (m, acts @ cleanup_before_delete env m) = (m2, acts2)"
    and a: "acts' = acts2 @ [MarkWorkItemSucceeded StageCleanup, FinishNSQ, LogJson, RecordWorkItemState]"
    by blast
  have "DeleteFileFromStaging (DBPath m) \<in> set (acts @ cleanup_before_delete env m)"
    using assms(2) by (simp add: cleanup_before_delete_def)
  from assms(3) [OF this]
  have l: "LoadObject env (acts @ cleanup_before_delete env m) (DBPath m) = None" .
  from a assms(4) have "SaveObjectInDb ob \<in> set acts2" by simp
  with d l show ?thesis
    by (auto simp: deleteBagFromReceivingBucket_def Let_def cleanup_before_delete_def
        split: if_splits)
next
  case False
  from cleanup_not_recorded [OF assms(1) False] assms(4) show ?thesis by auto
qed

text \<open>
  When \<open>cleanup\<close> deletes the tar file from the receiving bucket: only for a manifest whose
  record step has no error and that is not given up, only when \<open>DeleteOnSuccess\<close> is true,
  and then with the manifest's own bucket and key; in a full run of the record worker the
  delete comes after every registry call and after the staging clean-up. When
  \<open>DeleteOnSuccess\<close> is false and recording succeeded, the actions are those of the
  staging clean-up, the save of the timestamp if the object could be loaded, and the
  closing of the work item.
\<close>

lemma cleanup_delete_after_record:
  "(cleanup env cfg now (m, acts) = (m', acts') \<longrightarrow>
      (DeleteFromReceiving b k \<in> set acts' \<longrightarrow>
         DeleteFromReceiving b k \<in> set acts
         \<or> (recorded_ok env cfg m \<and> DeleteOnSuccess cfg \<and> b = S3Bucket m \<and> k = S3Key m))
      \<and> (\<not> DeleteOnSuccess cfg \<and> recorded_ok env cfg m \<longrightarrow>
           acts' = acts @ cleanup_before_delete env m
             @ (case LoadObject env (acts @ cleanup_before_delete env m) (DBPath m) of
                  None \<Rightarrow> []
                | Some ob \<Rightarrow> [SaveObjectInDb (ob\<lparr> IngestDeletedFromReceivingAt := At now \<rparr>)])
             @ [MarkWorkItemSucceeded StageCleanup, FinishNSQ, LogJson, RecordWorkItemState]))
   \<and> (record_and_cleanup renv env cfg now m0 = Inr (m', acts')
        \<and> DeleteFromReceiving b k \<in> set acts' \<longrightarrow>
        (\<exists>m2 db racts rest.
           saveAllPharosData renv (start_record now m0) [] = Inr (m2, db, racts)
           \<and> list_all is_registry_call racts \<and> recorded_ok env cfg m2 \<and> DeleteOnSuccess cfg
           \<and> b = S3Bucket m2 \<and> k = S3Key m2
           \<and> acts' = racts @ cleanup_before_delete env m2 @ DeleteFromReceiving b k # rest))"
  using cleanup_delete_only_recorded [of env cfg now m acts m' acts' b k]
    cleanup_skip [of env cfg now m acts m' acts']
    record_and_cleanup_delete [of renv env cfg now m0 m' acts' b k]
  by blast

text \<open>
  C7: a bag that was recorded without any error, in an environment that is not an
  integration test, with \<open>DeleteOnSuccess\<close> false. \<open>cleanup\<close> deletes the staging
  database file and then \<open>deleteBagFromReceivingBucket\<close> opens that database to load the
  object: the object is not found, so the delete is skipped and no deleted-from-receiving
  timestamp is saved. With \<open>DeleteOnSuccess\<close> true the tar file is deleted from the
  receiving bucket and the timestamp is not saved either. Only in an integration run, where
  the database file is kept, the timestamp is saved.
\<close>

theorem C7_timestamp_is_not_saved:
  "DeleteOnSuccess (example_config\<lparr> DeleteOnSuccess := False \<rparr>) = False
   \<and> \<not> HasErrors (RecordResult example_manifest)
   \<and> TestEnv example_cleanup_env \<noteq> ''integration''
   \<and> snd (cleanup example_cleanup_env (example_config\<lparr> DeleteOnSuccess := False \<rparr>) 9
            (example_manifest, []))
       = [MarkWorkItemStarted ''Cleanup'', DeleteFileFromStaging ''/mnt/apt/data/bag.tar'',
          DeleteFileFromStaging ''/mnt/apt/data/bag.valdb'',
          MarkWorkItemSucceeded ''Cleanup'', FinishNSQ, LogJson, RecordWorkItemState]
   \<and> snd (cleanup example_cleanup_env example_config 9 (example_manifest, []))
       = [MarkWorkItemStarted ''Cleanup'', DeleteFileFromStaging ''/mnt/apt/data/bag.tar'',
          DeleteFileFromStaging ''/mnt/apt/data/bag.valdb'',
          DeleteFromReceiving ''aptrust.receiving.test.edu'' ''bag.tar'',
          MarkWorkItemSucceeded ''Cleanup'', FinishNSQ, LogJson, RecordWorkItemState]
   \<and> snd (cleanup (example_cleanup_env\<lparr> TestEnv := ''integration'' \<rparr>)
            (example_config\<lparr> DeleteOnSuccess := False \<rparr>) 9 (example_manifest, []))
       = [MarkWorkItemStarted ''Cleanup'', DeleteFileFromStaging ''/mnt/apt/data/bag.tar'',
          SaveObjectInDb (example_object\<lparr> IngestDeletedFromReceivingAt := At 9 \<rparr>),
          MarkWorkItemSucceeded ''Cleanup'', FinishNSQ, LogJson, RecordWorkItemState]"
  by code_simp

subsection \<open>C9: a restore that is already in progress\<close>

lemma SaveDPNWorkItem_snd:
  "snd (SaveDPNWorkItem env sa)
     = snd sa @ [DPNWorkItemSave (WorkItem (fst (SaveDPNWorkItem env sa)))]"
  by (simp add: SaveDPNWorkItem_def Let_def split: option.splits)

lemma SaveDPNWorkItem_keeps:
  "RequestAccepted (fst (SaveDPNWorkItem env sa)) = RequestAccepted (fst sa)
   \<and> RequestedAt (fst (SaveDPNWorkItem env sa)) = RequestedAt (fst sa)"
  by (simp add: SaveDPNWorkItem_def Let_def split: option.splits)

lemma SaveDPNWorkItem_filter:
  "filter is_restore_request (snd (SaveDPNWorkItem env sa)) = filter is_restore_request (snd sa)"
  by (simp add: SaveDPNWorkItem_def Let_def split: option.splits)

lemma SendToDownloadQueue_filter:
  "filter is_restore_request (snd (SendToDownloadQueue env sa))
     = filter is_restore_request (snd sa)"
  by (simp add: SendToDownloadQueue_def Let_def SaveDPNWorkItem_filter split: option.splits)

lemma FinishWithSuccess_filter:
  "filter is_restore_request (snd (FinishWithSuccess env sa))
     = filter is_restore_request (snd sa)"
  by (simp add: FinishWithSuccess_def Let_def SaveDPNWorkItem_filter SendToDownloadQueue_filter)

lemma FinishWithError_filter:
  "filter is_restore_request (snd (FinishWithError env sa))
     = filter is_restore_request (snd sa)"
  by (simp add: FinishWithError_def Let_def SaveDPNWorkItem_filter)

lemma Cleanup_filter:
  "filter is_restore_request (snd (Cleanup env sa)) = filter is_restore_request (snd sa)"
  by (simp add: Cleanup_def FinishWithError_filter FinishWithSuccess_filter)

lemma RequestRestore_acts:
  assumes "RequestRestore env now (st, []) = Inr sa"
  shows "snd sa = [HeadRequest (GlacierBucket st) (GlacierKey st)]
       \<or> snd sa = [HeadRequest (GlacierBucket st) (GlacierKey st),
                   RestoreRequest (GlacierBucket st) (GlacierKey st) ''Bulk'' 60]"
  using assms
  by (auto simp: RequestRestore_def RestoreRequestNeeded_def InitializeRetrieval_def Let_def
      RETRIEVAL_OPTION_def DAYS_TO_KEEP_IN_S3_def
      split: if_splits option.splits sum.splits prod.splits)

lemma RequestRestore_conflict:
  assumes "Contains (Head env (GlacierBucket st) (GlacierKey st)) ''Conflict''"
  shows "RequestRestore env now (st, [])
     = Inr (st\<lparr> RequestAccepted := True, RequestedAt := At now \<rparr>,
            [HeadRequest (GlacierBucket st) (GlacierKey st)])"
  using assms by (simp add: RequestRestore_def RestoreRequestNeeded_def Let_def)

lemma FinishWithSuccess_requeue:
  assumes "\<not> IsAvailableInS3 (fst sa)"
  shows "\<exists>sa1. FinishWithSuccess env sa = (fst sa1, snd sa1 @ [NSQRequeue (3 * Hour)])
      \<and> snd sa1 = snd sa @ [DPNWorkItemSave (WorkItem (fst sa1))]
      \<and> RequestAccepted (fst sa1) = RequestAccepted (fst sa)
      \<and> RequestedAt (fst sa1) = RequestedAt (fst sa)"
proof -
  define nt where "nt = ''Glacier restore initiated. Will check availability in S3 every ''
                 @ decimal HOURS_BETWEEN_CHECKS @ '' hours.''"
  define st2 where "st2 = (fst sa)\<lparr> WorkItem := (ClearNodeAndPid (WorkItem (fst sa)))\<lparr>
      Note := Some nt, ItemRetry := True \<rparr> \<rparr>"
  define sa1 where "sa1 = SaveDPNWorkItem env (st2, snd sa)"
  have 1: "FinishWithSuccess env sa
      = (fst sa1, snd sa1 @ [NSQRequeue (HOURS_BETWEEN_CHECKS * Hour)])"
    using assms unfolding FinishWithSuccess_def Let_def sa1_def st2_def nt_def by simp
  have 2: "snd sa1 = snd sa @ [DPNWorkItemSave (WorkItem (fst sa1))]"
    using SaveDPNWorkItem_snd [of env "(st2, snd sa)"] unfolding sa1_def by simp
  have 3: "RequestAccepted (fst sa1) = RequestAccepted (fst sa)
      \<and> RequestedAt (fst sa1) = RequestedAt (fst sa)"
    using SaveDPNWorkItem_keeps [of env "(st2, snd sa)"] unfolding sa1_def
    by (simp add: st2_def)
  have 4: "HOURS_BETWEEN_CHECKS * Hour = 3 * Hour" by (simp add: HOURS_BETWEEN_CHECKS_def)
  show ?thesis using 1 2 3 unfolding 4 by blast
qed

lemma request_and_cleanup_conflict:
  assumes "Contains (Head env (GlacierBucket st) (GlacierKey st)) ''Conflict''"
    and "ErrorMessage st = []" and "\<not> IsAvailableInS3 st"
  shows "\<exists>st'. request_and_cleanup env now st
       = Inr (st', [HeadRequest (GlacierBucket st) (GlacierKey st),
                    DPNWorkItemSave (WorkItem st'), NSQRequeue (3 * Hour)])
     \<and> RequestAccepted st' \<and> RequestedAt st' = At now"
proof -
  define st1 where "st1 = st\<lparr> RequestAccepted := True, RequestedAt := At now \<rparr>"
  define h where "h = [HeadRequest (GlacierBucket st) (GlacierKey st)]"
  have r: "RequestRestore env now (st, []) = Inr (st1, h)"
    using RequestRestore_conflict [OF assms(1)] by (simp add: st1_def h_def)
  have e: "ErrorMessage st1 = []" "\<not> IsAvailableInS3 st1" "RequestAccepted st1"
    "RequestedAt st1 = At now"
    using assms by (simp_all add: st1_def)
  from FinishWithSuccess_requeue [of "(st1, h)" env] e obtain sa1 where
    f: "FinishWithSuccess env (st1, h) = (fst sa1, snd sa1 @ [NSQRequeue (3 * Hour)])"
      "snd sa1 = h @ [DPNWorkItemSave (WorkItem (fst sa1))]"
      "RequestAccepted (fst sa1)" "RequestedAt (fst sa1) = At now"
    by auto
  have c: "Cleanup env (st1, h) = FinishWithSuccess env (st1, h)"
    using e by (simp add: Cleanup_def)
  have "request_and_cleanup env now st
      = Inr (fst sa1, [HeadRequest (GlacierBucket st) (GlacierKey st),
                       DPNWorkItemSave (WorkItem (fst sa1)), NSQRequeue (3 * Hour)])"
    unfolding request_and_cleanup_def r using c f by (simp add: h_def)
  with f show ?thesis by blast
qed

lemma request_and_cleanup_restore:
  assumes "request_and_cleanup env now st = Inr (st', acts)"
    and "RestoreRequest b k tier days \<in> set acts"
  shows "b = GlacierBucket st \<and> k = GlacierKey st \<and> tier = ''Bulk'' \<and> days = 60"
proof -
  from assms(1) obtain sa where r: "RequestRestore env now (st, []) = Inr sa"
    and c: "Cleanup env sa = (st', acts)"
    by (cases "RequestRestore env now (st, [])") (simp_all add: request_and_cleanup_def)
  from Cleanup_filter [of env sa] c
  have f: "filter is_restore_request acts = filter is_restore_request (snd sa)" by simp
  from assms(2) have "RestoreRequest b k tier days \<in> set (filter is_restore_request acts)"
    by simp
  then have "RestoreRequest b k tier days \<in> set (snd sa)" unfolding f by simp
  with RequestRestore_acts [OF r] show ?thesis by auto
qed

text \<open>
  C9: when the error message of the HEAD request contains \<open>Conflict\<close> (the 409 answer), for
  a state that arrives on the request channel (no error message, not yet marked as available
  in S3), the worker marks the request as accepted, sets the requested-at time, sends no
  restore request, saves the work item and requeues the message for three hours. Every
  restore request the worker sends is for the state's bucket and key, in the Bulk tier, for
  60 days.
\<close>

theorem C9_conflict_requeues:
  "(Contains (Head env (GlacierBucket st) (GlacierKey st)) ''Conflict''
      \<and> ErrorMessage st = [] \<and> \<not> IsAvailableInS3 st \<longrightarrow>
      (\<exists>st'. request_and_cleanup env now st
           = Inr (st', [HeadRequest (GlacierBucket st) (GlacierKey st),
                        DPNWorkItemSave (WorkItem st'),
                        NSQRequeue (3 * 60 * 60 * 1000000000)])
         \<and> RequestAccepted st' \<and> RequestedAt st' = At now))
   \<and> (request_and_cleanup env now st = Inr (st2, acts)
        \<and> RestoreRequest b k tier days \<in> set acts \<longrightarrow>
        b = GlacierBucket st \<and> k = GlacierKey st \<and> tier = ''Bulk'' \<and> days = 60)"
proof -
  have h: "3 * Hour = 3 * 60 * 60 * 1000000000" by (simp add: Hour_def Minute_def)
  show ?thesis
    using request_and_cleanup_conflict [of env st now]
      request_and_cleanup_restore [of env now st st2 acts b k tier days]
    unfolding h by blast
qed

theorem C9_conflict_requeues_witness:
  "(\<exists>st'. request_and_cleanup (example_restore_env ''409 Conflict'') 1000 example_restore_state
        = Inr (st', [HeadRequest ''aptrust.dpn.preservation''
                       ''b3b1c0b8-5f0c-4d1a-9d3e-1c2f3a4b5c6d'',
                     DPNWorkItemSave (WorkItem st'),
                     NSQRequeue 10800000000000])
      \<and> RequestAccepted st' \<and> RequestedAt st' = At 1000)
   \<and> (\<exists>st2 item. request_and_cleanup (example_restore_env ''404 Not Found'') 1000
          example_restore_state
        = Inr (st2, [HeadRequest ''aptrust.dpn.preservation''
                       ''b3b1c0b8-5f0c-4d1a-9d3e-1c2f3a4b5c6d'',
                     RestoreRequest ''aptrust.dpn.preservation''
                       ''b3b1c0b8-5f0c-4d1a-9d3e-1c2f3a4b5c6d'' ''Bulk'' 60,
                     DPNWorkItemSave item, NSQRequeue 10800000000000]))"
proof -
  have c: "Contains (Head (example_restore_env ''409 Conflict'')
      (GlacierBucket example_restore_state) (GlacierKey example_restore_state)) ''Conflict''"
    by code_simp
  have e: "ErrorMessage example_restore_state = []" by code_simp
  have a: "\<not> IsAvailableInS3 example_restore_state" by code_simp
  have b: "GlacierBucket example_restore_state = ''aptrust.dpn.preservation''" by code_simp
  have k: "GlacierKey example_restore_state = ''b3b1c0b8-5f0c-4d1a-9d3e-1c2f3a4b5c6d''"
    by code_simp
  have n: "\<not> Contains (Head (example_restore_env ''404 Not Found'')
      (GlacierBucket example_restore_state) (GlacierKey example_restore_state)) ''Conflict''"
    by code_simp
  have 2: "\<exists>st2 item. request_and_cleanup (example_restore_env ''404 Not Found'') 1000
          example_restore_state
        = Inr (st2, [HeadRequest ''aptrust.dpn.preservation''
                       ''b3b1c0b8-5f0c-4d1a-9d3e-1c2f3a4b5c6d'',
                     RestoreRequest ''aptrust.dpn.preservation''
                       ''b3b1c0b8-5f0c-4d1a-9d3e-1c2f3a4b5c6d'' ''Bulk'' 60,
                     DPNWorkItemSave item, NSQRequeue 10800000000000])"
    using n unfolding b k
    by (simp add: request_and_cleanup_def RequestRestore_def RestoreRequestNeeded_def
        InitializeRetrieval_def Cleanup_def FinishWithSuccess_def SaveDPNWorkItem_def Let_def
        example_restore_env_def example_restore_state_def RETRIEVAL_OPTION_def
        DAYS_TO_KEEP_IN_S3_def HOURS_BETWEEN_CHECKS_def Hour_def Minute_def)
  from C9_conflict_requeues [of "example_restore_env ''409 Conflict''" example_restore_state 1000]
    c e a
  have "\<exists>st'. request_and_cleanup (example_restore_env ''409 Conflict'') 1000
          example_restore_state
        = Inr (st', [HeadRequest (GlacierBucket example_restore_state)
                       (GlacierKey example_restore_state),
                     DPNWorkItemSave (WorkItem st'),
                     NSQRequeue (3 * 60 * 60 * 1000000000)])
      \<and> RequestAccepted st' \<and> RequestedAt st' = At 1000"
    by blast
  then have 1: "\<exists>st'. request_and_cleanup (example_restore_env ''409 Conflict'') 1000
          example_restore_state
        = Inr (st', [HeadRequest ''aptrust.dpn.preservation''
                       ''b3b1c0b8-5f0c-4d1a-9d3e-1c2f3a4b5c6d'',
                     DPNWorkItemSave (WorkItem st'),
                     NSQRequeue 10800000000000])
      \<and> RequestAccepted st' \<and> RequestedAt st' = At 1000"
    unfolding b k by simp
  from 1 2 show ?thesis by blast
qed

subsection \<open>C10: the check of the manifest before untarring\<close>

lemma Untar_valid_manifest:
  assumes "ManifestObject m = Some ob"
    and "ObjectIdentifier ob \<noteq> []" and "BagName ob \<noteq> []" and "Institution ob \<noteq> []"
    and "IngestTarFilePath ob \<noteq> []"
    and "FilepathAbs fs (IngestTarFilePath ob) = Inr (IngestTarFilePath ob)"
    and "OsStat fs (IngestTarFilePath ob) = StatFile"
    and "Errors (UntarSummary m) = []"
  shows "Untar fs now m = Inr (m\<lparr> UntarSummary := (UntarSummary m)\<lparr> Attempted := True,
             AttemptNumber := AttemptNumber (UntarSummary m) + 1,
             StartedAt := At now, FinishedAt := At now \<rparr> \<rparr>, [])"
  using assms
  by (simp add: Untar_def ManifestInfoIsValid_def RecordStartOfWork_def Let_def Start_def
      Finish_def HasErrors_def)

text \<open>
  C10: \<open>ManifestInfoIsValid\<close> returns \<open>HasErrors()\<close>, so \<open>Untar\<close> stops exactly when the
  checks found nothing wrong. For a manifest that passes every check, with the tar file in
  place, \<open>Untar\<close> returns without opening the tar file and records no error and no file.
  For the manifest of the test \<open>TestManifestInfoIsValid\<close>, with identifier, bag name,
  institution and tar path empty, \<open>Untar\<close> records the five errors of the checks, goes on
  to open the tar file, and records a sixth error; the test expects five.
\<close>

theorem C10_valid_manifest_is_not_untarred:
  "OsStat example_fs ''/mnt/apt/data/bag.tar'' = StatFile
   \<and> FilepathAbs example_fs ''/mnt/apt/data/bag.tar'' = Inr ''/mnt/apt/data/bag.tar''
   \<and> length (case OsOpenTar example_fs ''/mnt/apt/data/bag.tar'' of Inl e \<Rightarrow> [] | Inr hs \<Rightarrow> hs) = 3
   \<and> Untar example_fs 5 valid_reader_manifest
       = Inr (valid_reader_manifest\<lparr> UntarSummary := NewWorkSummary\<lparr> Attempted := True,
                AttemptNumber := 1, StartedAt := At 5, FinishedAt := At 5 \<rparr> \<rparr>, [])
   \<and> (case Untar example_fs 5 empty_reader_manifest of
         Inl p \<Rightarrow> False
       | Inr (m, acts) \<Rightarrow>
           acts = [OsOpen []]
           \<and> Errors (UntarSummary m)
               = [''IntellectualObject has no Identifier.'',
                  ''IntellectualObject has no BagName.'',
                  ''IntellectualObject has no Institution.'',
                  ''IntellectualObject is missing IngestTarFilePath.'',
                  ''IngestTarFilePath '' @ [CHR 0x27, CHR 0x27] @ '' does not exist.'',
                  ''Could not open file  for untarring: open : no such file or directory''])"
  by code_simp

end
